(* ===== verification/Prelude.thy ===== *)
theory Prelude
  imports Main "HOL-Library.Finite_Map" "HOL-Library.Multiset"
begin

text \<open>
  Shared vocabulary of the development: the semantics of the few Go idioms the
  provisioning code relies on (indexing a map with a missing key yields the zero
  value, \<open>errors.Wrapf\<close> of a nil error is nil, folding the errors received on a
  channel into one), the named theorem collections that the component theories
  fill, and generic lemmas on lists and maps that the component proofs share.
\<close>

named_theorems api_simps "evaluation rules of the backing-store API model"
named_theorems model_defs "constants of the model to unfold on concrete inputs"

section \<open>Go idioms\<close>

text \<open>Indexing a Go map whose values are slices: a missing key gives the nil slice.\<close>

definition go_index :: "('k \<rightharpoonup> 'v list) \<Rightarrow> 'k \<Rightarrow> 'v list" where
  "go_index m k = (case m k of None \<Rightarrow> [] | Some v \<Rightarrow> v)"

text \<open>
  \<open>errors.Wrapf(err, ...)\<close> of package \<open>github.com/pkg/errors\<close> returns nil when
  \<open>err\<close> is nil and a wrapped error otherwise; \<open>wrap\<close> is the wrapping constructor.
\<close>

definition go_wrapf :: "('e \<Rightarrow> 'e) \<Rightarrow> 'e option \<Rightarrow> 'e option" where
  "go_wrapf wrap err = map_option wrap err"

text \<open>
  The receive loop of a fan-in: the first error is kept as it is, every further
  error \<open>e\<close> replaces the accumulated one by \<open>comb acc e\<close>
  (\<open>errors.Wrap(e, acc.Error())\<close> in the source).
\<close>

definition fold_errors :: "('e \<Rightarrow> 'e \<Rightarrow> 'e) \<Rightarrow> 'e list \<Rightarrow> 'e option" where
  "fold_errors comb es =
     foldl (\<lambda>acc e. case acc of None \<Rightarrow> Some e | Some p \<Rightarrow> Some (comb p e)) None es"

section \<open>Lemmas on the Go idioms\<close>

lemma go_index_Some [simp]: "m k = Some v \<Longrightarrow> go_index m k = v"
  by (simp add: go_index_def)

lemma go_index_None [simp]: "m k = None \<Longrightarrow> go_index m k = []"
  by (simp add: go_index_def)

lemma go_wrapf_simps [simp]:
  "go_wrapf wrap None = None"
  "go_wrapf wrap (Some e) = Some (wrap e)"
  by (simp_all add: go_wrapf_def)

lemma foldl_errors_Some:
  "foldl (\<lambda>acc e. case acc of None \<Rightarrow> Some e | Some p \<Rightarrow> Some (comb p e)) (Some a) es \<noteq> None"
  by (induction es arbitrary: a) auto

lemma fold_errors_None_iff [simp]: "fold_errors comb es = None \<longleftrightarrow> es = []"
proof (cases es)
  case Nil
  then show ?thesis by (simp add: fold_errors_def)
next
  case (Cons e es')
  then show ?thesis by (simp add: fold_errors_def foldl_errors_Some)
qed

section \<open>Maps\<close>

lemma map_delete_absent: "m k = None \<Longrightarrow> m(k := None) = m"
  by auto

text \<open>Folds the pointwise form of an update, which the record simplifier can leave behind.\<close>

lemma fun_upd_lambda: "(\<lambda>a. if a = t then x else f a) = f(t := x)"
  by (rule ext) simp

lemma fun_upd_const_same [simp]: "(\<lambda>_. c)(x := c) = (\<lambda>_. c)"
  by auto

section \<open>Lists, sums and relations\<close>

lemma sum_list_map_update:
  fixes f :: "'a \<Rightarrow> 'b :: comm_monoid_add"
  shows "i < length xs \<Longrightarrow> sum_list (map f (xs[i := v])) + f (xs ! i) = sum_list (map f xs) + f v"
  by (induction xs arbitrary: i) (auto simp: add_ac split: nat.splits)

lemma take_prefix_append:
  "take (length p) xs = p \<Longrightarrow> take (length p) (xs @ ys) = p \<and>
     drop (length p) (xs @ ys) = drop (length p) xs @ ys"
  by (metis append_assoc append_eq_conv_conj append_take_drop_id)

text \<open>Two terminal states reached by a deterministic relation from one start coincide.\<close>

lemma det_rtranclp_final:
  assumes det: "\<And>x y z. R x y \<Longrightarrow> R x z \<Longrightarrow> y = z"
    and "R\<^sup>*\<^sup>* a b" "R\<^sup>*\<^sup>* a c" "\<And>y. \<not> R b y" "\<And>y. \<not> R c y"
  shows "b = c"
  using assms(2,3,5)
proof (induction arbitrary: c rule: converse_rtranclp_induct)
  case base
  then show ?case using assms(4) by (auto elim: converse_rtranclpE)
next
  case (step a a')
  from step.prems(1) show ?case
  proof (cases rule: converse_rtranclpE)
    case base then show ?thesis using step.hyps(1) step.prems(2) by blast
  next
    case (step a'')
    then have "a'' = a'" using det step.hyps(1) by blast
    then show ?thesis using step.IH step(2) \<open>\<And>y. \<not> R c y\<close> by simp
  qed
qed

end
