(* ===== verification/Policy.thy ===== *)
theory Policy
  imports Prelude
begin

text \<open>
  The policy tables of \<open>src/components/kubeconfig-service/pkg/runtime/runtime.go\<close>
  (lines 36--71): the string constants of the package, the RBAC value types the
  tables are made of (\<open>rbacv1.PolicyRule\<close>, \<open>metav1.LabelSelector\<close>), and the two
  package-level maps \<open>L2L3OperatorPolicyRule\<close> and \<open>L2L3OperatorAggregationRule\<close>
  from a privilege level to its permission rules and to its aggregation selectors.
  A Go map literal is a HOL map; indexing it is \<open>go_index\<close>, which yields the nil
  slice for a key outside the table, as Go does.
\<close>

section \<open>Package constants\<close>

definition SA :: string where "SA = ''SA''"
definition ClusterRole :: string where "ClusterRole = ''ClusterRole''"
definition ClusterRoleBinding :: string where "ClusterRoleBinding = ''ClusterRoleBinding''"
definition Namespace_const :: string where "Namespace_const = ''kube-system''"
definition RUNTIME_ADMIN :: string where "RUNTIME_ADMIN = ''runtimeAdmin''"
definition RUNTIME_OPERATOR :: string where "RUNTIME_OPERATOR = ''runtimeOperator''"
definition ServiceAccount :: string where "ServiceAccount = ''ServiceAccount''"

text \<open>\<open>rbacv1.GroupName\<close>, the API group of the RBAC objects.\<close>

definition rbac_GroupName :: string where "rbac_GroupName = ''rbac.authorization.k8s.io''"

section \<open>RBAC value types\<close>

text \<open>\<open>rbacv1.PolicyRule\<close>: a grant of verbs on resources of API groups, or on URLs.\<close>

record PolicyRule =
  Verbs :: "string list"
  APIGroups :: "string list"
  Resources :: "string list"
  ResourceNames :: "string list"
  NonResourceURLs :: "string list"

text \<open>
  The rule builder of \<open>k8s.io/kubernetes/pkg/apis/rbac/v1\<close>:
  \<open>NewRule(verbs...).Groups(gs...).Resources(rs...).RuleOrDie()\<close> and
  \<open>NewRule(verbs...).URLs(us...).RuleOrDie()\<close>.
\<close>

definition resource_rule :: "string list \<Rightarrow> string list \<Rightarrow> string list \<Rightarrow> PolicyRule" where
  "resource_rule vs gs rs =
     \<lparr>Verbs = vs, APIGroups = gs, Resources = rs, ResourceNames = [], NonResourceURLs = []\<rparr>"

definition url_rule :: "string list \<Rightarrow> string list \<Rightarrow> PolicyRule" where
  "url_rule vs us =
     \<lparr>Verbs = vs, APIGroups = [], Resources = [], ResourceNames = [], NonResourceURLs = us\<rparr>"

text \<open>
  \<open>metav1.LabelSelector\<close>; the code only ever fills \<open>MatchLabels\<close>, a Go
  \<open>map[string]string\<close>, modelled as a finite map (whose equality is Go's
  \<open>reflect.DeepEqual\<close> on maps: same keys, same values, order irrelevant).
\<close>

record LabelSelector =
  MatchLabels :: "(string, string) fmap"

text \<open>The one-entry label map \<open>map[string]string{label: "true"}\<close>.\<close>

definition true_label :: "string \<Rightarrow> (string, string) fmap" where
  "true_label l = fmupd l ''true'' fmempty"

section \<open>The policy tables\<close>

definition L2L3OperatorPolicyRule :: "string \<rightharpoonup> PolicyRule list" where
  "L2L3OperatorPolicyRule =
     [RUNTIME_ADMIN \<mapsto>
        [resource_rule [''*''] [''*''] [''*''],
         url_rule [''*''] [''*'']],
      RUNTIME_OPERATOR \<mapsto>
        [resource_rule [''get'', ''list'', ''watch''] [''*''] [''*''],
         url_rule [''get'', ''list'', ''watch''] [''*'']]]"

definition L2L3OperatorAggregationRule :: "string \<rightharpoonup> LabelSelector list" where
  "L2L3OperatorAggregationRule =
     [RUNTIME_ADMIN \<mapsto>
        [\<lparr>MatchLabels = true_label ''rbac.authorization.k8s.io/aggregate-to-admin''\<rparr>],
      RUNTIME_OPERATOR \<mapsto>
        [\<lparr>MatchLabels = true_label ''rbac.authorization.k8s.io/aggregate-to-edit''\<rparr>]]"

text \<open>The guard of \<open>createClusterRoleRules\<close>: the two privilege levels the tables know.\<close>

definition valid_role :: "string \<Rightarrow> bool" where
  "valid_role r \<longleftrightarrow> \<not> (r \<noteq> RUNTIME_ADMIN \<and> r \<noteq> RUNTIME_OPERATOR)"

lemmas const_defs [model_defs] = SA_def ClusterRole_def ClusterRoleBinding_def Namespace_const_def
  RUNTIME_ADMIN_def RUNTIME_OPERATOR_def ServiceAccount_def rbac_GroupName_def

lemmas policy_defs [model_defs] = L2L3OperatorPolicyRule_def L2L3OperatorAggregationRule_def
  resource_rule_def url_rule_def true_label_def valid_role_def

section \<open>Properties of the tables\<close>

lemma RUNTIME_ADMIN_neq_OPERATOR [simp]: "RUNTIME_ADMIN \<noteq> RUNTIME_OPERATOR"
  by (simp add: RUNTIME_ADMIN_def RUNTIME_OPERATOR_def)

lemma valid_role_iff: "valid_role r \<longleftrightarrow> r = RUNTIME_ADMIN \<or> r = RUNTIME_OPERATOR"
  by (auto simp: valid_role_def)

text \<open>The two tables have exactly the valid privilege levels as keys.\<close>

lemma dom_L2L3OperatorPolicyRule: "dom L2L3OperatorPolicyRule = {r. valid_role r}"
  by (auto simp: L2L3OperatorPolicyRule_def valid_role_iff)

lemma dom_L2L3OperatorAggregationRule: "dom L2L3OperatorAggregationRule = {r. valid_role r}"
  by (auto simp: L2L3OperatorAggregationRule_def valid_role_iff)

text \<open>A valid level selects a non-empty rule set and a non-empty selector list.\<close>

lemma policy_rules_nonempty: "valid_role r \<Longrightarrow> go_index L2L3OperatorPolicyRule r \<noteq> []"
  by (auto simp: valid_role_iff L2L3OperatorPolicyRule_def)

lemma aggregation_rules_nonempty: "valid_role r \<Longrightarrow> go_index L2L3OperatorAggregationRule r \<noteq> []"
  by (auto simp: valid_role_iff L2L3OperatorAggregationRule_def)

text \<open>The operator level grants only the read verbs; the admin level grants every verb.\<close>

lemma operator_rules_read_only:
  "\<forall>p \<in> set (go_index L2L3OperatorPolicyRule RUNTIME_OPERATOR).
     set (Verbs p) \<subseteq> {''get'', ''list'', ''watch''}"
  by (simp add: L2L3OperatorPolicyRule_def resource_rule_def url_rule_def)

end
