(* ===== verification/Builders.thy ===== *)
theory Builders
  imports Policy
begin

text \<open>
  The identity of one provisioning request and the resource builders of
  \<open>runtime.go\<close>: \<open>SAInfo\<close> (lines 25--34) as derived by \<open>NewRuntimeClient\<close>
  (lines 99--107), the whole constructor with its three fallible library calls
  (\<open>NewRuntimeClientE\<close>, lines 84--109), the Kubernetes objects the code creates (only the fields it sets
  or compares), and the pure constructors \<open>initServiceAccount\<close>,
  \<open>initClusterRoleRules\<close>, \<open>initClusterRole\<close>, \<open>initCRBindingE\<close> and
  \<open>initCRBinding\<close> (lines 331--397).
\<close>

section \<open>The identity\<close>

record SAInfo =
  ServiceAccountName :: string
  ClusterRoleName :: string
  ClusterRoleAggrLabel :: string
  ClusterRoleRulesName :: string
  ClusterRoleBindingName :: string
  Namespace :: string
  SecretName :: string
  TenantID :: string

text \<open>The names \<open>NewRuntimeClient\<close> derives from the user id and the tenant.\<close>

definition newSAInfo :: "string \<Rightarrow> string \<Rightarrow> SAInfo" where
  "newSAInfo userID tenant =
     \<lparr>ServiceAccountName = userID,
      ClusterRoleName = userID,
      ClusterRoleAggrLabel = ''rbac.authorization.k8s.io/aggregate-to-'' @ userID,
      ClusterRoleRulesName = userID @ ''-rules'',
      ClusterRoleBindingName = userID,
      Namespace = Namespace_const,
      SecretName = '''',
      TenantID = tenant\<rparr>"

text \<open>
  \<open>RuntimeClient\<close> (lines 73--82) without its two API clients, which are the
  world the operations are run against. \<open>ExpireTime\<close> is the package variable
  (declared outside \<open>runtime.go\<close>) that \<open>getServiceAccountToken\<close> converts to
  seconds; it is carried here so that the token request can be stated.
\<close>

record RuntimeClient =
  User :: SAInfo
  L2L3OperatiorRole :: string
  RollbackE :: "string list"
  ExpireTime :: int

text \<open>The pure part of \<open>NewRuntimeClient\<close>: the identity and an empty rollback ledger.\<close>

definition NewRuntimeClient :: "string \<Rightarrow> string \<Rightarrow> string \<Rightarrow> int \<Rightarrow> RuntimeClient" where
  "NewRuntimeClient userID l2L3OperatiorRole tenant expire =
     \<lparr>User = newSAInfo userID tenant, L2L3OperatiorRole = l2L3OperatiorRole,
      RollbackE = [], ExpireTime = expire\<rparr>"

text \<open>
  The whole of \<open>NewRuntimeClient\<close>. It makes three fallible library calls, which
  are parameters here: \<open>clientcmd.RESTConfigFromKubeConfig\<close> on the kubeconfig,
  \<open>kubernetes.NewForConfig\<close> on the parsed config, and \<open>GetK8sClient\<close> for the
  in-cluster client. It returns the first error (\<open>Inl\<close>). Otherwise it returns the
  two clientsets \<open>K8s\<close> and \<open>KcpK8s\<close> with the client.
\<close>

definition NewRuntimeClientE ::
  "(string \<Rightarrow> 'err + 'cfg) \<Rightarrow> ('cfg \<Rightarrow> 'err + 'cs) \<Rightarrow> 'err + 'cs \<Rightarrow>
     string \<Rightarrow> string \<Rightarrow> string \<Rightarrow> string \<Rightarrow> int \<Rightarrow> 'err + ('cs \<times> 'cs \<times> RuntimeClient)" where
  "NewRuntimeClientE RESTConfigFromKubeConfig NewForConfig GetK8sClient kubeConfig userID l2L3OperatiorRole tenant expire =
     (case RESTConfigFromKubeConfig kubeConfig of
        Inl err \<Rightarrow> Inl err
      | Inr config \<Rightarrow>
          (case NewForConfig config of
             Inl err \<Rightarrow> Inl err
           | Inr clientset \<Rightarrow>
               (case GetK8sClient of
                  Inl err \<Rightarrow> Inl err
                | Inr coreClientset \<Rightarrow>
                    Inr (clientset, coreClientset, NewRuntimeClient userID l2L3OperatiorRole tenant expire))))"

section \<open>Kubernetes objects\<close>

record ObjectMeta =
  ObjName :: string
  ObjNamespace :: string
  ObjLabels :: "(string, string) fmap"

record ServiceAccountObj =
  sa_meta :: ObjectMeta

text \<open>
  \<open>rbacv1.ClusterRole\<close>; \<open>AggregationRule\<close> is a pointer in Go, \<open>None\<close> for nil,
  and otherwise holds its \<open>ClusterRoleSelectors\<close>.
\<close>

record ClusterRoleObj =
  cr_meta :: ObjectMeta
  Rules :: "PolicyRule list"
  AggregationRule :: "LabelSelector list option"

record RoleRef =
  RoleRef_APIGroup :: string
  RoleRef_Kind :: string
  RoleRef_Name :: string

record Subject =
  Subject_Kind :: string
  Subject_Name :: string
  Subject_Namespace :: string

record ClusterRoleBindingObj =
  crb_meta :: ObjectMeta
  crb_RoleRef :: RoleRef
  Subjects :: "Subject list"

section \<open>Builders\<close>

definition initServiceAccount :: "SAInfo \<Rightarrow> ServiceAccountObj" where
  "initServiceAccount user =
     \<lparr>sa_meta = \<lparr>ObjName = ServiceAccountName user, ObjNamespace = Namespace user,
                 ObjLabels = fmempty\<rparr>\<rparr>"

definition initClusterRoleRules :: "string \<Rightarrow> string \<Rightarrow> string \<Rightarrow> ClusterRoleObj" where
  "initClusterRoleRules clusterRoleName l2L3OperatiorRole aggregationLabel =
     \<lparr>cr_meta = \<lparr>ObjName = clusterRoleName, ObjNamespace = '''',
                 ObjLabels = true_label aggregationLabel\<rparr>,
      Rules = go_index L2L3OperatorPolicyRule l2L3OperatiorRole,
      AggregationRule = None\<rparr>"

text \<open>
  The selector list the aggregating role carries and its verifier expects: the
  table's selectors for the level, then the identity's own aggregation label
  (lines 273--279 and 358--366 build the same list).
\<close>

definition expectedSelectors :: "string \<Rightarrow> string \<Rightarrow> LabelSelector list" where
  "expectedSelectors l2L3OperatiorRole aggregationLabel =
     [] @ go_index L2L3OperatorAggregationRule l2L3OperatiorRole
        @ [\<lparr>MatchLabels = true_label aggregationLabel\<rparr>]"

definition initClusterRole :: "string \<Rightarrow> string \<Rightarrow> string \<Rightarrow> ClusterRoleObj" where
  "initClusterRole clusterRoleName l2L3OperatiorRole aggregationLabel =
     \<lparr>cr_meta = \<lparr>ObjName = clusterRoleName, ObjNamespace = '''', ObjLabels = fmempty\<rparr>,
      Rules = [],
      AggregationRule = Some (expectedSelectors l2L3OperatiorRole aggregationLabel)\<rparr>"

definition initCRBindingE :: "SAInfo \<Rightarrow> ObjectMeta \<times> RoleRef \<times> Subject list" where
  "initCRBindingE user =
     (\<lparr>ObjName = ClusterRoleBindingName user, ObjNamespace = '''', ObjLabels = fmempty\<rparr>,
      \<lparr>RoleRef_APIGroup = rbac_GroupName, RoleRef_Kind = ClusterRole,
       RoleRef_Name = ClusterRoleName user\<rparr>,
      [\<lparr>Subject_Kind = ServiceAccount, Subject_Name = ServiceAccountName user,
        Subject_Namespace = Namespace user\<rparr>])"

definition initCRBinding :: "ObjectMeta \<Rightarrow> RoleRef \<Rightarrow> Subject list \<Rightarrow> ClusterRoleBindingObj" where
  "initCRBinding objectMeta roleRef subjects =
     \<lparr>crb_meta = objectMeta, crb_RoleRef = roleRef, Subjects = subjects\<rparr>"

lemmas builder_defs [model_defs] = newSAInfo_def NewRuntimeClient_def initServiceAccount_def initClusterRoleRules_def
  expectedSelectors_def initClusterRole_def initCRBindingE_def initCRBinding_def

section \<open>Properties of the derived names\<close>

text \<open>
  The two cluster roles of one identity never share a name: the rules role's name
  is the user id with a suffix. Deleting or replacing one of them never touches
  the other.
\<close>

lemma rules_name_neq_role_name [simp]:
  "ClusterRoleRulesName (newSAInfo u t) \<noteq> ClusterRoleName (newSAInfo u t)"
  "ClusterRoleName (newSAInfo u t) \<noteq> ClusterRoleRulesName (newSAInfo u t)"
  by (simp_all add: newSAInfo_def)

text \<open>Distinct user ids give distinct names for every derived resource.\<close>

lemma newSAInfo_names_inj:
  "u \<noteq> u' \<Longrightarrow>
     ServiceAccountName (newSAInfo u t) \<noteq> ServiceAccountName (newSAInfo u' t') \<and>
     ClusterRoleName (newSAInfo u t) \<noteq> ClusterRoleName (newSAInfo u' t') \<and>
     ClusterRoleRulesName (newSAInfo u t) \<noteq> ClusterRoleRulesName (newSAInfo u' t') \<and>
     ClusterRoleBindingName (newSAInfo u t) \<noteq> ClusterRoleBindingName (newSAInfo u' t')"
  by (simp add: newSAInfo_def)

text \<open>
  A rules role of one identity can be the aggregating role of another: user
  \<open>u @ ''-rules''\<close> owns the aggregating role named like \<open>u\<close>'s rules role.
\<close>

lemma rules_name_collides:
  "ClusterRoleName (newSAInfo (u @ ''-rules'') t') = ClusterRoleRulesName (newSAInfo u t)"
  by (simp add: newSAInfo_def)

text \<open>The aggregating role selects the identity's own rules role by its label.\<close>

lemma initClusterRole_selects_rules_role:
  "\<lparr>MatchLabels = ObjLabels (cr_meta (initClusterRoleRules n r l))\<rparr>
     \<in> set (the (AggregationRule (initClusterRole n' r l)))"
  by (simp add: initClusterRoleRules_def initClusterRole_def expectedSelectors_def)

text \<open>
  C21: \<open>NewRuntimeClient\<close> succeeds exactly when all three library calls succeed,
  and then returns the fresh client with an empty ledger. So a failing
  \<open>GetK8sClient\<close> aborts the construction, although no operation of
  \<open>runtime.go\<close> uses the in-cluster clientset \<open>KcpK8s\<close>. Each failure returns
  the first error unchanged.
\<close>

theorem NewRuntimeClientE_result:
  "(NewRuntimeClientE P N G kc u r t e = Inr (cs, core, rtc) \<longleftrightarrow>
     (\<exists>cfg. P kc = Inr cfg \<and> N cfg = Inr cs) \<and> G = Inr core \<and> rtc = NewRuntimeClient u r t e) \<and>
   (NewRuntimeClientE P N G kc u r t e = Inl err \<longleftrightarrow>
     P kc = Inl err \<or> (\<exists>cfg. P kc = Inr cfg \<and> (N cfg = Inl err \<or> (\<exists>cs'. N cfg = Inr cs' \<and> G = Inl err))))"
  by (auto simp: NewRuntimeClientE_def split: sum.splits)

theorem NewRuntimeClientE_result_witness:
  "NewRuntimeClientE (\<lambda>kc. Inr (kc @ ''-parsed'')) (\<lambda>cfg. Inr (1::nat)) (Inl ''no in-cluster config'')
      ''apiVersion: v1'' ''alice'' ''runtimeAdmin'' ''t'' 60 = Inl ''no in-cluster config'' \<and>
   (\<exists>rtc. NewRuntimeClientE (\<lambda>kc. Inr (kc @ ''-parsed'')) (\<lambda>cfg. Inr (1::nat)) (Inr 2 :: string + nat)
      ''apiVersion: v1'' ''alice'' ''runtimeAdmin'' ''t'' 60 = Inr (1, 2, rtc) \<and> RollbackE rtc = [])"
  using NewRuntimeClientE_result [of "\<lambda>kc. Inr (kc @ ''-parsed'')" "\<lambda>cfg. Inr (1::nat)" "Inl ''no in-cluster config''"
      "''apiVersion: v1''" "''alice''" "''runtimeAdmin''" "''t''" 60]
    NewRuntimeClientE_result [of "\<lambda>kc. Inr (kc @ ''-parsed'')" "\<lambda>cfg. Inr (1::nat)" "Inr 2 :: string + nat"
      "''apiVersion: v1''" "''alice''" "''runtimeAdmin''" "''t''" 60]
  by (simp add: NewRuntimeClient_def)

end
