(* ===== verification/Kube_API.thy ===== *)
theory Kube_API
  imports Builders
begin

text \<open>
  The backing store: the part of the Kubernetes API (\<open>k8s.io/client-go\<close>) that
  \<open>runtime.go\<close> calls. It is an external collaborator and is modelled from the
  specification: a world holds the service accounts (keyed by namespace and name),
  the cluster roles and the cluster role bindings (keyed by name), a fault script
  per object, a token counter and a journal of the calls made.

  Every call names a target object. It is appended to the journal and consumes the
  head of that object's fault script: \<open>Some msg\<close> makes the call fail with a
  transport error (\<open>Failure msg\<close>), \<open>None\<close> lets it through, an empty script never
  fails. Scripts are per object, so calls on different objects are independent,
  whatever order they come in; this is what the concurrent cleanup relies on.
  "Not found" and "already exists" are the store's answers to a call that got
  through, as the API server gives them (\<open>apierr.IsNotFound\<close>).
\<close>

datatype api_error = NotFound | AlreadyExists | Failure string

datatype target =
    TServiceAccount string string
  | TTokenRequest string string
  | TClusterRole string
  | TClusterRoleBinding string

datatype request =
    Get target
  | Create target
  | Delete target
  | CreateToken string string int

fun target_of :: "request \<Rightarrow> target" where
  "target_of (Get t) = t"
| "target_of (Create t) = t"
| "target_of (Delete t) = t"
| "target_of (CreateToken ns n _) = TTokenRequest ns n"

record world =
  service_accounts :: "string \<times> string \<rightharpoonup> ServiceAccountObj"
  cluster_roles :: "string \<rightharpoonup> ClusterRoleObj"
  cluster_role_bindings :: "string \<rightharpoonup> ClusterRoleBindingObj"
  faults :: "target \<Rightarrow> string option list"
  issued :: nat
  token_source :: "nat \<Rightarrow> string"
  journal :: "request list"

text \<open>
  A store holding none of the objects, with no pending faults, that issues tokens
  from \<open>src\<close>: the start state of the concrete scenarios.
\<close>

definition empty_world :: "(nat \<Rightarrow> string) \<Rightarrow> world" where
  "empty_world src =
     \<lparr>service_accounts = Map.empty, cluster_roles = Map.empty, cluster_role_bindings = Map.empty,
      faults = (\<lambda>_. []), issued = 0, token_source = src, journal = []\<rparr>"

section \<open>Calls\<close>

text \<open>Record the call, consume one entry of the target's fault script.\<close>

definition call :: "request \<Rightarrow> world \<Rightarrow> string option \<times> world" where
  "call r w =
     (let t = target_of r; w1 = w\<lparr>journal := journal w @ [r]\<rparr> in
      case faults w t of
        [] \<Rightarrow> (None, w1)
      | f # fs \<Rightarrow> (f, w1\<lparr>faults := (faults w)(t := fs)\<rparr>))"

text \<open>
  One generic store per object kind: \<open>sel\<close> reads the kind's map from the world,
  \<open>upd\<close> writes it back, \<open>tgt\<close> names the target of a key. The store is read
  in the state the call was made in (a call itself only writes the journal and
  the fault script).
\<close>

definition obj_get ::
  "('k \<Rightarrow> target) \<Rightarrow> (world \<Rightarrow> 'k \<rightharpoonup> 'o) \<Rightarrow> 'k \<Rightarrow> world \<Rightarrow> (api_error + 'o) \<times> world" where
  "obj_get tgt sel k w =
     (case call (Get (tgt k)) w of
        (Some m, w1) \<Rightarrow> (Inl (Failure m), w1)
      | (None, w1) \<Rightarrow> (case sel w k of None \<Rightarrow> (Inl NotFound, w1) | Some ob \<Rightarrow> (Inr ob, w1)))"

definition obj_create ::
  "('k \<Rightarrow> target) \<Rightarrow> (world \<Rightarrow> 'k \<rightharpoonup> 'o) \<Rightarrow> ((('k \<rightharpoonup> 'o) \<Rightarrow> ('k \<rightharpoonup> 'o)) \<Rightarrow> world \<Rightarrow> world)
     \<Rightarrow> 'k \<Rightarrow> 'o \<Rightarrow> world \<Rightarrow> api_error option \<times> world" where
  "obj_create tgt sel upd k ob w =
     (case call (Create (tgt k)) w of
        (Some m, w1) \<Rightarrow> (Some (Failure m), w1)
      | (None, w1) \<Rightarrow>
          (case sel w k of
             Some _ \<Rightarrow> (Some AlreadyExists, w1)
           | None \<Rightarrow> (None, upd (\<lambda>m. m(k \<mapsto> ob)) w1)))"

definition obj_delete ::
  "('k \<Rightarrow> target) \<Rightarrow> (world \<Rightarrow> 'k \<rightharpoonup> 'o) \<Rightarrow> ((('k \<rightharpoonup> 'o) \<Rightarrow> ('k \<rightharpoonup> 'o)) \<Rightarrow> world \<Rightarrow> world)
     \<Rightarrow> 'k \<Rightarrow> world \<Rightarrow> api_error option \<times> world" where
  "obj_delete tgt sel upd k w =
     (case call (Delete (tgt k)) w of
        (Some m, w1) \<Rightarrow> (Some (Failure m), w1)
      | (None, w1) \<Rightarrow>
          (case sel w k of
             None \<Rightarrow> (Some NotFound, w1)
           | Some _ \<Rightarrow> (None, upd (\<lambda>m. m(k := None)) w1)))"

section \<open>The three clients the code uses\<close>

text \<open>\<open>CoreV1().ServiceAccounts(ns)\<close>: Get, Create, Delete and CreateToken.\<close>

definition sa_target :: "string \<times> string \<Rightarrow> target" where
  "sa_target k = TServiceAccount (fst k) (snd k)"

definition sa_get :: "string \<Rightarrow> string \<Rightarrow> world \<Rightarrow> (api_error + ServiceAccountObj) \<times> world" where
  "sa_get ns n = obj_get sa_target service_accounts (ns, n)"

definition sa_create :: "string \<Rightarrow> ServiceAccountObj \<Rightarrow> world \<Rightarrow> api_error option \<times> world" where
  "sa_create ns ob =
     obj_create sa_target service_accounts service_accounts_update (ns, ObjName (sa_meta ob)) ob"

definition sa_delete :: "string \<Rightarrow> string \<Rightarrow> world \<Rightarrow> api_error option \<times> world" where
  "sa_delete ns n = obj_delete sa_target service_accounts service_accounts_update (ns, n)"

text \<open>
  A token request for a service account: fails as any call does, answers
  "not found" for an absent account, and otherwise returns the next token of the
  server's token source.
\<close>

definition sa_create_token :: "string \<Rightarrow> string \<Rightarrow> int \<Rightarrow> world \<Rightarrow> (api_error + string) \<times> world" where
  "sa_create_token ns n expiry w =
     (case call (CreateToken ns n expiry) w of
        (Some m, w1) \<Rightarrow> (Inl (Failure m), w1)
      | (None, w1) \<Rightarrow>
          (case service_accounts w (ns, n) of
             None \<Rightarrow> (Inl NotFound, w1)
           | Some _ \<Rightarrow> (Inr (token_source w1 (issued w1)), w1\<lparr>issued := Suc (issued w1)\<rparr>)))"

text \<open>\<open>RbacV1().ClusterRoles()\<close> and \<open>RbacV1().ClusterRoleBindings()\<close>.\<close>

definition cr_get :: "string \<Rightarrow> world \<Rightarrow> (api_error + ClusterRoleObj) \<times> world" where
  "cr_get = obj_get TClusterRole cluster_roles"

definition cr_create :: "ClusterRoleObj \<Rightarrow> world \<Rightarrow> api_error option \<times> world" where
  "cr_create ob = obj_create TClusterRole cluster_roles cluster_roles_update (ObjName (cr_meta ob)) ob"

definition cr_delete :: "string \<Rightarrow> world \<Rightarrow> api_error option \<times> world" where
  "cr_delete = obj_delete TClusterRole cluster_roles cluster_roles_update"

definition crb_get :: "string \<Rightarrow> world \<Rightarrow> (api_error + ClusterRoleBindingObj) \<times> world" where
  "crb_get = obj_get TClusterRoleBinding cluster_role_bindings"

definition crb_create :: "ClusterRoleBindingObj \<Rightarrow> world \<Rightarrow> api_error option \<times> world" where
  "crb_create ob =
     obj_create TClusterRoleBinding cluster_role_bindings cluster_role_bindings_update
       (ObjName (crb_meta ob)) ob"

definition crb_delete :: "string \<Rightarrow> world \<Rightarrow> api_error option \<times> world" where
  "crb_delete = obj_delete TClusterRoleBinding cluster_role_bindings cluster_role_bindings_update"

section \<open>Behaviour of a call on a store without pending faults\<close>

text \<open>
  A target is \<open>clean\<close> when its fault script is empty: every call on it goes through
  and only the journal changes.
\<close>

abbreviation clean :: "world \<Rightarrow> target \<Rightarrow> bool" where
  "clean w t \<equiv> faults w t = []"

lemmas client_defs [api_simps] = sa_get_def sa_create_def sa_delete_def sa_target_def
  cr_get_def cr_create_def cr_delete_def crb_get_def crb_create_def crb_delete_def

lemma call_clean [api_simps]:
  "clean w (target_of r) \<Longrightarrow> call r w = (None, w\<lparr>journal := journal w @ [r]\<rparr>)"
  by (simp add: call_def)

lemma call_fault [api_simps]:
  "faults w (target_of r) = f # fs \<Longrightarrow>
     call r w = (f, w\<lparr>journal := journal w @ [r], faults := (faults w)(target_of r := fs)\<rparr>)"
  by (simp add: call_def)

text \<open>A call changes nothing but the journal and the script of its own target.\<close>

lemma call_frame:
  assumes "call r w = (f, w')"
  shows "service_accounts w' = service_accounts w" "cluster_roles w' = cluster_roles w"
    "cluster_role_bindings w' = cluster_role_bindings w" "issued w' = issued w"
    "token_source w' = token_source w" "journal w' = journal w @ [r]"
    "t \<noteq> target_of r \<Longrightarrow> faults w' t = faults w t"
  using assms by (auto simp: call_def Let_def split: list.splits)

text \<open>
  On a clean target the generic operations are the map operations they stand for,
  with the call appended to the journal.
\<close>

lemma obj_get_clean [api_simps]:
  "clean w (tgt k) \<Longrightarrow>
     obj_get tgt sel k w =
       ((case sel w k of None \<Rightarrow> Inl NotFound | Some ob \<Rightarrow> Inr ob),
        w\<lparr>journal := journal w @ [Get (tgt k)]\<rparr>)"
  by (simp add: obj_get_def call_clean split: option.splits)

lemma obj_create_clean [api_simps]:
  "clean w (tgt k) \<Longrightarrow>
     obj_create tgt sel upd k ob w =
       (case sel w k of
          Some _ \<Rightarrow> (Some AlreadyExists, w\<lparr>journal := journal w @ [Create (tgt k)]\<rparr>)
        | None \<Rightarrow> (None, upd (\<lambda>m. m(k \<mapsto> ob)) (w\<lparr>journal := journal w @ [Create (tgt k)]\<rparr>)))"
  by (simp add: obj_create_def call_clean split: option.splits)

lemma obj_delete_clean [api_simps]:
  "clean w (tgt k) \<Longrightarrow>
     obj_delete tgt sel upd k w =
       (case sel w k of
          None \<Rightarrow> (Some NotFound, w\<lparr>journal := journal w @ [Delete (tgt k)]\<rparr>)
        | Some _ \<Rightarrow> (None, upd (\<lambda>m. m(k := None)) (w\<lparr>journal := journal w @ [Delete (tgt k)]\<rparr>)))"
  by (simp add: obj_delete_def call_clean split: option.splits)

text \<open>A faulty call fails with the scripted message and changes no store.\<close>

lemma obj_get_fault [api_simps]:
  "faults w (tgt k) = Some m # fs \<Longrightarrow>
     obj_get tgt sel k w =
       (Inl (Failure m), w\<lparr>journal := journal w @ [Get (tgt k)], faults := (faults w)(tgt k := fs)\<rparr>)"
  by (simp add: obj_get_def call_fault)

lemma obj_create_fault [api_simps]:
  "faults w (tgt k) = Some m # fs \<Longrightarrow>
     obj_create tgt sel upd k ob w =
       (Some (Failure m),
        w\<lparr>journal := journal w @ [Create (tgt k)], faults := (faults w)(tgt k := fs)\<rparr>)"
  by (simp add: obj_create_def call_fault)

lemma obj_delete_fault [api_simps]:
  "faults w (tgt k) = Some m # fs \<Longrightarrow>
     obj_delete tgt sel upd k w =
       (Some (Failure m),
        w\<lparr>journal := journal w @ [Delete (tgt k)], faults := (faults w)(tgt k := fs)\<rparr>)"
  by (simp add: obj_delete_def call_fault)

text \<open>A call that its script lets through behaves as on a clean target and consumes the entry.\<close>

lemma obj_get_pass [api_simps]:
  "faults w (tgt k) = None # fs \<Longrightarrow>
     obj_get tgt sel k w =
       ((case sel w k of None \<Rightarrow> Inl NotFound | Some ob \<Rightarrow> Inr ob),
        w\<lparr>journal := journal w @ [Get (tgt k)], faults := (faults w)(tgt k := fs)\<rparr>)"
  by (simp add: obj_get_def call_fault split: option.splits)

lemma obj_create_pass [api_simps]:
  "faults w (tgt k) = None # fs \<Longrightarrow>
     obj_create tgt sel upd k ob w =
       (case sel w k of
          Some _ \<Rightarrow> (Some AlreadyExists,
                     w\<lparr>journal := journal w @ [Create (tgt k)], faults := (faults w)(tgt k := fs)\<rparr>)
        | None \<Rightarrow> (None, upd (\<lambda>m. m(k \<mapsto> ob))
                     (w\<lparr>journal := journal w @ [Create (tgt k)], faults := (faults w)(tgt k := fs)\<rparr>)))"
  by (simp add: obj_create_def call_fault split: option.splits)

lemma obj_delete_pass [api_simps]:
  "faults w (tgt k) = None # fs \<Longrightarrow>
     obj_delete tgt sel upd k w =
       (case sel w k of
          None \<Rightarrow> (Some NotFound,
                   w\<lparr>journal := journal w @ [Delete (tgt k)], faults := (faults w)(tgt k := fs)\<rparr>)
        | Some _ \<Rightarrow> (None, upd (\<lambda>m. m(k := None))
                     (w\<lparr>journal := journal w @ [Delete (tgt k)], faults := (faults w)(tgt k := fs)\<rparr>)))"
  by (simp add: obj_delete_def call_fault split: option.splits)

lemma sa_create_token_clean [api_simps]:
  "clean w (TTokenRequest ns n) \<Longrightarrow>
     sa_create_token ns n e w =
       (case service_accounts w (ns, n) of
          None \<Rightarrow> (Inl NotFound, w\<lparr>journal := journal w @ [CreateToken ns n e]\<rparr>)
        | Some _ \<Rightarrow> (Inr (token_source w (issued w)),
                     w\<lparr>journal := journal w @ [CreateToken ns n e], issued := Suc (issued w)\<rparr>))"
  by (simp add: sa_create_token_def call_clean split: option.splits)

lemma sa_create_token_fault [api_simps]:
  "faults w (TTokenRequest ns n) = Some m # fs \<Longrightarrow>
     sa_create_token ns n e w =
       (Inl (Failure m),
        w\<lparr>journal := journal w @ [CreateToken ns n e], faults := (faults w)(TTokenRequest ns n := fs)\<rparr>)"
  by (simp add: sa_create_token_def call_fault)

end
