(* ===== verification/Verifiers.thy ===== *)
theory Verifiers
  imports Kube_API
begin

text \<open>
  The errors of the runtime package and the reconciling verifiers of
  \<open>runtime.go\<close>: \<open>deleteServiceAccount\<close>, \<open>deleteCRBinding\<close>,
  \<open>deleteClusterRole\<close> (lines 213--235) and \<open>verifyServiceAccount\<close>,
  \<open>verifyClusterRoleRules\<close>, \<open>verifyClusterRole\<close>, \<open>verifyCRBinding\<close> (lines
  237--317). A verifier fetches an object by its derived name, reports \<open>True\<close>
  when it is present and has the expected shape, deletes it and reports \<open>False\<close>
  when its shape is stale, and reports \<open>False\<close> when it is absent; any other API
  error is returned. The lemmas show that, on a store that answers, each verifier
  implements the abstract contract \<open>reconcile\<close>.
\<close>

section \<open>Errors\<close>

text \<open>
  The context strings the code wraps errors with (\<open>errors.Wrapf(err, fmt, ...)\<close>),
  one constructor per format string, with its arguments.
\<close>

datatype wrap_ctx =
    WhileCreateServiceAccount string string
  | WhileCreateClusterRole string
  | WhileGetServiceAccountToken string
  | WhileCreateClusterRoleBinding string
  | WhileCleaner
  | InVerifyServiceAccount
  | InVerifyClusterRoleRules
  | InVerifyClusterRoleAggregation
  | InVerifyCRBinding
  | InDeleteClusterRole
  | InDeleteCRBinding
  | SAStillExists string string
  | ClusterRolesStillExist "string list"
  | CRBStillExists string

text \<open>
  An error value of the package: an API error, the privilege-level check of
  \<open>createClusterRoleRules\<close> (\<open>fmt.Errorf("role %s not in [%s,%s]")\<close>), a wrapped
  error, or \<open>WrapMsg prev e\<close> for \<open>errors.Wrap(e, prev.Error())\<close>, the way
  \<open>Cleaner\<close> chains the errors it receives.
\<close>

datatype error =
    ApiError api_error
  | RoleNotIn string
  | Wrapf wrap_ctx error
  | WrapMsg error error

section \<open>Deleters\<close>

definition deleteServiceAccount :: "SAInfo \<Rightarrow> world \<Rightarrow> (bool \<times> error option) \<times> world" where
  "deleteServiceAccount user w =
     (case sa_delete (Namespace user) (ServiceAccountName user) w of
        (None, w1) \<Rightarrow> ((True, None), w1)
      | (Some e, w1) \<Rightarrow> if e = NotFound then ((True, None), w1) else ((False, Some (ApiError e)), w1))"

definition deleteCRBinding :: "SAInfo \<Rightarrow> world \<Rightarrow> error option \<times> world" where
  "deleteCRBinding user w =
     (case crb_delete (ClusterRoleBindingName user) w of
        (None, w1) \<Rightarrow> (None, w1)
      | (Some e, w1) \<Rightarrow> if e = NotFound then (None, w1) else (Some (ApiError e), w1))"

definition deleteClusterRole :: "string \<Rightarrow> world \<Rightarrow> (bool \<times> error option) \<times> world" where
  "deleteClusterRole name w =
     (case cr_delete name w of
        (None, w1) \<Rightarrow> ((True, None), w1)
      | (Some e, w1) \<Rightarrow> if e = NotFound then ((True, None), w1) else ((False, Some (ApiError e)), w1))"

section \<open>Verifiers\<close>

definition verifyServiceAccount :: "SAInfo \<Rightarrow> world \<Rightarrow> (error + bool) \<times> world" where
  "verifyServiceAccount user w =
     (case sa_get (Namespace user) (ServiceAccountName user) w of
        (Inr _, w1) \<Rightarrow> (Inr True, w1)
      | (Inl e, w1) \<Rightarrow> if e = NotFound then (Inr False, w1) else (Inl (ApiError e), w1))"

definition verifyClusterRoleRules :: "SAInfo \<Rightarrow> string \<Rightarrow> world \<Rightarrow> (error + bool) \<times> world" where
  "verifyClusterRoleRules user l2L3OperatiorRole w =
     (case cr_get (ClusterRoleRulesName user) w of
        (Inr cr, w1) \<Rightarrow>
          if Rules cr = go_index L2L3OperatorPolicyRule l2L3OperatiorRole then (Inr True, w1)
          else (case deleteClusterRole (ClusterRoleRulesName user) w1 of
                  ((_, None), w2) \<Rightarrow> (Inr False, w2)
                | ((_, Some e), w2) \<Rightarrow> (Inl (Wrapf InDeleteClusterRole e), w2))
      | (Inl e, w1) \<Rightarrow> if e = NotFound then (Inr False, w1) else (Inl (ApiError e), w1))"

text \<open>\<open>cr.AggregationRule != nil && DeepEqual(cr.AggregationRule.ClusterRoleSelectors, expected)\<close>\<close>

definition selectors_match :: "LabelSelector list option \<Rightarrow> LabelSelector list \<Rightarrow> bool" where
  "selectors_match ar expected = (case ar of None \<Rightarrow> False | Some sels \<Rightarrow> sels = expected)"

definition verifyClusterRole :: "SAInfo \<Rightarrow> string \<Rightarrow> string \<Rightarrow> world \<Rightarrow> (error + bool) \<times> world" where
  "verifyClusterRole user l2L3OperatiorRole aggregationLabel w =
     (case cr_get (ClusterRoleName user) w of
        (Inr cr, w1) \<Rightarrow>
          if selectors_match (AggregationRule cr) (expectedSelectors l2L3OperatiorRole aggregationLabel)
          then (Inr True, w1)
          else (case deleteClusterRole (ClusterRoleName user) w1 of
                  ((_, None), w2) \<Rightarrow> (Inr False, w2)
                | ((_, Some e), w2) \<Rightarrow> (Inl (Wrapf InDeleteClusterRole e), w2))
      | (Inl e, w1) \<Rightarrow> if e = NotFound then (Inr False, w1) else (Inl (ApiError e), w1))"

definition verifyCRBinding :: "SAInfo \<Rightarrow> RoleRef \<Rightarrow> Subject list \<Rightarrow> world \<Rightarrow> (error + bool) \<times> world" where
  "verifyCRBinding user roleRef subjects w =
     (case crb_get (ClusterRoleBindingName user) w of
        (Inr crb, w1) \<Rightarrow>
          if Subjects crb = subjects \<and> crb_RoleRef crb = roleRef then (Inr True, w1)
          else (case deleteCRBinding user w1 of
                  (None, w2) \<Rightarrow> (Inr False, w2)
                | (Some e, w2) \<Rightarrow>
                    if e = ApiError NotFound then (Inr False, w2)
                    else (Inl (Wrapf InDeleteCRBinding e), w2))
      | (Inl e, w1) \<Rightarrow> if e = NotFound then (Inr False, w1) else (Inl (ApiError e), w1))"

section \<open>The reconciliation contract\<close>

text \<open>
  What a verifier promises for one object kind, on the map of that kind: an
  absent object is reported \<open>False\<close>; a present one that passes the shape check
  \<open>ok\<close> is reported \<open>True\<close> and kept; a stale one is reported \<open>False\<close> and removed.
\<close>

definition reconcile :: "('o \<Rightarrow> bool) \<Rightarrow> ('k \<rightharpoonup> 'o) \<Rightarrow> 'k \<Rightarrow> bool \<times> ('k \<rightharpoonup> 'o)" where
  "reconcile ok m k =
     (case m k of
        None \<Rightarrow> (False, m)
      | Some ob \<Rightarrow> if ok ob then (True, m) else (False, m(k := None)))"

text \<open>The calls a verifier makes: the get, then a delete when the object is stale.\<close>

definition reconcile_calls :: "('o \<Rightarrow> bool) \<Rightarrow> ('k \<rightharpoonup> 'o) \<Rightarrow> 'k \<Rightarrow> target \<Rightarrow> request list" where
  "reconcile_calls ok m k t =
     Get t # (case m k of None \<Rightarrow> [] | Some ob \<Rightarrow> if ok ob then [] else [Delete t])"

lemma reconcile_result:
  "fst (reconcile ok m k) \<longleftrightarrow> (\<exists>ob. m k = Some ob \<and> ok ob)"
  by (auto simp: reconcile_def split: option.splits)

text \<open>After reconciliation the object is either absent or has the expected shape.\<close>

lemma reconcile_post:
  "snd (reconcile ok m k) k = None \<or> (\<exists>ob. snd (reconcile ok m k) k = Some ob \<and> ok ob)"
  by (auto simp: reconcile_def split: option.splits)

lemma reconcile_other:
  "k' \<noteq> k \<Longrightarrow> snd (reconcile ok m k) k' = m k'"
  by (auto simp: reconcile_def split: option.splits)

lemmas verifier_defs = verifyServiceAccount_def verifyClusterRoleRules_def verifyClusterRole_def
  verifyCRBinding_def deleteClusterRole_def deleteCRBinding_def deleteServiceAccount_def
  reconcile_def reconcile_calls_def

section \<open>The verifiers implement the contract\<close>

text \<open>
  Functional refinement, one lemma per verifier: on a target without pending
  faults, the verifier's answer and the object map it leaves are those of
  \<open>reconcile\<close> with the shape check of its kind, and it makes the calls of
  \<open>reconcile_calls\<close>; nothing else of the world changes.
\<close>

lemma verifyServiceAccount_refines:
  "clean w (TServiceAccount (Namespace user) (ServiceAccountName user)) \<Longrightarrow>
   verifyServiceAccount user w =
     (Inr (fst (reconcile (\<lambda>_. True) (service_accounts w) (Namespace user, ServiceAccountName user))),
      w\<lparr>service_accounts := snd (reconcile (\<lambda>_. True) (service_accounts w)
                                   (Namespace user, ServiceAccountName user)),
        journal := journal w @ reconcile_calls (\<lambda>_. True) (service_accounts w)
                     (Namespace user, ServiceAccountName user)
                     (TServiceAccount (Namespace user) (ServiceAccountName user))\<rparr>)"
  by (auto simp: verifier_defs api_simps split: option.splits)

lemma verifyClusterRoleRules_refines:
  "clean w (TClusterRole (ClusterRoleRulesName user)) \<Longrightarrow>
   verifyClusterRoleRules user r w =
     (Inr (fst (reconcile (\<lambda>cr. Rules cr = go_index L2L3OperatorPolicyRule r)
                (cluster_roles w) (ClusterRoleRulesName user))),
      w\<lparr>cluster_roles := snd (reconcile (\<lambda>cr. Rules cr = go_index L2L3OperatorPolicyRule r)
                                (cluster_roles w) (ClusterRoleRulesName user)),
        journal := journal w @ reconcile_calls (\<lambda>cr. Rules cr = go_index L2L3OperatorPolicyRule r)
                     (cluster_roles w) (ClusterRoleRulesName user)
                     (TClusterRole (ClusterRoleRulesName user))\<rparr>)"
  by (auto simp: verifier_defs api_simps split: option.splits)

lemma verifyClusterRole_refines:
  "clean w (TClusterRole (ClusterRoleName user)) \<Longrightarrow>
   verifyClusterRole user r l w =
     (Inr (fst (reconcile (\<lambda>cr. selectors_match (AggregationRule cr) (expectedSelectors r l))
                (cluster_roles w) (ClusterRoleName user))),
      w\<lparr>cluster_roles := snd (reconcile (\<lambda>cr. selectors_match (AggregationRule cr) (expectedSelectors r l))
                                (cluster_roles w) (ClusterRoleName user)),
        journal := journal w @ reconcile_calls (\<lambda>cr. selectors_match (AggregationRule cr) (expectedSelectors r l))
                     (cluster_roles w) (ClusterRoleName user) (TClusterRole (ClusterRoleName user))\<rparr>)"
  by (auto simp: verifier_defs api_simps split: option.splits)

lemma verifyCRBinding_refines:
  "clean w (TClusterRoleBinding (ClusterRoleBindingName user)) \<Longrightarrow>
   verifyCRBinding user rr ss w =
     (Inr (fst (reconcile (\<lambda>crb. Subjects crb = ss \<and> crb_RoleRef crb = rr)
                (cluster_role_bindings w) (ClusterRoleBindingName user))),
      w\<lparr>cluster_role_bindings := snd (reconcile (\<lambda>crb. Subjects crb = ss \<and> crb_RoleRef crb = rr)
                                (cluster_role_bindings w) (ClusterRoleBindingName user)),
        journal := journal w @ reconcile_calls (\<lambda>crb. Subjects crb = ss \<and> crb_RoleRef crb = rr)
                     (cluster_role_bindings w) (ClusterRoleBindingName user)
                     (TClusterRoleBinding (ClusterRoleBindingName user))\<rparr>)"
  by (auto simp: verifier_defs api_simps split: option.splits)

end
