(* ===== verification/Cleanup.thy ===== *)
theory Cleanup
  imports Verifiers
begin

text \<open>
  The cleanup coordinator of \<open>runtime.go\<close>: \<open>Cleaner\<close> (lines 400--447) and its
  three retrying deletion tasks \<open>RetryDeleteServiceAccount\<close>,
  \<open>RetryDeleteClusterRoles\<close> and \<open>RetryDeleteClusterRoleBinding\<close> (lines
  449--524), over \<open>retry.Do\<close> of \<open>github.com/avast/retry-go\<close> with
  \<open>Attempts(20)\<close> and \<open>LastErrorOnly(true)\<close>.

  A task reports on the shared error channel every non-"not found" error of a
  delete call, and, when its retries are exhausted, the last error \<open>retry.Do\<close>
  returns. Here a task returns the list of errors it sends, in order. This file
  runs the tasks one after the other, in ledger order, which is one schedule of
  the goroutines; theory \<open>Cleanup_Concurrency\<close> models every interleaving of
  their calls and sends and relates it to this one.
  The inter-attempt delay (\<open>Delay(15 * time.Second)\<close>) is not modelled: it
  changes when a call is made, not what it does.
\<close>

section \<open>retry.Do\<close>

text \<open>
  \<open>retry.Do(f, Attempts(n), LastErrorOnly(true))\<close>: call \<open>f\<close> until it returns nil or
  \<open>n\<close> calls have been made; return nil or the last error. With \<open>n = 0\<close> the loop
  body never runs and \<open>retry.Do\<close> returns nil. The attempt function here also
  returns the errors it sent on the channel and the new world.
\<close>

fun retry_Do :: "nat \<Rightarrow> ('s \<Rightarrow> 'e option \<times> 'c list \<times> 's) \<Rightarrow> 's \<Rightarrow> 'e option \<times> 'c list \<times> 's" where
  "retry_Do 0 f s = (None, [], s)"
| "retry_Do (Suc n) f s =
     (case f s of
        (None, out, s1) \<Rightarrow> (None, out, s1)
      | (Some e, out, s1) \<Rightarrow>
          if n = 0 then (Some e, out, s1)
          else (case retry_Do n f s1 of (r, out', s2) \<Rightarrow> (r, out @ out', s2)))"

definition retry_attempts :: nat where
  "retry_attempts = 20"

section \<open>One attempt of each task\<close>

text \<open>
  The closure passed to \<open>retry.Do\<close> by \<open>RetryDeleteServiceAccount\<close> (and, with the
  binding, by \<open>RetryDeleteClusterRoleBinding\<close>): a failed delete other than "not
  found" is sent on the error channel; "not found" returns nil; otherwise the result
  is \<open>errors.Wrapf(err, ...)\<close>, nil when the delete succeeded.
\<close>

definition sa_delete_attempt :: "SAInfo \<Rightarrow> world \<Rightarrow> error option \<times> error list \<times> world" where
  "sa_delete_attempt user w =
     (case sa_delete (Namespace user) (ServiceAccountName user) w of
        (err, w1) \<Rightarrow>
          if err \<noteq> None \<and> err \<noteq> Some NotFound then
            (go_wrapf (Wrapf (SAStillExists (ServiceAccountName user) (Namespace user)))
               (map_option ApiError err), [ApiError (the err)], w1)
          else if err = Some NotFound then (None, [], w1)
          else (go_wrapf (Wrapf (SAStillExists (ServiceAccountName user) (Namespace user)))
                  (map_option ApiError err), [], w1))"

definition crb_delete_attempt :: "SAInfo \<Rightarrow> world \<Rightarrow> error option \<times> error list \<times> world" where
  "crb_delete_attempt user w =
     (case crb_delete (ClusterRoleBindingName user) w of
        (err, w1) \<Rightarrow>
          if err \<noteq> None \<and> err \<noteq> Some NotFound then
            (go_wrapf (Wrapf (CRBStillExists (ClusterRoleName user))) (map_option ApiError err),
             [ApiError (the err)], w1)
          else if err = Some NotFound then (None, [], w1)
          else (go_wrapf (Wrapf (CRBStillExists (ClusterRoleName user))) (map_option ApiError err), [], w1))"

text \<open>
  The closure of \<open>RetryDeleteClusterRoles\<close> loops over the two role names; a
  "not found" answer returns nil from the closure at once, so the remaining names
  are not deleted in that attempt. After the loop, \<open>err\<close> holds the last delete's
  result, and \<open>errors.Wrapf(err, ...)\<close> is nil when that delete succeeded.
\<close>

datatype loop_exit = ReturnNil | LoopDone "api_error option"

fun delete_roles_loop :: "string list \<Rightarrow> api_error option \<Rightarrow> world \<Rightarrow> loop_exit \<times> error list \<times> world" where
  "delete_roles_loop [] err w = (LoopDone err, [], w)"
| "delete_roles_loop (name # names) _ w =
     (case cr_delete name w of
        (err, w1) \<Rightarrow>
          if err \<noteq> None \<and> err \<noteq> Some NotFound then
            (case delete_roles_loop names err w1 of (x, out, w2) \<Rightarrow> (x, ApiError (the err) # out, w2))
          else if err = Some NotFound then (ReturnNil, [], w1)
          else delete_roles_loop names err w1)"

definition clusterroles :: "SAInfo \<Rightarrow> string list" where
  "clusterroles user = [ClusterRoleName user, ClusterRoleRulesName user]"

definition roles_delete_attempt :: "SAInfo \<Rightarrow> world \<Rightarrow> error option \<times> error list \<times> world" where
  "roles_delete_attempt user w =
     (case delete_roles_loop (clusterroles user) None w of
        (ReturnNil, out, w1) \<Rightarrow> (None, out, w1)
      | (LoopDone err, out, w1) \<Rightarrow>
          (go_wrapf (Wrapf (ClusterRolesStillExist (clusterroles user))) (map_option ApiError err), out, w1))"

section \<open>The tasks\<close>

text \<open>A task sends the errors of its attempts and, if \<open>retry.Do\<close> fails, its result.\<close>

definition retry_task :: "(world \<Rightarrow> error option \<times> error list \<times> world) \<Rightarrow> world \<Rightarrow> error list \<times> world" where
  "retry_task attempt w =
     (case retry_Do retry_attempts attempt w of
        (Some e, out, w1) \<Rightarrow> (out @ [e], w1)
      | (None, out, w1) \<Rightarrow> (out, w1))"

definition RetryDeleteServiceAccount :: "SAInfo \<Rightarrow> world \<Rightarrow> error list \<times> world" where
  "RetryDeleteServiceAccount user = retry_task (sa_delete_attempt user)"

definition RetryDeleteClusterRoles :: "SAInfo \<Rightarrow> world \<Rightarrow> error list \<times> world" where
  "RetryDeleteClusterRoles user = retry_task (roles_delete_attempt user)"

definition RetryDeleteClusterRoleBinding :: "SAInfo \<Rightarrow> world \<Rightarrow> error list \<times> world" where
  "RetryDeleteClusterRoleBinding user = retry_task (crb_delete_attempt user)"

text \<open>The switch of \<open>Cleaner\<close>: one task per ledger entry, none for an unknown tag.\<close>

definition cleanup_task :: "SAInfo \<Rightarrow> string \<Rightarrow> world \<Rightarrow> error list \<times> world" where
  "cleanup_task user d w =
     (if d = SA then RetryDeleteServiceAccount user w
      else if d = ClusterRole then RetryDeleteClusterRoles user w
      else if d = ClusterRoleBinding then RetryDeleteClusterRoleBinding user w
      else ([], w))"

fun run_tasks :: "SAInfo \<Rightarrow> string list \<Rightarrow> world \<Rightarrow> error list \<times> world" where
  "run_tasks user [] w = ([], w)"
| "run_tasks user (d # ds) w =
     (case cleanup_task user d w of
        (out, w1) \<Rightarrow> (case run_tasks user ds w1 of (out', w2) \<Rightarrow> (out @ out', w2)))"

text \<open>
  \<open>Cleaner\<close>: nothing to do for an empty ledger; otherwise run the tasks and fold
  the received errors, the first as it is and each later one wrapped with the
  message of the accumulated error.
\<close>

definition Cleaner :: "RuntimeClient \<Rightarrow> world \<Rightarrow> error option \<times> world" where
  "Cleaner rtc w =
     (if length (RollbackE rtc) = 0 then (None, w)
      else (case run_tasks (User rtc) (RollbackE rtc) w of
              (errs, w1) \<Rightarrow> (fold_errors WrapMsg errs, w1)))"

section \<open>Lemmas\<close>

lemmas cleanup_defs = Cleaner_def cleanup_task_def RetryDeleteServiceAccount_def
  RetryDeleteClusterRoles_def RetryDeleteClusterRoleBinding_def retry_task_def
  sa_delete_attempt_def crb_delete_attempt_def roles_delete_attempt_def clusterroles_def

lemma retry_attempts_Suc: "retry_attempts = Suc 19"
  by (simp add: retry_attempts_def)

text \<open>\<open>retry.Do\<close> stops at the first success.\<close>

lemma retry_Do_first_success:
  "f s = (None, out, s1) \<Longrightarrow> retry_Do (Suc n) f s = (None, out, s1)"
  by simp

text \<open>
  Bounds: if every attempt grows a measure of the state (here: the journal) by at
  most \<open>k\<close>, \<open>retry_Do n\<close> grows it by at most \<open>n * k\<close>; an attempt budget of
  \<open>n\<close> means at most \<open>n\<close> attempts.
\<close>

lemma retry_Do_measure:
  assumes step: "\<And>s r out s'. f s = (r, out, s') \<Longrightarrow> \<mu> s' \<le> \<mu> s + k"
  shows "retry_Do n f s = (r, out, s') \<Longrightarrow> \<mu> s' \<le> \<mu> s + n * k"
proof (induction n arbitrary: s r out s')
  case 0
  then show ?case by simp
next
  case (Suc n)
  obtain r1 out1 s1 where f: "f s = (r1, out1, s1)" by (cases "f s") auto
  have s1: "\<mu> s1 \<le> \<mu> s + k" using step [OF f] .
  show ?case
  proof (cases r1)
    case None
    with Suc.prems f s1 show ?thesis by simp
  next
    case (Some e)
    show ?thesis
    proof (cases n)
      case 0
      with Suc.prems f s1 Some show ?thesis by simp
    next
      case (Suc m)
      with Suc.prems f Some obtain out2 where "retry_Do n f s1 = (r, out2, s')"
        by (auto split: prod.splits)
      then have "\<mu> s' \<le> \<mu> s1 + n * k" by (rule Suc.IH)
      with s1 show ?thesis by simp
    qed
  qed
qed

text \<open>Each attempt makes one delete call (two for the pair of roles).\<close>

lemma sa_delete_attempt_journal:
  "sa_delete_attempt user w = (r, out, w') \<Longrightarrow> length (journal w') = Suc (length (journal w))"
  by (auto simp: sa_delete_attempt_def sa_delete_def obj_delete_def call_def Let_def
      split: list.splits option.splits if_splits)

lemma crb_delete_attempt_journal:
  "crb_delete_attempt user w = (r, out, w') \<Longrightarrow> length (journal w') = Suc (length (journal w))"
  by (auto simp: crb_delete_attempt_def crb_delete_def obj_delete_def call_def Let_def
      split: list.splits option.splits if_splits)

lemma delete_roles_loop_journal:
  "delete_roles_loop names err w = (x, out, w') \<Longrightarrow> length (journal w') \<le> length (journal w) + length names"
proof (induction names err w arbitrary: x out w' rule: delete_roles_loop.induct)
  case (1 err w)
  then show ?case by simp
next
  case (2 name names uu w)
  obtain err w1 where d: "cr_delete name w = (err, w1)" by (cases "cr_delete name w") auto
  have j1: "length (journal w1) = Suc (length (journal w))"
    using d by (auto simp: cr_delete_def obj_delete_def call_def Let_def
        split: list.splits option.splits)
  show ?case
  proof (cases "err \<noteq> None \<and> err \<noteq> Some NotFound")
    case True
    with "2.prems" d obtain out' where "delete_roles_loop names err w1 = (x, out', w')"
      by (auto split: prod.splits)
    from "2.IH"(1) [OF d [symmetric] True this] j1 show ?thesis by simp
  next
    case False
    show ?thesis
    proof (cases "err = Some NotFound")
      case True
      with "2.prems" d j1 show ?thesis by simp
    next
      case nf: False
      with False "2.prems" d have "delete_roles_loop names err w1 = (x, out, w')" by simp
      from "2.IH"(2) [OF d [symmetric] False nf this] j1 show ?thesis by simp
    qed
  qed
qed

lemma roles_delete_attempt_journal:
  "roles_delete_attempt user w = (r, out, w') \<Longrightarrow> length (journal w') \<le> length (journal w) + 2"
  using delete_roles_loop_journal [of "clusterroles user" None w]
  by (auto simp: roles_delete_attempt_def clusterroles_def split: prod.splits loop_exit.splits)

section \<open>The tasks on a store that answers\<close>

text \<open>One attempt of a task, then the remaining nineteen.\<close>

lemma retry_task_unfold:
  "retry_task attempt w =
     (case attempt w of
        (None, out, w1) \<Rightarrow> (out, w1)
      | (Some e, out, w1) \<Rightarrow>
          (case retry_Do 19 attempt w1 of
             (None, out', w2) \<Rightarrow> (out @ out', w2)
           | (Some e', out', w2) \<Rightarrow> (out @ out' @ [e'], w2)))"
  by (simp add: retry_task_def retry_attempts_def numeral_eq_Suc split: prod.splits option.splits)

lemma cleanup_task_tags [simp]:
  "cleanup_task user SA w = RetryDeleteServiceAccount user w"
  "cleanup_task user ClusterRole w = RetryDeleteClusterRoles user w"
  "cleanup_task user ClusterRoleBinding w = RetryDeleteClusterRoleBinding user w"
  by (simp_all add: cleanup_task_def const_defs)

text \<open>On a clean target the service-account task deletes the account in one call.\<close>

lemma RetryDeleteServiceAccount_clean:
  "clean w (TServiceAccount (Namespace user) (ServiceAccountName user)) \<Longrightarrow>
   RetryDeleteServiceAccount user w =
     ([], w\<lparr>service_accounts := (service_accounts w)((Namespace user, ServiceAccountName user) := None),
           journal := journal w @ [Delete (TServiceAccount (Namespace user) (ServiceAccountName user))]\<rparr>)"
  by (auto simp: RetryDeleteServiceAccount_def retry_task_unfold sa_delete_attempt_def
      api_simps map_delete_absent split: option.splits)

lemma RetryDeleteClusterRoleBinding_clean:
  "clean w (TClusterRoleBinding (ClusterRoleBindingName user)) \<Longrightarrow>
   RetryDeleteClusterRoleBinding user w =
     ([], w\<lparr>cluster_role_bindings := (cluster_role_bindings w)(ClusterRoleBindingName user := None),
           journal := journal w @ [Delete (TClusterRoleBinding (ClusterRoleBindingName user))]\<rparr>)"
  by (auto simp: RetryDeleteClusterRoleBinding_def retry_task_unfold crb_delete_attempt_def
      api_simps map_delete_absent split: option.splits)

text \<open>
  The role task deletes the aggregating role first. When that role is absent, the
  "not found" answer ends the attempt with nil and the rules role is never
  deleted; only when the aggregating role exists are both removed.
\<close>

lemma RetryDeleteClusterRoles_clean:
  assumes "clean w (TClusterRole (ClusterRoleName user))" "clean w (TClusterRole (ClusterRoleRulesName user))"
    "ClusterRoleName user \<noteq> ClusterRoleRulesName user"
  shows "RetryDeleteClusterRoles user w =
     (if cluster_roles w (ClusterRoleName user) = None
      then ([], w\<lparr>journal := journal w @ [Delete (TClusterRole (ClusterRoleName user))]\<rparr>)
      else ([], w\<lparr>cluster_roles := (cluster_roles w)(ClusterRoleName user := None,
                                                     ClusterRoleRulesName user := None),
                  journal := journal w @ [Delete (TClusterRole (ClusterRoleName user)),
                                          Delete (TClusterRole (ClusterRoleRulesName user))]\<rparr>))"
  using assms
  by (auto simp: RetryDeleteClusterRoles_def retry_task_unfold roles_delete_attempt_def
      clusterroles_def api_simps map_delete_absent split: option.splits)

section \<open>Failing deletions\<close>

text \<open>A delete of the service account that fails with a transport error.\<close>

lemma sa_delete_attempt_fault:
  "faults w (TServiceAccount (Namespace user) (ServiceAccountName user)) = Some m # fs \<Longrightarrow>
   sa_delete_attempt user w =
     (Some (Wrapf (SAStillExists (ServiceAccountName user) (Namespace user)) (ApiError (Failure m))),
      [ApiError (Failure m)],
      w\<lparr>journal := journal w @ [Delete (TServiceAccount (Namespace user) (ServiceAccountName user))],
        faults := (faults w)(TServiceAccount (Namespace user) (ServiceAccountName user) := fs)\<rparr>)"
  by (simp add: sa_delete_attempt_def api_simps)

text \<open>\<open>n\<close> failing deletes exhaust \<open>retry_Do n\<close>: every failure is sent, the last is returned.\<close>

lemma retry_Do_sa_exhausted:
  "faults w (TServiceAccount (Namespace user) (ServiceAccountName user)) = replicate n (Some m) @ fs \<Longrightarrow>
   0 < n \<Longrightarrow>
   retry_Do n (sa_delete_attempt user) w =
     (Some (Wrapf (SAStillExists (ServiceAccountName user) (Namespace user)) (ApiError (Failure m))),
      replicate n (ApiError (Failure m)),
      w\<lparr>journal := journal w @ replicate n (Delete (TServiceAccount (Namespace user) (ServiceAccountName user))),
        faults := (faults w)(TServiceAccount (Namespace user) (ServiceAccountName user) := fs)\<rparr>)"
proof (induction n arbitrary: w)
  case 0
  then show ?case by simp
next
  case (Suc n)
  show ?case
  proof (cases n)
    case 0
    with Suc.prems show ?thesis by (simp add: sa_delete_attempt_fault fun_upd_def)
  next
    case (Suc k)
    let ?t = "TServiceAccount (Namespace user) (ServiceAccountName user)"
    let ?w1 = "w\<lparr>journal := journal w @ [Delete ?t], faults := (faults w)(?t := replicate n (Some m) @ fs)\<rparr>"
    have a: "sa_delete_attempt user w =
        (Some (Wrapf (SAStillExists (ServiceAccountName user) (Namespace user)) (ApiError (Failure m))),
         [ApiError (Failure m)], ?w1)"
      using Suc.prems by (simp add: sa_delete_attempt_fault)
    have nz: "n \<noteq> 0" and pos: "0 < n" using Suc by simp_all
    have f1: "faults ?w1 ?t = replicate n (Some m) @ fs" by simp
    have r: "retry_Do n (sa_delete_attempt user) ?w1 =
        (Some (Wrapf (SAStillExists (ServiceAccountName user) (Namespace user)) (ApiError (Failure m))),
         replicate n (ApiError (Failure m)),
         ?w1\<lparr>journal := journal ?w1 @ replicate n (Delete ?t), faults := (faults ?w1)(?t := fs)\<rparr>)"
      by (rule Suc.IH [OF f1 pos])
    have weq: "?w1\<lparr>journal := journal ?w1 @ replicate n (Delete ?t), faults := (faults ?w1)(?t := fs)\<rparr> =
        w\<lparr>journal := journal w @ replicate (Suc n) (Delete ?t), faults := (faults w)(?t := fs)\<rparr>"
      by (cases w) simp
    have "retry_Do (Suc n) (sa_delete_attempt user) w =
        (Some (Wrapf (SAStillExists (ServiceAccountName user) (Namespace user)) (ApiError (Failure m))),
         [ApiError (Failure m)] @ replicate n (ApiError (Failure m)),
         ?w1\<lparr>journal := journal ?w1 @ replicate n (Delete ?t), faults := (faults ?w1)(?t := fs)\<rparr>)"
      by (simp only: retry_Do.simps(2) a nz if_False prod.case option.case r)
    then show ?thesis by (simp only: weq replicate_Suc append.simps)
  qed
qed

text \<open>
  Fewer failing deletes than attempts: after the failures, the next delete goes
  through (or finds the account already gone) and \<open>retry_Do\<close> returns nil.
\<close>

lemma sa_delete_attempt_clean:
  "clean w (TServiceAccount (Namespace user) (ServiceAccountName user)) \<Longrightarrow>
   sa_delete_attempt user w =
     (None, [], w\<lparr>service_accounts := (service_accounts w)((Namespace user, ServiceAccountName user) := None),
                journal := journal w @ [Delete (TServiceAccount (Namespace user) (ServiceAccountName user))]\<rparr>)"
  by (cases w) (auto simp: sa_delete_attempt_def api_simps fun_eq_iff split: option.splits)

lemma retry_Do_sa_recovers:
  "faults w (TServiceAccount (Namespace user) (ServiceAccountName user)) = replicate n (Some m) \<Longrightarrow> n < k \<Longrightarrow>
   retry_Do k (sa_delete_attempt user) w =
     (None, replicate n (ApiError (Failure m)),
      w\<lparr>service_accounts := (service_accounts w)((Namespace user, ServiceAccountName user) := None),
        journal := journal w @ replicate (Suc n) (Delete (TServiceAccount (Namespace user) (ServiceAccountName user))),
        faults := (faults w)(TServiceAccount (Namespace user) (ServiceAccountName user) := [])\<rparr>)"
proof (induction n arbitrary: w k)
  case 0
  then obtain k' where k: "k = Suc k'" by (cases k) auto
  from "0.prems" show ?case by (simp add: k sa_delete_attempt_clean fun_upd_idem) (simp add: fun_upd_def)
next
  case (Suc n)
  let ?t = "TServiceAccount (Namespace user) (ServiceAccountName user)"
  let ?e = "Wrapf (SAStillExists (ServiceAccountName user) (Namespace user)) (ApiError (Failure m))"
  let ?w1 = "w\<lparr>journal := journal w @ [Delete ?t], faults := (faults w)(?t := replicate n (Some m))\<rparr>"
  obtain k' where k: "k = Suc k'" and nk: "n < k'" using Suc.prems(2) by (cases k) auto
  have a: "sa_delete_attempt user w = (Some ?e, [ApiError (Failure m)], ?w1)"
    using Suc.prems(1) by (simp add: sa_delete_attempt_fault)
  have r: "retry_Do k' (sa_delete_attempt user) ?w1 =
      (None, replicate n (ApiError (Failure m)),
       ?w1\<lparr>service_accounts := (service_accounts ?w1)((Namespace user, ServiceAccountName user) := None),
         journal := journal ?w1 @ replicate (Suc n) (Delete ?t), faults := (faults ?w1)(?t := [])\<rparr>)"
    by (rule Suc.IH) (simp_all add: nk)
  have nz: "k' \<noteq> 0" using nk by simp
  show ?case
    by (simp add: k a nz r) (cases w, simp add: fun_eq_iff)
qed

section \<open>Properties of the cleanup tasks\<close>

text \<open>
  C11: every retrying task is bounded by the attempt budget of \<open>retry.Do\<close>: on any
  store, the service-account task and the binding task make at most 20 delete
  calls and the role task at most 40.
\<close>

theorem cleanup_tasks_bounded:
  "length (journal (snd (RetryDeleteServiceAccount user w))) \<le> length (journal w) + 20 \<and>
   length (journal (snd (RetryDeleteClusterRoleBinding user w))) \<le> length (journal w) + 20 \<and>
   length (journal (snd (RetryDeleteClusterRoles user w))) \<le> length (journal w) + 40"
proof -
  have task: "length (journal (snd (retry_task a w))) \<le> length (journal w) + 20 * k"
    if step: "\<And>s r out s'. a s = (r, out, s') \<Longrightarrow> length (journal s') \<le> length (journal s) + k"
    for a :: "world \<Rightarrow> error option \<times> error list \<times> world" and k
  proof -
    obtain r out w' where rd: "retry_Do retry_attempts a w = (r, out, w')" by (cases "retry_Do retry_attempts a w") auto
    have "length (journal w') \<le> length (journal w) + retry_attempts * k"
      by (rule retry_Do_measure [where \<mu> = "\<lambda>s. length (journal s)", OF step rd])
    then show ?thesis using rd by (simp add: retry_task_def retry_attempts_def split: option.splits)
  qed
  have "length (journal (snd (retry_task (sa_delete_attempt user) w))) \<le> length (journal w) + 20 * 1"
    by (rule task) (simp add: sa_delete_attempt_journal)
  moreover have "length (journal (snd (retry_task (crb_delete_attempt user) w))) \<le> length (journal w) + 20 * 1"
    by (rule task) (simp add: crb_delete_attempt_journal)
  moreover have "length (journal (snd (retry_task (roles_delete_attempt user) w))) \<le> length (journal w) + 20 * 2"
    by (rule task) (rule roles_delete_attempt_journal)
  ultimately show ?thesis
    by (simp add: RetryDeleteServiceAccount_def RetryDeleteClusterRoleBinding_def RetryDeleteClusterRoles_def)
qed

text \<open>
  C12: when every one of the 20 attempts to delete the service account fails,
  the task leaves the account in place, sends each of the 20 errors on the channel
  and then the error \<open>retry.Do\<close> returns: the last one, wrapped.
\<close>

theorem RetryDeleteServiceAccount_exhausted:
  "faults w (TServiceAccount (Namespace user) (ServiceAccountName user)) = replicate 20 (Some m) @ fs \<Longrightarrow>
   RetryDeleteServiceAccount user w =
     (replicate 20 (ApiError (Failure m)) @
        [Wrapf (SAStillExists (ServiceAccountName user) (Namespace user)) (ApiError (Failure m))],
      w\<lparr>journal := journal w @ replicate 20 (Delete (TServiceAccount (Namespace user) (ServiceAccountName user))),
        faults := (faults w)(TServiceAccount (Namespace user) (ServiceAccountName user) := fs)\<rparr>)"
  by (simp add: RetryDeleteServiceAccount_def retry_task_def retry_attempts_def retry_Do_sa_exhausted)

theorem RetryDeleteServiceAccount_exhausted_witness:
  "fst (RetryDeleteServiceAccount (newSAInfo ''alice'' ''t'')
      ((empty_world (\<lambda>_. ''tok''))\<lparr>service_accounts := [(''kube-system'', ''alice'') \<mapsto> initServiceAccount (newSAInfo ''alice'' ''t'')],
         faults := (\<lambda>_. [])(TServiceAccount ''kube-system'' ''alice'' := replicate 20 (Some ''unavailable''))\<rparr>))
   = replicate 20 (ApiError (Failure ''unavailable'')) @
       [Wrapf (SAStillExists ''alice'' ''kube-system'') (ApiError (Failure ''unavailable''))]"
  using RetryDeleteServiceAccount_exhausted
    [of "(empty_world (\<lambda>_. ''tok''))\<lparr>service_accounts := [(''kube-system'', ''alice'') \<mapsto> initServiceAccount (newSAInfo ''alice'' ''t'')],
         faults := (\<lambda>_. [])(TServiceAccount ''kube-system'' ''alice'' := replicate 20 (Some ''unavailable''))\<rparr>"
        "newSAInfo ''alice'' ''t''" "''unavailable''" "[]"]
  by (simp add: newSAInfo_def Namespace_const_def)

text \<open>
  C13: the cleanup reports an error even when the retry succeeds. If the first
  delete of the service account fails and the second removes it, the account is
  gone, yet the error of the first attempt was sent on the channel and
  \<open>Cleaner\<close> returns it.
\<close>

theorem Cleaner_reports_recovered_failure:
  assumes "RollbackE rtc = [SA]"
    and "faults w (TServiceAccount (Namespace (User rtc)) (ServiceAccountName (User rtc))) = [Some m]"
    and "service_accounts w (Namespace (User rtc), ServiceAccountName (User rtc)) \<noteq> None"
  shows "Cleaner rtc w =
    (Some (ApiError (Failure m)),
     w\<lparr>service_accounts := (service_accounts w)((Namespace (User rtc), ServiceAccountName (User rtc)) := None),
       journal := journal w @ [Delete (TServiceAccount (Namespace (User rtc)) (ServiceAccountName (User rtc))),
                              Delete (TServiceAccount (Namespace (User rtc)) (ServiceAccountName (User rtc)))],
       faults := (faults w)(TServiceAccount (Namespace (User rtc)) (ServiceAccountName (User rtc)) := [])\<rparr>)"
  using assms
  by (auto simp: Cleaner_def RetryDeleteServiceAccount_def retry_task_unfold sa_delete_attempt_fault
      sa_delete_attempt_def api_simps fold_errors_def numeral_eq_Suc)

theorem Cleaner_reports_recovered_failure_witness:
  "fst (Cleaner ((NewRuntimeClient ''alice'' ''runtimeAdmin'' ''t'' 60)\<lparr>RollbackE := [SA]\<rparr>)
      ((empty_world (\<lambda>_. ''tok''))\<lparr>service_accounts := [(''kube-system'', ''alice'') \<mapsto> initServiceAccount (newSAInfo ''alice'' ''t'')],
         faults := (\<lambda>_. [])(TServiceAccount ''kube-system'' ''alice'' := [Some ''etcd timeout''])\<rparr>))
   = Some (ApiError (Failure ''etcd timeout''))"
  using Cleaner_reports_recovered_failure
    [of "(NewRuntimeClient ''alice'' ''runtimeAdmin'' ''t'' 60)\<lparr>RollbackE := [SA]\<rparr>"
        "(empty_world (\<lambda>_. ''tok''))\<lparr>service_accounts := [(''kube-system'', ''alice'') \<mapsto> initServiceAccount (newSAInfo ''alice'' ''t'')],
         faults := (\<lambda>_. [])(TServiceAccount ''kube-system'' ''alice'' := [Some ''etcd timeout''])\<rparr>"
        "''etcd timeout''"]
  by (simp add: NewRuntimeClient_def newSAInfo_def Namespace_const_def)

text \<open>
  C20: the service-account task deletes the account once the store recovers
  within the budget. If the first \<open>n < 20\<close> delete calls fail and the store answers
  from then on, the task ends with the account absent. It sends the \<open>n\<close> errors on
  the channel and no final error, after \<open>n + 1\<close> delete calls.
\<close>

theorem RetryDeleteServiceAccount_recovers:
  "faults w (TServiceAccount (Namespace user) (ServiceAccountName user)) = replicate n (Some m) \<Longrightarrow> n < 20 \<Longrightarrow>
   RetryDeleteServiceAccount user w =
     (replicate n (ApiError (Failure m)),
      w\<lparr>service_accounts := (service_accounts w)((Namespace user, ServiceAccountName user) := None),
        journal := journal w @ replicate (Suc n) (Delete (TServiceAccount (Namespace user) (ServiceAccountName user))),
        faults := (faults w)(TServiceAccount (Namespace user) (ServiceAccountName user) := [])\<rparr>)"
  using retry_Do_sa_recovers [of w user n m retry_attempts]
  by (simp add: RetryDeleteServiceAccount_def retry_task_def retry_attempts_def)

theorem RetryDeleteServiceAccount_recovers_witness:
  "RetryDeleteServiceAccount (newSAInfo ''alice'' ''t'')
      ((empty_world (\<lambda>_. ''tok''))\<lparr>service_accounts := [(''kube-system'', ''alice'') \<mapsto> initServiceAccount (newSAInfo ''alice'' ''t'')],
         faults := (\<lambda>_. [])(TServiceAccount ''kube-system'' ''alice'' := replicate 3 (Some ''unavailable''))\<rparr>)
   = (replicate 3 (ApiError (Failure ''unavailable'')),
      (empty_world (\<lambda>_. ''tok''))\<lparr>journal := replicate 4 (Delete (TServiceAccount ''kube-system'' ''alice''))\<rparr>)"
  using RetryDeleteServiceAccount_recovers
    [of "(empty_world (\<lambda>_. ''tok''))\<lparr>service_accounts := [(''kube-system'', ''alice'') \<mapsto> initServiceAccount (newSAInfo ''alice'' ''t'')],
         faults := (\<lambda>_. [])(TServiceAccount ''kube-system'' ''alice'' := replicate 3 (Some ''unavailable''))\<rparr>"
        "newSAInfo ''alice'' ''t''" 3 "''unavailable''"]
  by (simp add: newSAInfo_def Namespace_const_def empty_world_def fun_eq_iff)

end
