(* ===== verification/Provision.thy ===== *)
theory Provision
  imports Cleanup
begin

text \<open>
  The provisioning orchestrator of \<open>runtime.go\<close>: the ensure steps
  \<open>createServiceAccount\<close>, \<open>createClusterRoleRules\<close>, \<open>createClusterRole\<close>,
  \<open>createClusterRoleBinding\<close> (lines 152--211), the token request
  \<open>getServiceAccountToken\<close> (lines 319--329) and \<open>Run\<close> (lines 113--150), which
  chains them, appends to the rollback ledger \<open>RollbackE\<close> on a failure, and runs
  \<open>Cleaner\<close> on every exit through its deferred function.
\<close>

section \<open>The ensure steps\<close>

definition createServiceAccount :: "SAInfo \<Rightarrow> world \<Rightarrow> error option \<times> world" where
  "createServiceAccount user w =
     (case verifyServiceAccount user w of
        (Inl err, w1) \<Rightarrow> (Some (Wrapf InVerifyServiceAccount err), w1)
      | (Inr saExisted, w1) \<Rightarrow>
          if saExisted then (None, w1)
          else (case sa_create (Namespace user) (initServiceAccount user) w1 of
                  (err, w2) \<Rightarrow> (map_option ApiError err, w2)))"

definition createClusterRoleRules :: "SAInfo \<Rightarrow> string \<Rightarrow> world \<Rightarrow> error option \<times> world" where
  "createClusterRoleRules user l2L3OperatiorRole w =
     (if l2L3OperatiorRole \<noteq> RUNTIME_ADMIN \<and> l2L3OperatiorRole \<noteq> RUNTIME_OPERATOR
      then (Some (RoleNotIn l2L3OperatiorRole), w)
      else (case verifyClusterRoleRules user l2L3OperatiorRole w of
              (Inl err, w1) \<Rightarrow> (Some (Wrapf InVerifyClusterRoleRules err), w1)
            | (Inr crExist, w1) \<Rightarrow>
                if crExist then (None, w1)
                else (case cr_create (initClusterRoleRules (ClusterRoleRulesName user)
                                        l2L3OperatiorRole (ClusterRoleAggrLabel user)) w1 of
                        (err, w2) \<Rightarrow> (map_option ApiError err, w2))))"

definition createClusterRole :: "SAInfo \<Rightarrow> string \<Rightarrow> world \<Rightarrow> error option \<times> world" where
  "createClusterRole user l2L3OperatiorRole w =
     (case verifyClusterRole user l2L3OperatiorRole (ClusterRoleAggrLabel user) w of
        (Inl err, w1) \<Rightarrow> (Some (Wrapf InVerifyClusterRoleAggregation err), w1)
      | (Inr crExist, w1) \<Rightarrow>
          if crExist then (None, w1)
          else (case cr_create (initClusterRole (ClusterRoleName user)
                                  l2L3OperatiorRole (ClusterRoleAggrLabel user)) w1 of
                  (err, w2) \<Rightarrow> (map_option ApiError err, w2)))"

definition createClusterRoleBinding :: "SAInfo \<Rightarrow> world \<Rightarrow> error option \<times> world" where
  "createClusterRoleBinding user w =
     (case initCRBindingE user of
        (objectMeta, roleRef, subjects) \<Rightarrow>
          (case verifyCRBinding user roleRef subjects w of
             (Inl err, w1) \<Rightarrow> (Some (Wrapf InVerifyCRBinding err), w1)
           | (Inr existed, w1) \<Rightarrow>
               if existed then (None, w1)
               else (case crb_create (initCRBinding objectMeta roleRef subjects) w1 of
                       (err, w2) \<Rightarrow> (map_option ApiError err, w2))))"

definition getServiceAccountToken :: "RuntimeClient \<Rightarrow> world \<Rightarrow> (error + string) \<times> world" where
  "getServiceAccountToken rtc w =
     (case sa_create_token (Namespace (User rtc)) (ServiceAccountName (User rtc)) (ExpireTime rtc) w of
        (Inr tok, w1) \<Rightarrow> (Inr tok, w1)
      | (Inl err, w1) \<Rightarrow> (Inl (ApiError err), w1))"

section \<open>Run\<close>

text \<open>
  The deferred function of \<open>Run\<close>: \<open>Cleaner\<close> runs on every return. Its error is
  assigned to the local variable \<open>resultE\<close>, which is not a named result, after
  the return values have been fixed; so it never reaches the caller.
\<close>

definition run_exit :: "RuntimeClient \<Rightarrow> world \<Rightarrow> error + string \<Rightarrow> (error + string) \<times> RuntimeClient \<times> world" where
  "run_exit rtc w result = (case Cleaner rtc w of (_, w1) \<Rightarrow> (result, rtc, w1))"

definition Run :: "RuntimeClient \<Rightarrow> world \<Rightarrow> (error + string) \<times> RuntimeClient \<times> world" where
  "Run rtc w =
     (let user = User rtc; role = L2L3OperatiorRole rtc in
      (case createServiceAccount user w of
        (Some err, w1) \<Rightarrow>
          run_exit rtc w1
            (Inl (Wrapf (WhileCreateServiceAccount (ServiceAccountName user) (Namespace user)) err))
      | (None, w1) \<Rightarrow>
      (case createClusterRoleRules user role w1 of
        (Some err, w2) \<Rightarrow>
          run_exit (rtc\<lparr>RollbackE := RollbackE rtc @ [SA]\<rparr>) w2
            (Inl (Wrapf (WhileCreateClusterRole (ClusterRoleName user)) err))
      | (None, w2) \<Rightarrow>
      (case createClusterRole user role w2 of
        (Some err, w3) \<Rightarrow>
          run_exit (rtc\<lparr>RollbackE := RollbackE rtc @ [SA, ClusterRole]\<rparr>) w3
            (Inl (Wrapf (WhileCreateClusterRole (ClusterRoleName user)) err))
      | (None, w3) \<Rightarrow>
      (case getServiceAccountToken rtc w3 of
        (Inl err, w4) \<Rightarrow>
          run_exit (rtc\<lparr>RollbackE := RollbackE rtc @ [SA, ClusterRole]\<rparr>) w4
            (Inl (Wrapf (WhileGetServiceAccountToken (ServiceAccountName user)) err))
      | (Inr saToken, w4) \<Rightarrow>
      (case createClusterRoleBinding user w4 of
        (Some err, w5) \<Rightarrow>
          run_exit (rtc\<lparr>RollbackE := RollbackE rtc @ [SA, ClusterRole]\<rparr>) w5
            (Inl (Wrapf (WhileCreateClusterRoleBinding (ClusterRoleBindingName user)) err))
      | (None, w5) \<Rightarrow> run_exit rtc w5 (Inr saToken)))))))"

section \<open>The ensure contract\<close>

text \<open>
  What an ensure step promises on the map of its kind: keep an object that passes
  the shape check, otherwise (absent, or stale and removed by the verifier) put
  the built object in its place. \<open>ensure_calls\<close> are the calls it makes.
\<close>

definition ensure :: "('o \<Rightarrow> bool) \<Rightarrow> ('k \<rightharpoonup> 'o) \<Rightarrow> 'k \<Rightarrow> 'o \<Rightarrow> 'k \<rightharpoonup> 'o" where
  "ensure ok m k ob = (if fst (reconcile ok m k) then m else (snd (reconcile ok m k))(k \<mapsto> ob))"

definition ensure_calls :: "('o \<Rightarrow> bool) \<Rightarrow> ('k \<rightharpoonup> 'o) \<Rightarrow> 'k \<Rightarrow> target \<Rightarrow> request list" where
  "ensure_calls ok m k t =
     reconcile_calls ok m k t @ (if fst (reconcile ok m k) then [] else [Create t])"

text \<open>The subjects and the role reference a binding of the identity must have.\<close>

definition binding_ok :: "SAInfo \<Rightarrow> ClusterRoleBindingObj \<Rightarrow> bool" where
  "binding_ok user crb \<longleftrightarrow>
     Subjects crb = snd (snd (initCRBindingE user)) \<and> crb_RoleRef crb = fst (snd (initCRBindingE user))"

definition built_binding :: "SAInfo \<Rightarrow> ClusterRoleBindingObj" where
  "built_binding user =
     (case initCRBindingE user of (objectMeta, roleRef, subjects) \<Rightarrow> initCRBinding objectMeta roleRef subjects)"

section \<open>A run on a store that answers\<close>

text \<open>The objects a run touches, and a store without pending faults on them.\<close>

definition user_targets :: "SAInfo \<Rightarrow> target list" where
  "user_targets user =
     [TServiceAccount (Namespace user) (ServiceAccountName user),
      TClusterRole (ClusterRoleRulesName user), TClusterRole (ClusterRoleName user),
      TTokenRequest (Namespace user) (ServiceAccountName user),
      TClusterRoleBinding (ClusterRoleBindingName user)]"

definition healthy :: "SAInfo \<Rightarrow> world \<Rightarrow> bool" where
  "healthy user w \<longleftrightarrow> (\<forall>t \<in> set (user_targets user). faults w t = [])"

text \<open>
  The shape checks of the three RBAC kinds for a client, and the world a
  successful run leaves: the four ensure steps in the order of \<open>Run\<close>, one
  token issued, and the calls made.
\<close>

definition rules_ok :: "RuntimeClient \<Rightarrow> ClusterRoleObj \<Rightarrow> bool" where
  "rules_ok rtc cr \<longleftrightarrow> Rules cr = go_index L2L3OperatorPolicyRule (L2L3OperatiorRole rtc)"

definition role_ok :: "RuntimeClient \<Rightarrow> ClusterRoleObj \<Rightarrow> bool" where
  "role_ok rtc cr \<longleftrightarrow> selectors_match (AggregationRule cr)
     (expectedSelectors (L2L3OperatiorRole rtc) (ClusterRoleAggrLabel (User rtc)))"

definition provisioned_world :: "RuntimeClient \<Rightarrow> world \<Rightarrow> world" where
  "provisioned_world rtc w =
     (let u = User rtc; r = L2L3OperatiorRole rtc;
          sak = (Namespace u, ServiceAccountName u);
          rn = ClusterRoleRulesName u; an = ClusterRoleName u; bn = ClusterRoleBindingName u;
          crs1 = ensure (rules_ok rtc) (cluster_roles w) rn
                   (initClusterRoleRules rn r (ClusterRoleAggrLabel u))
      in w\<lparr>service_accounts := ensure (\<lambda>_. True) (service_accounts w) sak (initServiceAccount u),
           cluster_roles := ensure (role_ok rtc) crs1 an (initClusterRole an r (ClusterRoleAggrLabel u)),
           issued := Suc (issued w),
           cluster_role_bindings := ensure (binding_ok u) (cluster_role_bindings w) bn (built_binding u),
           journal := journal w
             @ ensure_calls (\<lambda>_. True) (service_accounts w) sak (TServiceAccount (fst sak) (snd sak))
             @ ensure_calls (rules_ok rtc) (cluster_roles w) rn (TClusterRole rn)
             @ ensure_calls (role_ok rtc) crs1 an (TClusterRole an)
             @ [CreateToken (Namespace u) (ServiceAccountName u) (ExpireTime rtc)]
             @ ensure_calls (binding_ok u) (cluster_role_bindings w) bn (TClusterRoleBinding bn)\<rparr>)"

text \<open>The state a successful provisioning is meant to leave for a client.\<close>

definition provisioned :: "RuntimeClient \<Rightarrow> world \<Rightarrow> bool" where
  "provisioned rtc w \<longleftrightarrow>
     (let u = User rtc in
      service_accounts w (Namespace u, ServiceAccountName u) \<noteq> None \<and>
      (case cluster_roles w (ClusterRoleRulesName u) of None \<Rightarrow> False | Some cr \<Rightarrow> rules_ok rtc cr) \<and>
      (case cluster_roles w (ClusterRoleName u) of None \<Rightarrow> False | Some cr \<Rightarrow> role_ok rtc cr) \<and>
      (case cluster_role_bindings w (ClusterRoleBindingName u) of
         None \<Rightarrow> False | Some crb \<Rightarrow> binding_ok u crb))"

lemmas create_defs = createServiceAccount_def createClusterRoleRules_def createClusterRole_def
  createClusterRoleBinding_def getServiceAccountToken_def

lemma reconcile_False_absent:
  "\<not> fst (reconcile ok m k) \<Longrightarrow> snd (reconcile ok m k) k = None"
  by (auto simp: reconcile_def split: option.splits if_splits)

text \<open>After an ensure whose built object passes the check, the object passes it.\<close>

lemma ensure_post:
  "ok ob \<Longrightarrow> \<exists>ob'. ensure ok m k ob k = Some ob' \<and> ok ob'"
  by (auto simp: ensure_def reconcile_def split: option.splits)

lemma ensure_other [simp]:
  "k' \<noteq> k \<Longrightarrow> ensure ok m k ob k' = m k'"
  by (auto simp: ensure_def reconcile_def split: option.splits)

text \<open>An object that already passes the check is kept, and only read.\<close>

lemma ensure_satisfied:
  "m k = Some ob' \<Longrightarrow> ok ob' \<Longrightarrow> ensure ok m k ob = m \<and> ensure_calls ok m k t = [Get t]"
  by (simp add: ensure_def ensure_calls_def reconcile_def reconcile_calls_def)

lemma ensure_present [simp]: "ok ob \<Longrightarrow> \<exists>y. ensure ok m k ob k = Some y"
  using ensure_post by fastforce

lemma ensure_delete: "(ensure ok m k ob)(k := None) = m(k := None)"
  by (auto simp: ensure_def reconcile_def split: option.splits)

lemmas ensure_simps = ensure_def ensure_calls_def reconcile_def reconcile_calls_def

section \<open>The steps on targets without pending faults\<close>

lemma createServiceAccount_clean:
  "clean w (TServiceAccount (Namespace user) (ServiceAccountName user)) \<Longrightarrow>
   createServiceAccount user w =
     (None, w\<lparr>service_accounts := ensure (\<lambda>_. True) (service_accounts w)
                (Namespace user, ServiceAccountName user) (initServiceAccount user),
             journal := journal w @ ensure_calls (\<lambda>_. True) (service_accounts w)
                (Namespace user, ServiceAccountName user)
                (TServiceAccount (Namespace user) (ServiceAccountName user))\<rparr>)"
  by (auto simp: createServiceAccount_def verifyServiceAccount_refines ensure_simps
        initServiceAccount_def api_simps split: option.splits)

lemma createClusterRoleRules_invalid:
  "\<not> valid_role r \<Longrightarrow> createClusterRoleRules user r w = (Some (RoleNotIn r), w)"
  by (simp add: createClusterRoleRules_def valid_role_def)

lemma createClusterRoleRules_clean:
  "valid_role r \<Longrightarrow> clean w (TClusterRole (ClusterRoleRulesName user)) \<Longrightarrow>
   createClusterRoleRules user r w =
     (None, w\<lparr>cluster_roles := ensure (\<lambda>cr. Rules cr = go_index L2L3OperatorPolicyRule r)
                (cluster_roles w) (ClusterRoleRulesName user)
                (initClusterRoleRules (ClusterRoleRulesName user) r (ClusterRoleAggrLabel user)),
             journal := journal w @ ensure_calls (\<lambda>cr. Rules cr = go_index L2L3OperatorPolicyRule r)
                (cluster_roles w) (ClusterRoleRulesName user) (TClusterRole (ClusterRoleRulesName user))\<rparr>)"
  by (auto simp: createClusterRoleRules_def valid_role_def verifyClusterRoleRules_refines ensure_simps
        initClusterRoleRules_def api_simps split: option.splits)

lemma createClusterRole_clean:
  "clean w (TClusterRole (ClusterRoleName user)) \<Longrightarrow>
   createClusterRole user r w =
     (None, w\<lparr>cluster_roles := ensure
                (\<lambda>cr. selectors_match (AggregationRule cr) (expectedSelectors r (ClusterRoleAggrLabel user)))
                (cluster_roles w) (ClusterRoleName user)
                (initClusterRole (ClusterRoleName user) r (ClusterRoleAggrLabel user)),
             journal := journal w @ ensure_calls
                (\<lambda>cr. selectors_match (AggregationRule cr) (expectedSelectors r (ClusterRoleAggrLabel user)))
                (cluster_roles w) (ClusterRoleName user) (TClusterRole (ClusterRoleName user))\<rparr>)"
  by (auto simp: createClusterRole_def verifyClusterRole_refines ensure_simps
        initClusterRole_def api_simps split: option.splits)

lemma createClusterRoleBinding_clean:
  "clean w (TClusterRoleBinding (ClusterRoleBindingName user)) \<Longrightarrow>
   createClusterRoleBinding user w =
     (None, w\<lparr>cluster_role_bindings := ensure (binding_ok user)
                (cluster_role_bindings w) (ClusterRoleBindingName user) (built_binding user),
             journal := journal w @ ensure_calls (binding_ok user)
                (cluster_role_bindings w) (ClusterRoleBindingName user)
                (TClusterRoleBinding (ClusterRoleBindingName user))\<rparr>)"
  by (auto simp: createClusterRoleBinding_def initCRBindingE_def verifyCRBinding_refines ensure_simps
        binding_ok_def built_binding_def initCRBinding_def api_simps split: option.splits)

lemma getServiceAccountToken_clean:
  "clean w (TTokenRequest (Namespace (User rtc)) (ServiceAccountName (User rtc))) \<Longrightarrow>
   service_accounts w (Namespace (User rtc), ServiceAccountName (User rtc)) \<noteq> None \<Longrightarrow>
   getServiceAccountToken rtc w =
     (Inr (token_source w (issued w)),
      w\<lparr>journal := journal w @ [CreateToken (Namespace (User rtc)) (ServiceAccountName (User rtc)) (ExpireTime rtc)],
        issued := Suc (issued w)\<rparr>)"
  by (auto simp: getServiceAccountToken_def api_simps)

lemma Cleaner_Nil: "RollbackE rtc = [] \<Longrightarrow> Cleaner rtc w = (None, w)"
  by (simp add: Cleaner_def)

lemma rules_ok_eq: "rules_ok rtc = (\<lambda>cr. Rules cr = go_index L2L3OperatorPolicyRule (L2L3OperatiorRole rtc))"
  by (simp add: rules_ok_def fun_eq_iff)

lemma role_ok_eq:
  "role_ok rtc = (\<lambda>cr. selectors_match (AggregationRule cr)
     (expectedSelectors (L2L3OperatiorRole rtc) (ClusterRoleAggrLabel (User rtc))))"
  by (simp add: role_ok_def fun_eq_iff)

text \<open>
  A fresh client with a valid privilege level, on a store without pending faults
  on its objects, returns the next token of the store and leaves
  \<open>provisioned_world\<close>; the ledger stays empty and the cleanup does nothing.
\<close>

lemma Run_healthy:
  assumes "valid_role (L2L3OperatiorRole rtc)" "healthy (User rtc) w" "RollbackE rtc = []"
  shows "Run rtc w = (Inr (token_source w (issued w)), rtc, provisioned_world rtc w)"
  using assms
  by (simp add: Run_def run_exit_def Cleaner_Nil healthy_def user_targets_def Let_def
      createServiceAccount_clean createClusterRoleRules_clean createClusterRole_clean
      getServiceAccountToken_clean createClusterRoleBinding_clean provisioned_world_def
      rules_ok_eq role_ok_eq)

text \<open>
  The same run from a client whose ledger is not empty: every step succeeds, and
  the deferred cleanup then works through the old ledger.
\<close>

lemma run_exit_eq: "run_exit rtc w r = (r, rtc, snd (Cleaner rtc w))"
  by (simp add: run_exit_def split: prod.split)

lemma Run_healthy_ledger:
  assumes "valid_role (L2L3OperatiorRole rtc)" "healthy (User rtc) w"
  shows "Run rtc w = (Inr (token_source w (issued w)), rtc, snd (Cleaner rtc (provisioned_world rtc w)))"
  using assms
  by (simp add: Run_def run_exit_eq healthy_def user_targets_def Let_def
      createServiceAccount_clean createClusterRoleRules_clean createClusterRole_clean
      getServiceAccountToken_clean createClusterRoleBinding_clean provisioned_world_def
      rules_ok_eq role_ok_eq)

text \<open>
  A level outside the tables: the service account is ensured first, the level
  check then fails, \<open>[SA]\<close> enters the ledger and the cleanup deletes the
  account, whether this run created it or not.
\<close>

lemma Run_invalid_role_general:
  assumes "\<not> valid_role (L2L3OperatiorRole rtc)" "faults w = (\<lambda>_. [])" "RollbackE rtc = []"
  shows "Run rtc w =
    (Inl (Wrapf (WhileCreateClusterRole (ClusterRoleName (User rtc))) (RoleNotIn (L2L3OperatiorRole rtc))),
     rtc\<lparr>RollbackE := [SA]\<rparr>,
     w\<lparr>service_accounts := (service_accounts w)((Namespace (User rtc), ServiceAccountName (User rtc)) := None),
       journal := journal w @ ensure_calls (\<lambda>_. True) (service_accounts w)
                    (Namespace (User rtc), ServiceAccountName (User rtc))
                    (TServiceAccount (Namespace (User rtc)) (ServiceAccountName (User rtc)))
                  @ [Delete (TServiceAccount (Namespace (User rtc)) (ServiceAccountName (User rtc)))]\<rparr>)"
  using assms
  by (simp add: Run_def run_exit_eq createServiceAccount_clean createClusterRoleRules_invalid
      Cleaner_def RetryDeleteServiceAccount_clean ensure_delete Let_def)

text \<open>The builders produce objects their verifiers accept (build, then verify: satisfied).\<close>

lemma built_objects_ok:
  "rules_ok rtc (initClusterRoleRules n (L2L3OperatiorRole rtc) l)"
  "role_ok rtc (initClusterRole n (L2L3OperatiorRole rtc) (ClusterRoleAggrLabel (User rtc)))"
  "binding_ok u (built_binding u)"
  by (simp_all add: rules_ok_def role_ok_def initClusterRoleRules_def initClusterRole_def
      selectors_match_def binding_ok_def built_binding_def initCRBindingE_def initCRBinding_def)

lemma ensure_at:
  "ok ob \<Longrightarrow> (case ensure ok m k ob k of None \<Rightarrow> False | Some x \<Rightarrow> ok x)"
  using ensure_post [of ok ob m k] by auto

lemma provisioned_world_provisioned:
  "ClusterRoleRulesName (User rtc) \<noteq> ClusterRoleName (User rtc) \<Longrightarrow>
   provisioned rtc (provisioned_world rtc w)"
  by (simp add: provisioned_def provisioned_world_def Let_def ensure_at built_objects_ok)

text \<open>On a provisioned store the ensure steps only read.\<close>

lemma provisioned_world_idle:
  assumes "provisioned rtc w" "ClusterRoleRulesName (User rtc) \<noteq> ClusterRoleName (User rtc)"
  shows "provisioned_world rtc w =
    w\<lparr>issued := Suc (issued w),
      journal := journal w @
        [Get (TServiceAccount (Namespace (User rtc)) (ServiceAccountName (User rtc))),
         Get (TClusterRole (ClusterRoleRulesName (User rtc))),
         Get (TClusterRole (ClusterRoleName (User rtc))),
         CreateToken (Namespace (User rtc)) (ServiceAccountName (User rtc)) (ExpireTime rtc),
         Get (TClusterRoleBinding (ClusterRoleBindingName (User rtc)))]\<rparr>"
  using assms
  by (auto simp: provisioned_def provisioned_world_def Let_def ensure_satisfied
      split: option.splits)

section \<open>The steps when a call fails\<close>

text \<open>
  An ensure step on an absent object whose get goes through and whose create
  fails with a transport error returns that error and creates nothing.
\<close>

lemma createClusterRole_create_fault:
  "faults w (TClusterRole (ClusterRoleName user)) = None # Some m # fs \<Longrightarrow>
   cluster_roles w (ClusterRoleName user) = None \<Longrightarrow>
   createClusterRole user r w =
     (Some (ApiError (Failure m)),
      w\<lparr>journal := journal w @ [Get (TClusterRole (ClusterRoleName user)), Create (TClusterRole (ClusterRoleName user))],
        faults := (faults w)(TClusterRole (ClusterRoleName user) := fs)\<rparr>)"
  by (simp add: createClusterRole_def verifyClusterRole_def cr_get_def cr_create_def initClusterRole_def
      api_simps)

lemma createClusterRoleBinding_create_fault:
  "faults w (TClusterRoleBinding (ClusterRoleBindingName user)) = None # Some m # fs \<Longrightarrow>
   cluster_role_bindings w (ClusterRoleBindingName user) = None \<Longrightarrow>
   createClusterRoleBinding user w =
     (Some (ApiError (Failure m)),
      w\<lparr>journal := journal w @ [Get (TClusterRoleBinding (ClusterRoleBindingName user)),
                              Create (TClusterRoleBinding (ClusterRoleBindingName user))],
        faults := (faults w)(TClusterRoleBinding (ClusterRoleBindingName user) := fs)\<rparr>)"
  by (simp add: createClusterRoleBinding_def initCRBindingE_def verifyCRBinding_def crb_get_def
      crb_create_def initCRBinding_def api_simps)

lemma getServiceAccountToken_fault:
  "faults w (TTokenRequest (Namespace (User rtc)) (ServiceAccountName (User rtc))) = Some m # fs \<Longrightarrow>
   getServiceAccountToken rtc w =
     (Inl (ApiError (Failure m)),
      w\<lparr>journal := journal w @ [CreateToken (Namespace (User rtc)) (ServiceAccountName (User rtc)) (ExpireTime rtc)],
        faults := (faults w)(TTokenRequest (Namespace (User rtc)) (ServiceAccountName (User rtc)) := fs)\<rparr>)"
  by (simp add: getServiceAccountToken_def api_simps)

lemma createServiceAccount_pass:
  "faults w (TServiceAccount (Namespace user) (ServiceAccountName user)) = None # None # fs \<Longrightarrow>
   service_accounts w (Namespace user, ServiceAccountName user) = None \<Longrightarrow>
   createServiceAccount user w =
     (None, w\<lparr>service_accounts := (service_accounts w)((Namespace user, ServiceAccountName user) \<mapsto> initServiceAccount user),
             journal := journal w @ [Get (TServiceAccount (Namespace user) (ServiceAccountName user)),
                                     Create (TServiceAccount (Namespace user) (ServiceAccountName user))],
             faults := (faults w)(TServiceAccount (Namespace user) (ServiceAccountName user) := fs)\<rparr>)"
  by (simp add: createServiceAccount_def verifyServiceAccount_def sa_get_def sa_create_def sa_target_def
      initServiceAccount_def api_simps)

text \<open>On an absent object an ensure step is a get followed by a create.\<close>

lemma ensure_absent:
  "m k = None \<Longrightarrow> ensure ok m k ob = m(k \<mapsto> ob) \<and> ensure_calls ok m k t = [Get t, Create t]"
  by (simp add: ensure_def ensure_calls_def reconcile_def reconcile_calls_def)

section \<open>Provisioning: results of a run\<close>

text \<open>
  C1: a fresh client (\<open>NewRuntimeClient\<close>) with one of the two privilege levels,
  run against a store that answers every call on its objects, returns the token
  the store issues, leaves the rollback ledger empty, and leaves the service
  account, the rules role with the level's rules, the aggregating role with the
  level's selectors plus the identity's own label, and the binding of the role to
  the account, whatever of them existed before.
\<close>

theorem Run_provisions:
  assumes "valid_role r" "healthy (newSAInfo uid t) w"
  shows "Run (NewRuntimeClient uid r t e) w =
           (Inr (token_source w (issued w)), NewRuntimeClient uid r t e,
            provisioned_world (NewRuntimeClient uid r t e) w)
         \<and> provisioned (NewRuntimeClient uid r t e) (provisioned_world (NewRuntimeClient uid r t e) w)"
proof
  have "valid_role (L2L3OperatiorRole (NewRuntimeClient uid r t e))"
    "healthy (User (NewRuntimeClient uid r t e)) w" "RollbackE (NewRuntimeClient uid r t e) = []"
    using assms by (simp_all add: NewRuntimeClient_def)
  then show "Run (NewRuntimeClient uid r t e) w =
      (Inr (token_source w (issued w)), NewRuntimeClient uid r t e,
       provisioned_world (NewRuntimeClient uid r t e) w)"
    by (rule Run_healthy)
  show "provisioned (NewRuntimeClient uid r t e) (provisioned_world (NewRuntimeClient uid r t e) w)"
    by (rule provisioned_world_provisioned) (simp add: NewRuntimeClient_def)
qed

theorem Run_provisions_witness:
  "valid_role ''runtimeOperator'' \<and> healthy (newSAInfo ''alice'' ''tenant-1'') (empty_world (\<lambda>_. ''tok''))
   \<and> fst (Run (NewRuntimeClient ''alice'' ''runtimeOperator'' ''tenant-1'' 3600) (empty_world (\<lambda>_. ''tok'')))
       = Inr ''tok''
   \<and> provisioned (NewRuntimeClient ''alice'' ''runtimeOperator'' ''tenant-1'' 3600)
       (snd (snd (Run (NewRuntimeClient ''alice'' ''runtimeOperator'' ''tenant-1'' 3600)
                    (empty_world (\<lambda>_. ''tok'')))))"
proof -
  have h1: "valid_role ''runtimeOperator''" by (simp add: valid_role_def const_defs)
  have h2: "healthy (newSAInfo ''alice'' ''tenant-1'') (empty_world (\<lambda>_. ''tok''))"
    by (simp add: healthy_def empty_world_def)
  show ?thesis
    using Run_provisions [OF h1 h2, of 3600] h1 h2 by (simp add: empty_world_def)
qed

text \<open>
  C2: provisioning is idempotent. On a store where the client's objects are
  already provisioned, a run creates and deletes nothing: it reads the four
  objects, requests a token, and returns it.
\<close>

theorem Run_idempotent:
  assumes "valid_role r" "healthy (newSAInfo uid t) w" "provisioned (NewRuntimeClient uid r t e) w"
  shows "Run (NewRuntimeClient uid r t e) w =
    (Inr (token_source w (issued w)), NewRuntimeClient uid r t e,
     w\<lparr>issued := Suc (issued w),
       journal := journal w @
         [Get (TServiceAccount Namespace_const uid), Get (TClusterRole (uid @ ''-rules'')),
          Get (TClusterRole uid), CreateToken Namespace_const uid e, Get (TClusterRoleBinding uid)]\<rparr>)"
proof -
  let ?c = "NewRuntimeClient uid r t e"
  have "Run ?c w = (Inr (token_source w (issued w)), ?c, provisioned_world ?c w)"
    using Run_provisions [OF assms(1,2)] by simp
  moreover have "ClusterRoleRulesName (User ?c) \<noteq> ClusterRoleName (User ?c)"
    by (simp add: NewRuntimeClient_def)
  ultimately show ?thesis
    using provisioned_world_idle [OF assms(3)] by (simp add: NewRuntimeClient_def newSAInfo_def)
qed

theorem Run_idempotent_witness:
  "(let c = NewRuntimeClient ''alice'' ''runtimeAdmin'' ''tenant-1'' 3600;
        w1 = snd (snd (Run c (empty_world (\<lambda>n. ''tok''))))
    in fst (Run c w1) = Inr ''tok'' \<and>
       cluster_roles (snd (snd (Run c w1))) = cluster_roles w1 \<and>
       service_accounts (snd (snd (Run c w1))) = service_accounts w1 \<and>
       cluster_role_bindings (snd (snd (Run c w1))) = cluster_role_bindings w1)"
proof -
  let ?c = "NewRuntimeClient ''alice'' ''runtimeAdmin'' ''tenant-1'' 3600"
  let ?w0 = "empty_world (\<lambda>n. ''tok'')"
  have v: "valid_role ''runtimeAdmin''" by (simp add: valid_role_def const_defs)
  have h0: "healthy (newSAInfo ''alice'' ''tenant-1'') ?w0" by (simp add: healthy_def empty_world_def)
  from Run_provisions [OF v h0, of 3600]
  have r1: "Run ?c ?w0 = (Inr ''tok'', ?c, provisioned_world ?c ?w0)"
    and p1: "provisioned ?c (provisioned_world ?c ?w0)"
    by (simp_all add: empty_world_def)
  have h1: "healthy (newSAInfo ''alice'' ''tenant-1'') (provisioned_world ?c ?w0)"
    using h0 by (simp add: healthy_def provisioned_world_def Let_def)
  show ?thesis
    using Run_idempotent [OF v h1 p1] r1 by (simp add: provisioned_world_def Let_def empty_world_def)
qed

section \<open>The rollback ledger\<close>

text \<open>
  C3: a run enters in the rollback ledger exactly the objects whose ensure step
  completed before the run failed. It enters nothing when it succeeds or when the
  service-account step fails, \<open>[SA]\<close> when the rules-role step fails, and
  \<open>[SA, ClusterRole]\<close> when a later step fails. The binding is never entered.
\<close>

theorem Run_ledger:
  "Run rtc w = (res, rtc', w') \<Longrightarrow>
   rtc' = rtc\<lparr>RollbackE := RollbackE rtc @
     (if isl res \<and> fst (createServiceAccount (User rtc) w) = None
      then (if fst (createClusterRoleRules (User rtc) (L2L3OperatiorRole rtc)
                     (snd (createServiceAccount (User rtc) w))) = None
            then [SA, ClusterRole] else [SA])
      else [])\<rparr>"
  by (auto simp: Run_def run_exit_def Let_def split: prod.splits option.splits sum.splits)

theorem Run_ledger_witness:
  "fst (snd (Run (NewRuntimeClient ''bob'' ''guest'' ''t'' 60) (empty_world (\<lambda>_. ''tok'')))) =
     (NewRuntimeClient ''bob'' ''guest'' ''t'' 60)\<lparr>RollbackE := [SA]\<rparr>"
proof -
  let ?c = "NewRuntimeClient ''bob'' ''guest'' ''t'' 60" and ?w = "empty_world (\<lambda>_. ''tok'')"
  have inv: "\<not> valid_role (L2L3OperatiorRole ?c)"
    by (simp add: NewRuntimeClient_def valid_role_iff RUNTIME_ADMIN_def RUNTIME_OPERATOR_def)
  have cl: "clean ?w (TServiceAccount (Namespace (User ?c)) (ServiceAccountName (User ?c)))"
    by (simp add: empty_world_def)
  have e: "RollbackE ?c = []" by (simp add: NewRuntimeClient_def)
  have r: "isl (fst (Run ?c ?w))"
    using Run_invalid_role_general [OF inv _ e, of ?w] by (simp add: empty_world_def)
  show ?thesis
    using Run_ledger [of ?c ?w "fst (Run ?c ?w)" "fst (snd (Run ?c ?w))" "snd (snd (Run ?c ?w))"] r e
    by (simp add: createServiceAccount_clean [OF cl] createClusterRoleRules_invalid [OF inv])
qed

end
