(* ===== verification/Run_Effects.thy ===== *)
theory Run_Effects
  imports Provision
begin

text \<open>
  What a call of \<open>Run\<close> can do to the store, whatever the store answers. This
  covers every fault script, and every ledger a reused client carries.
  \<open>eff u r k t w w'\<close> bounds the change from \<open>w\<close> to \<open>w'\<close>:
  \<^item> at most \<open>k\<close> calls are appended to the journal;
  \<^item> at most \<open>t\<close> tokens are issued;
  \<^item> an object changes only if it is one of the identity \<open>u\<close>'s own four, and then
    only to absent or to the object the builders make for \<open>u\<close> at level \<open>r\<close>
    (\<open>may_write\<close>).
  \<open>eff\<close> is reflexive and composes by adding the bounds. Each operation of
  \<open>runtime.go\<close> gets its bound, from the API calls up through the verifiers, the
  ensure steps and the cleanup tasks to \<open>Run\<close>.
\<close>

section \<open>The effect bound\<close>

text \<open>
  \<open>m'\<close> differs from \<open>m\<close> only at keys that \<open>ws\<close> names. At such a key it is
  either absent or an object that \<open>ws\<close> pairs with the key.
\<close>

definition may_write :: "('k \<times> 'o) list \<Rightarrow> ('k \<rightharpoonup> 'o) \<Rightarrow> ('k \<rightharpoonup> 'o) \<Rightarrow> bool" where
  "may_write ws m m' \<longleftrightarrow>
     (\<forall>k. m' k = m k \<or>
          (k \<in> fst ` set ws \<and> (case m' k of None \<Rightarrow> True | Some ob \<Rightarrow> (k, ob) \<in> set ws)))"

text \<open>The objects the builders make for an identity at a privilege level, keyed as the store keys them.\<close>

definition sa_writes :: "SAInfo \<Rightarrow> ((string \<times> string) \<times> ServiceAccountObj) list" where
  "sa_writes u = [((Namespace u, ServiceAccountName u), initServiceAccount u)]"

definition cr_writes :: "SAInfo \<Rightarrow> string \<Rightarrow> (string \<times> ClusterRoleObj) list" where
  "cr_writes u r =
     [(ClusterRoleRulesName u, initClusterRoleRules (ClusterRoleRulesName u) r (ClusterRoleAggrLabel u)),
      (ClusterRoleName u, initClusterRole (ClusterRoleName u) r (ClusterRoleAggrLabel u))]"

definition crb_writes :: "SAInfo \<Rightarrow> (string \<times> ClusterRoleBindingObj) list" where
  "crb_writes u = [(ClusterRoleBindingName u, built_binding u)]"

definition eff :: "SAInfo \<Rightarrow> string \<Rightarrow> nat \<Rightarrow> nat \<Rightarrow> world \<Rightarrow> world \<Rightarrow> bool" where
  "eff u r k t w w' \<longleftrightarrow>
     (\<exists>cs. journal w' = journal w @ cs \<and> length cs \<le> k) \<and>
     issued w \<le> issued w' \<and> issued w' \<le> issued w + t \<and> token_source w' = token_source w \<and>
     may_write (sa_writes u) (service_accounts w) (service_accounts w') \<and>
     may_write (cr_writes u r) (cluster_roles w) (cluster_roles w') \<and>
     may_write (crb_writes u) (cluster_role_bindings w) (cluster_role_bindings w')"

text \<open>
  The most delete calls one cleanup task of \<open>Cleaner\<close> makes, by ledger tag: 20
  attempts of one delete, or of two for the pair of roles; nothing for an
  unknown tag.
\<close>

definition task_calls :: "string \<Rightarrow> nat" where
  "task_calls d = (if d = SA then 20 else if d = ClusterRole then 40 else if d = ClusterRoleBinding then 20 else 0)"

section \<open>The algebra of effect bounds\<close>

lemma may_write_refl [simp]: "may_write ws m m"
  by (simp add: may_write_def)

lemma may_write_trans: "may_write ws m1 m2 \<Longrightarrow> may_write ws m2 m3 \<Longrightarrow> may_write ws m1 m3"
  unfolding may_write_def by metis

lemma may_write_delete: "k \<in> fst ` set ws \<Longrightarrow> may_write ws m (m(k := None))"
  by (simp add: may_write_def)

lemma may_write_create: "(k, ob) \<in> set ws \<Longrightarrow> may_write ws m (m(k \<mapsto> ob))"
  by (force simp: may_write_def)

lemma eff_refl [simp]: "eff u r k t w w"
  by (auto simp: eff_def)

lemma eff_seq:
  assumes "eff u r a s w1 w2" "eff u r b t w2 w3" "a + b \<le> k" "s + t \<le> q"
  shows "eff u r k q w1 w3"
proof -
  obtain cs1 where c1: "journal w2 = journal w1 @ cs1" "length cs1 \<le> a" using assms(1) by (auto simp: eff_def)
  obtain cs2 where c2: "journal w3 = journal w2 @ cs2" "length cs2 \<le> b" using assms(2) by (auto simp: eff_def)
  have "journal w3 = journal w1 @ (cs1 @ cs2) \<and> length (cs1 @ cs2) \<le> k" using c1 c2 assms(3) by simp
  then show ?thesis using assms by (auto simp: eff_def intro: may_write_trans)
qed

lemma eff_seq2: "eff u r a s w w1 \<Longrightarrow> eff u r b t w1 w2 \<Longrightarrow> eff u r (a + b) (s + t) w w2"
  by (rule eff_seq) auto

lemma eff_mono: "eff u r a s w w' \<Longrightarrow> a \<le> k \<Longrightarrow> s \<le> q \<Longrightarrow> eff u r k q w w'"
  using eff_seq [of u r a s w w' 0 0 w'] by simp

section \<open>The API calls\<close>

lemma call_eff: "call req w = (x, w') \<Longrightarrow> eff u r 1 0 w w'"
  by (auto simp: call_def eff_def Let_def split: list.splits)

lemma eff_store_updates:
  "eff u r k t w w1 \<Longrightarrow> may_write (sa_writes u) (service_accounts w1) (f (service_accounts w1)) \<Longrightarrow>
     eff u r k t w (service_accounts_update f w1)"
  "eff u r k t w w1 \<Longrightarrow> may_write (cr_writes u r) (cluster_roles w1) (g (cluster_roles w1)) \<Longrightarrow>
     eff u r k t w (cluster_roles_update g w1)"
  "eff u r k t w w1 \<Longrightarrow> may_write (crb_writes u) (cluster_role_bindings w1) (h (cluster_role_bindings w1)) \<Longrightarrow>
     eff u r k t w (cluster_role_bindings_update h w1)"
  by (auto simp: eff_def intro: may_write_trans)

lemma eff_delete_updates:
  "eff u r k t w w1 \<Longrightarrow> key \<in> fst ` set (sa_writes u) \<Longrightarrow>
     eff u r k t w (service_accounts_update (\<lambda>m. m(key := None)) w1)"
  "eff u r k t w w1 \<Longrightarrow> n \<in> fst ` set (cr_writes u r) \<Longrightarrow>
     eff u r k t w (cluster_roles_update (\<lambda>m. m(n := None)) w1)"
  "eff u r k t w w1 \<Longrightarrow> n \<in> fst ` set (crb_writes u) \<Longrightarrow>
     eff u r k t w (cluster_role_bindings_update (\<lambda>m. m(n := None)) w1)"
  by (auto intro!: eff_store_updates may_write_delete)

lemma eff_create_updates:
  "eff u r k t w w1 \<Longrightarrow> (key, ob) \<in> set (sa_writes u) \<Longrightarrow>
     eff u r k t w (service_accounts_update (\<lambda>m. m(key \<mapsto> ob)) w1)"
  "eff u r k t w w1 \<Longrightarrow> (n, cr) \<in> set (cr_writes u r) \<Longrightarrow>
     eff u r k t w (cluster_roles_update (\<lambda>m. m(n \<mapsto> cr)) w1)"
  "eff u r k t w w1 \<Longrightarrow> (n, crb) \<in> set (crb_writes u) \<Longrightarrow>
     eff u r k t w (cluster_role_bindings_update (\<lambda>m. m(n \<mapsto> crb)) w1)"
  by (auto intro!: eff_store_updates may_write_create)

lemma obj_get_call: "obj_get tgt sel k w = (x, w') \<Longrightarrow> \<exists>y. call (Get (tgt k)) w = (y, w')"
  by (auto simp: obj_get_def split: prod.splits option.splits)

lemma obj_delete_call:
  "obj_delete tgt sel upd k w = (x, w') \<Longrightarrow>
     \<exists>y w1. call (Delete (tgt k)) w = (y, w1) \<and> (w' = w1 \<or> w' = upd (\<lambda>m. m(k := None)) w1)"
  by (auto simp: obj_delete_def split: prod.splits option.splits)

lemma obj_create_call:
  "obj_create tgt sel upd k ob w = (x, w') \<Longrightarrow>
     \<exists>y w1. call (Create (tgt k)) w = (y, w1) \<and> (w' = w1 \<or> w' = upd (\<lambda>m. m(k \<mapsto> ob)) w1)"
  by (auto simp: obj_create_def split: prod.splits option.splits)

lemma get_eff:
  "sa_get ns n w = (x, w') \<Longrightarrow> eff u r 1 0 w w'"
  "cr_get n w = (y, w') \<Longrightarrow> eff u r 1 0 w w'"
  "crb_get n w = (z, w') \<Longrightarrow> eff u r 1 0 w w'"
  by (auto simp: api_simps dest!: obj_get_call call_eff [where u = u and r = r])

text \<open>Each client call on the identity's own objects, whatever the store answers.\<close>

lemma sa_delete_eff: "sa_delete (Namespace u) (ServiceAccountName u) w = (x, w') \<Longrightarrow> eff u r 1 0 w w'"
  unfolding sa_delete_def
  by (auto dest!: obj_delete_call call_eff [where u = u and r = r]
      intro!: eff_delete_updates simp: sa_writes_def)

lemma cr_delete_eff:
  "n \<in> set (clusterroles u) \<Longrightarrow> cr_delete n w = (x, w') \<Longrightarrow> eff u r 1 0 w w'"
  unfolding cr_delete_def
  by (auto dest!: obj_delete_call call_eff [where u = u and r = r]
      intro!: eff_delete_updates simp: cr_writes_def clusterroles_def)

lemma crb_delete_eff: "crb_delete (ClusterRoleBindingName u) w = (x, w') \<Longrightarrow> eff u r 1 0 w w'"
  unfolding crb_delete_def
  by (auto dest!: obj_delete_call call_eff [where u = u and r = r]
      intro!: eff_delete_updates simp: crb_writes_def)

lemma sa_create_eff: "sa_create (Namespace u) (initServiceAccount u) w = (x, w') \<Longrightarrow> eff u r 1 0 w w'"
  unfolding sa_create_def
  by (auto dest!: obj_create_call call_eff [where u = u and r = r]
      intro!: eff_create_updates simp: sa_writes_def initServiceAccount_def)

lemma cr_create_eff:
  "cr_create (initClusterRoleRules (ClusterRoleRulesName u) r (ClusterRoleAggrLabel u)) w = (x, w') \<Longrightarrow>
     eff u r 1 0 w w'"
  "cr_create (initClusterRole (ClusterRoleName u) r (ClusterRoleAggrLabel u)) w = (x, w') \<Longrightarrow>
     eff u r 1 0 w w'"
  unfolding cr_create_def
  by (auto dest!: obj_create_call call_eff [where u = u and r = r]
      intro!: eff_create_updates simp: cr_writes_def initClusterRoleRules_def initClusterRole_def)

lemma crb_create_eff: "crb_create (built_binding u) w = (x, w') \<Longrightarrow> eff u r 1 0 w w'"
  unfolding crb_create_def
  by (auto dest!: obj_create_call call_eff [where u = u and r = r]
      intro!: eff_create_updates simp: crb_writes_def built_binding_def initCRBindingE_def initCRBinding_def)

lemma sa_create_token_eff: "sa_create_token ns n e w = (x, w') \<Longrightarrow> eff u r 1 1 w w'"
  by (auto simp: sa_create_token_def eff_def call_def Let_def split: list.splits option.splits prod.splits)

section \<open>Deleters, verifiers and ensure steps\<close>

lemma cr_delete_own_eff:
  "cr_delete (ClusterRoleRulesName u) w = (x, w') \<Longrightarrow> eff u r 1 0 w w'"
  "cr_delete (ClusterRoleName u) w = (x, w') \<Longrightarrow> eff u r 1 0 w w'"
  by (erule cr_delete_eff [rotated], simp add: clusterroles_def)+

lemma verifier_eff:
  "verifyServiceAccount u w = (x, w') \<Longrightarrow> eff u r 1 0 w w'"
  "verifyClusterRoleRules u r0 w = (x, w') \<Longrightarrow> eff u r 2 0 w w'"
  "verifyClusterRole u r0 l w = (x, w') \<Longrightarrow> eff u r 2 0 w w'"
  "verifyCRBinding u rr ss w = (x, w') \<Longrightarrow> eff u r 2 0 w w'"
  by (auto simp: verifier_defs split: prod.splits option.splits if_splits sum.splits
      dest!: get_eff [where u = u and r = r] cr_delete_own_eff [where r = r] crb_delete_eff [where r = r]
      intro: eff_mono dest: eff_seq2)

lemma crb_create_built:
  "initCRBindingE u = (m, rr, ss) \<Longrightarrow> crb_create (initCRBinding m rr ss) w = (x, w') \<Longrightarrow> eff u r 1 0 w w'"
  by (rule crb_create_eff) (simp add: built_binding_def)

lemma create_step_eff:
  "createServiceAccount u w = (x, w') \<Longrightarrow> eff u r 2 0 w w'"
  "createClusterRoleRules u r w = (x, w') \<Longrightarrow> eff u r 3 0 w w'"
  "createClusterRole u r w = (x, w') \<Longrightarrow> eff u r 3 0 w w'"
  "createClusterRoleBinding u w = (x, w') \<Longrightarrow> eff u r 3 0 w w'"
  by (auto simp: create_defs split: prod.splits if_splits sum.splits
      dest!: verifier_eff [where u = u and r = r] sa_create_eff [where r = r] cr_create_eff crb_create_built [where r = r]
      intro: eff_mono dest: eff_seq2)

lemma getServiceAccountToken_eff: "getServiceAccountToken rtc w = (x, w') \<Longrightarrow> eff u r 1 1 w w'"
  by (auto simp: getServiceAccountToken_def split: prod.splits sum.splits dest: sa_create_token_eff [where u = u and r = r])


section \<open>The cleanup tasks\<close>

lemma retry_Do_eff:
  assumes step: "\<And>s e out s'. f s = (e, out, s') \<Longrightarrow> eff u r k t s s'"
  shows "retry_Do n f s = (e, out, s') \<Longrightarrow> eff u r (n * k) (n * t) s s'"
proof (induction n arbitrary: s e out s')
  case (Suc n)
  obtain e1 out1 s1 where f: "f s = (e1, out1, s1)" by (cases "f s") auto
  have h1: "eff u r k t s s1" using step [OF f] .
  show ?case
  proof (cases "e1 = None \<or> n = 0")
    case True
    with Suc.prems f have "s' = s1" by (auto split: option.splits)
    with h1 show ?thesis by (auto intro: eff_mono)
  next
    case False
    with Suc.prems f obtain out2 where "retry_Do n f s1 = (e, out2, s')"
      by (auto split: option.splits prod.splits)
    then have "eff u r (n * k) (n * t) s1 s'" by (rule Suc.IH)
    from eff_seq2 [OF h1 this] show ?thesis by simp
  qed
qed simp

lemma delete_roles_loop_eff:
  "set names \<subseteq> set (clusterroles u) \<Longrightarrow> delete_roles_loop names e w = (x, out, w') \<Longrightarrow>
     eff u r (length names) 0 w w'"
proof (induction names arbitrary: e w x out w')
  case (Cons n names)
  obtain err w1 where d: "cr_delete n w = (err, w1)" by (cases "cr_delete n w") auto
  have h1: "eff u r 1 0 w w1" using cr_delete_eff [OF _ d] Cons.prems(1) by simp
  have sub: "set names \<subseteq> set (clusterroles u)" using Cons.prems(1) by simp
  consider (stop) "w' = w1" | (go) e' x' out' where "delete_roles_loop names e' w1 = (x', out', w')"
    using Cons.prems(2) d by (auto split: if_splits prod.splits)
  then show ?case
  proof cases
    case stop
    with h1 show ?thesis by (auto intro: eff_mono)
  next
    case go
    from eff_seq2 [OF h1 Cons.IH [OF sub go]] show ?thesis by simp
  qed
qed simp

lemma attempt_eff:
  "sa_delete_attempt u w = (e, out, w') \<Longrightarrow> eff u r 1 0 w w'"
  "crb_delete_attempt u w = (e, out, w') \<Longrightarrow> eff u r 1 0 w w'"
  "roles_delete_attempt u w = (e, out, w') \<Longrightarrow> eff u r 2 0 w w'"
proof -
  show "sa_delete_attempt u w = (e, out, w') \<Longrightarrow> eff u r 1 0 w w'"
    by (auto simp: sa_delete_attempt_def split: prod.splits if_splits dest: sa_delete_eff [where r = r])
  show "crb_delete_attempt u w = (e, out, w') \<Longrightarrow> eff u r 1 0 w w'"
    by (auto simp: crb_delete_attempt_def split: prod.splits if_splits dest: crb_delete_eff [where r = r])
  assume a: "roles_delete_attempt u w = (e, out, w')"
  obtain x out' w1 where l: "delete_roles_loop (clusterroles u) None w = (x, out', w1)"
    by (cases "delete_roles_loop (clusterroles u) None w") auto
  with a have "w' = w1" by (auto simp: roles_delete_attempt_def split: loop_exit.splits)
  with delete_roles_loop_eff [OF order_refl l, where r = r] show "eff u r 2 0 w w'"
    by (simp add: clusterroles_def numeral_2_eq_2)
qed

lemma retry_task_eff:
  assumes "\<And>s e out s'. attempt s = (e, out, s') \<Longrightarrow> eff u r k 0 s s'"
  shows "retry_task attempt w = (out, w') \<Longrightarrow> eff u r (20 * k) 0 w w'"
  using retry_Do_eff [of attempt u r k 0 retry_attempts w, OF assms]
  by (auto simp: retry_task_def retry_attempts_def split: prod.splits option.splits)

lemma task_eff:
  "RetryDeleteServiceAccount u w = (out, w') \<Longrightarrow> eff u r 20 0 w w'"
  "RetryDeleteClusterRoles u w = (out, w') \<Longrightarrow> eff u r 40 0 w w'"
  "RetryDeleteClusterRoleBinding u w = (out, w') \<Longrightarrow> eff u r 20 0 w w'"
  unfolding RetryDeleteServiceAccount_def RetryDeleteClusterRoles_def RetryDeleteClusterRoleBinding_def
  using retry_task_eff [OF attempt_eff(1) [where r = r]] retry_task_eff [OF attempt_eff(3) [where r = r]]
    retry_task_eff [OF attempt_eff(2) [where r = r]]
  by simp_all

lemma task_calls_tags [simp]:
  "task_calls SA = 20" "task_calls ClusterRole = 40" "task_calls ClusterRoleBinding = 20"
  by (simp_all add: task_calls_def const_defs)

lemma task_calls_le: "task_calls d \<le> 40"
  by (simp add: task_calls_def)

lemma cleanup_task_eff: "cleanup_task u d w = (out, w') \<Longrightarrow> eff u r (task_calls d) 0 w w'"
  by (auto simp: cleanup_task_def task_calls_def split: if_splits dest: task_eff [where r = r])

lemma run_tasks_eff: "run_tasks u ds w = (out, w') \<Longrightarrow> eff u r (sum_list (map task_calls ds)) 0 w w'"
proof (induction u ds w arbitrary: out w' rule: run_tasks.induct)
  case (2 u d ds w)
  obtain out1 w1 where c: "cleanup_task u d w = (out1, w1)" by (cases "cleanup_task u d w") auto
  with "2.prems" obtain out2 where "run_tasks u ds w1 = (out2, w')" by (auto split: prod.splits)
  from eff_seq2 [OF cleanup_task_eff [OF c] "2.IH" [OF c [symmetric] this]] show ?case by simp
qed simp

lemma sum_task_calls_le: "sum_list (map task_calls ds) \<le> 40 * length ds"
  by (induction ds) (auto intro: add_mono task_calls_le)

lemma Cleaner_eff:
  "Cleaner rtc w = (e, w') \<Longrightarrow> eff (User rtc) r (sum_list (map task_calls (RollbackE rtc))) 0 w w'"
  by (auto simp: Cleaner_def split: if_splits prod.splits dest: run_tasks_eff [where r = r])


section \<open>Run\<close>

lemma run_exit_eff:
  "run_exit rtc w res = (res', rtc', w') \<Longrightarrow>
     eff (User rtc) r (sum_list (map task_calls (RollbackE rtc))) 0 w w'"
  by (auto simp: run_exit_def split: prod.splits dest: Cleaner_eff [where r = r])

lemma Run_eff:
  "Run rtc w = (res, rtc', w') \<Longrightarrow>
     eff (User rtc) (L2L3OperatiorRole rtc) (72 + sum_list (map task_calls (RollbackE rtc))) 1 w w'"
  by (auto simp: Run_def Let_def split: prod.splits option.splits sum.splits
      dest!: create_step_eff [where r = "L2L3OperatiorRole rtc"]
      getServiceAccountToken_eff [where u = "User rtc" and r = "L2L3OperatiorRole rtc"]
      run_exit_eff [where r = "L2L3OperatiorRole rtc"]
      dest: eff_seq2 intro: eff_mono) (fastforce intro: eff_seq)+

lemma Run_eff_snd:
  "eff (User rtc) (L2L3OperatiorRole rtc) (72 + 40 * length (RollbackE rtc)) 1 w (snd (snd (Run rtc w)))"
proof -
  obtain res rtc' w' where r: "Run rtc w = (res, rtc', w')" by (cases "Run rtc w") auto
  have "72 + sum_list (map task_calls (RollbackE rtc)) \<le> 72 + 40 * length (RollbackE rtc)"
    using sum_task_calls_le by simp
  with Run_eff [OF r] r show ?thesis by (auto intro: eff_mono)
qed

section \<open>Properties of Run on every store\<close>

text \<open>
  C18: whatever the store answers and whatever the client's ledger holds, \<open>Run\<close>
  changes no object other than the identity's own service account, two cluster
  roles and binding. Each of these it only deletes or sets to the object the
  builders make for the identity at the client's level. No other identity's
  objects, and no objects outside the four names, are touched.
\<close>

theorem Run_writes_only_own_objects:
  "may_write (sa_writes (User rtc)) (service_accounts w) (service_accounts (snd (snd (Run rtc w)))) \<and>
   may_write (cr_writes (User rtc) (L2L3OperatiorRole rtc)) (cluster_roles w) (cluster_roles (snd (snd (Run rtc w)))) \<and>
   may_write (crb_writes (User rtc)) (cluster_role_bindings w) (cluster_role_bindings (snd (snd (Run rtc w))))"
  using Run_eff_snd [of rtc w] by (simp add: eff_def)

text \<open>
  C19: \<open>Run\<close> is bounded. It appends at most \<open>72 + 40 * n\<close> API calls to the journal,
  where \<open>n\<close> is the length of the ledger it starts with: 12 calls for the four
  ensure steps and the token request, and then the cleanup of the ledger plus the
  two entries \<open>Run\<close> may add (20 calls for \<open>SA\<close>, 40 for \<open>ClusterRole\<close>). It
  issues at most one token.
\<close>

theorem Run_call_bound:
  "\<exists>cs. journal (snd (snd (Run rtc w))) = journal w @ cs \<and> length cs \<le> 72 + 40 * length (RollbackE rtc) \<and>
     issued w \<le> issued (snd (snd (Run rtc w))) \<and> issued (snd (snd (Run rtc w))) \<le> Suc (issued w)"
  using Run_eff_snd [of rtc w] by (auto simp: eff_def)

end
