(* ===== verification/Cleanup_Concurrency.thy ===== *)
theory Cleanup_Concurrency
  imports Cleanup
begin

text \<open>
  The goroutines of \<open>Cleaner\<close> (\<open>runtime.go\<close>, lines 400--524) at the granularity
  of single API calls and single channel sends. Each ledger entry starts a task
  process (\<open>start_proc\<close>). A process is in the middle of its \<open>retry.Do\<close> loop
  (\<open>proc\<close>) and holds the errors it is about to send (its outbox). The channel is
  unbuffered: a send completes when the receive loop of \<open>Cleaner\<close> takes the
  error, so a process blocks on its outbox before its next call. \<open>cleaner_step\<close>
  lets any process make its next move: a call, or a send. Every schedule of the
  goroutines is a path of this relation.

  The theory shows four things.
  \<^item> Every move decreases a weight (\<open>cleaner_step_weight\<close>), and a configuration
    has a move unless every process is done (\<open>cleaner_progress\<close>). The theory
    \<open>Cleaner_Select\<close> uses both for the receive loop of \<open>Cleaner\<close>.
  \<^item> A process run alone computes exactly the task of \<open>Cleanup\<close>
    (\<open>proc_solo_task\<close>), so the sequential \<open>run_tasks\<close> is one schedule.
  \<^item> Schedules of a ledger without duplicate entries agree. All of them leave
    the same store and the same fault scripts, receive the same multiset of
    errors, and make the same multiset of calls. The proof is by projection:
    the tasks touch disjoint objects (\<open>fpt\<close>), each process step depends only on
    its own objects, and so each process's view is its solo run.
  \<^item> A duplicated ledger entry breaks this.
\<close>

section \<open>Task processes\<close>

text \<open>
  The control state of a task goroutine. \<open>PSA k\<close> and \<open>PCRB k\<close> are about to make
  an attempt with \<open>retry_Do k\<close>. \<open>PRoles k names err\<close> is inside an attempt of the
  role task with \<open>retry_Do k\<close>, with the role names still to delete in this
  attempt and the \<open>err\<close> of the loop. \<open>PDone\<close> has returned.
\<close>

datatype proc = PSA nat | PCRB nat | PRoles nat "string list" "api_error option" | PDone

text \<open>One attempt of a single-delete task, then \<open>retry.Do\<close>'s decision.\<close>

definition retry_step ::
  "(world \<Rightarrow> error option \<times> error list \<times> world) \<Rightarrow> (nat \<Rightarrow> proc) \<Rightarrow> nat \<Rightarrow> world
     \<Rightarrow> error list \<times> proc \<times> world" where
  "retry_step attempt K n w =
     (case attempt w of
        (None, out, w1) \<Rightarrow> (out, PDone, w1)
      | (Some e, out, w1) \<Rightarrow> if n = 0 then (out @ [e], PDone, w1) else (out, K n, w1))"

text \<open>
  One move of a process: one delete call together with the sends it queues, or,
  at the end of a role attempt, \<open>retry.Do\<close>'s decision without a call. The role
  loop's body is that of \<open>delete_roles_loop\<close>; the end of an attempt is that of
  \<open>roles_delete_attempt\<close>.
\<close>

fun step_proc :: "SAInfo \<Rightarrow> proc \<Rightarrow> world \<Rightarrow> error list \<times> proc \<times> world" where
  "step_proc user (PSA 0) w = ([], PDone, w)"
| "step_proc user (PSA (Suc n)) w = retry_step (sa_delete_attempt user) PSA n w"
| "step_proc user (PCRB 0) w = ([], PDone, w)"
| "step_proc user (PCRB (Suc n)) w = retry_step (crb_delete_attempt user) PCRB n w"
| "step_proc user (PRoles 0 names err) w = ([], PDone, w)"
| "step_proc user (PRoles (Suc n) (name # names) err) w =
     (case cr_delete name w of
        (err1, w1) \<Rightarrow>
          if err1 \<noteq> None \<and> err1 \<noteq> Some NotFound then
            ([ApiError (the err1)], PRoles (Suc n) names err1, w1)
          else if err1 = Some NotFound then ([], PDone, w1)
          else ([], PRoles (Suc n) names err1, w1))"
| "step_proc user (PRoles (Suc n) [] err) w =
     (case go_wrapf (Wrapf (ClusterRolesStillExist (clusterroles user))) (map_option ApiError err) of
        None \<Rightarrow> ([], PDone, w)
      | Some e \<Rightarrow> if n = 0 then ([e], PDone, w) else ([], PRoles n (clusterroles user) None, w))"
| "step_proc user PDone w = ([], PDone, w)"

text \<open>The goroutine a ledger entry starts; \<open>default: wg.Done()\<close> starts none.\<close>

definition start_proc :: "SAInfo \<Rightarrow> string \<Rightarrow> proc" where
  "start_proc user d =
     (if d = SA then PSA retry_attempts
      else if d = ClusterRole then PRoles retry_attempts (clusterroles user) None
      else if d = ClusterRoleBinding then PCRB retry_attempts
      else PDone)"

type_synonym pconf = "(proc \<times> error list) \<times> world \<times> error list"
type_synonym cconf = "(proc \<times> error list) list \<times> world \<times> error list"

text \<open>
  A process with an empty outbox makes its next call; a process with a pending
  error hands it to the receive loop, which appends it to the received errors.
\<close>

inductive proc_step :: "SAInfo \<Rightarrow> pconf \<Rightarrow> pconf \<Rightarrow> bool" where
  call: "p \<noteq> PDone \<Longrightarrow> step_proc user p w = (out, p', w') \<Longrightarrow>
         proc_step user ((p, []), w, rcv) ((p', out), w', rcv)"
| send: "proc_step user ((p, e # es), w, rcv) ((p, es), w, rcv @ [e])"

text \<open>The scheduler picks any goroutine that can move.\<close>

inductive cleaner_step :: "SAInfo \<Rightarrow> cconf \<Rightarrow> cconf \<Rightarrow> bool" where
  pick: "i < length ps \<Longrightarrow> proc_step user (ps ! i, w, rcv) (q', w', rcv') \<Longrightarrow>
         cleaner_step user (ps, w, rcv) (ps[i := q'], w', rcv')"

definition cleaner_init :: "SAInfo \<Rightarrow> string list \<Rightarrow> world \<Rightarrow> cconf" where
  "cleaner_init user ds w = (map (\<lambda>d. (start_proc user d, [])) ds, w, [])"

definition all_done :: "cconf \<Rightarrow> bool" where
  "all_done c \<longleftrightarrow> list_all (\<lambda>q. q = (PDone, [])) (fst c)"

section \<open>Footprints\<close>

text \<open>The object a target names, whatever its kind; a token request names none.\<close>

datatype objv = VSA ServiceAccountObj | VCR ClusterRoleObj | VCRB ClusterRoleBindingObj

fun objv_at :: "target \<Rightarrow> world \<Rightarrow> objv option" where
  "objv_at (TServiceAccount ns n) w = map_option VSA (service_accounts w (ns, n))"
| "objv_at (TClusterRole n) w = map_option VCR (cluster_roles w n)"
| "objv_at (TClusterRoleBinding n) w = map_option VCRB (cluster_role_bindings w n)"
| "objv_at (TTokenRequest ns n) w = None"

text \<open>The objects a task of a ledger entry touches.\<close>

definition fpt :: "SAInfo \<Rightarrow> string \<Rightarrow> target set" where
  "fpt user d =
     (if d = SA then {TServiceAccount (Namespace user) (ServiceAccountName user)}
      else if d = ClusterRole then TClusterRole ` set (clusterroles user)
      else if d = ClusterRoleBinding then {TClusterRoleBinding (ClusterRoleBindingName user)}
      else {})"

text \<open>Two worlds agree on a set of targets: same objects, same fault scripts.\<close>

definition agree :: "target set \<Rightarrow> world \<Rightarrow> world \<Rightarrow> bool" where
  "agree T w1 w2 \<longleftrightarrow> (\<forall>t \<in> T. objv_at t w1 = objv_at t w2 \<and> faults w1 t = faults w2 t)"

text \<open>A world differs from another only on the targets \<open>T\<close> and in the journal.\<close>

definition frame :: "target set \<Rightarrow> world \<Rightarrow> world \<Rightarrow> bool" where
  "frame T w w' \<longleftrightarrow> agree (- T) w w' \<and> issued w' = issued w \<and> token_source w' = token_source w"

text \<open>The delete call on any target, as the three clients make it.\<close>

fun del_at :: "target \<Rightarrow> world \<Rightarrow> api_error option \<times> world" where
  "del_at (TServiceAccount ns n) = sa_delete ns n"
| "del_at (TClusterRole n) = cr_delete n"
| "del_at (TClusterRoleBinding n) = crb_delete n"
| "del_at (TTokenRequest ns n) =
     (\<lambda>w. case call (Delete (TTokenRequest ns n)) w of
            (Some m, w1) \<Rightarrow> (Some (Failure m), w1)
          | (None, w1) \<Rightarrow> (Some NotFound, w1))"

section \<open>Proof devices\<close>

text \<open>
  The control states the goroutine of a ledger entry passes through: the
  role task only ever deletes names of \<open>clusterroles\<close>.
\<close>

fun proc_ok :: "SAInfo \<Rightarrow> string \<Rightarrow> proc \<Rightarrow> bool" where
  "proc_ok user d (PSA k) \<longleftrightarrow> d = SA"
| "proc_ok user d (PCRB k) \<longleftrightarrow> d = ClusterRoleBinding"
| "proc_ok user d (PRoles k ns e) \<longleftrightarrow> d = ClusterRole \<and> set ns \<subseteq> set (clusterroles user)"
| "proc_ok user d PDone \<longleftrightarrow> True"

text \<open>
  The projection invariant of a schedule from \<open>cleaner_init user ds w0\<close>:
  process \<open>i\<close> is where its solo run from \<open>w0\<close> would be, with solo world
  \<open>ws ! i\<close> and solo received errors \<open>rs ! i\<close>; the shared world agrees with each
  solo world on that process's objects and with \<open>w0\<close> elsewhere; the received
  errors and the journal are the union of the solo ones.
\<close>

definition cinv_w :: "SAInfo \<Rightarrow> string list \<Rightarrow> world \<Rightarrow> (proc \<times> error list) list \<Rightarrow> world \<Rightarrow> error list
    \<Rightarrow> world list \<Rightarrow> error list list \<Rightarrow> bool" where
  "cinv_w user ds w0 ps w rcv ws rs \<longleftrightarrow>
     length ps = length ds \<and> length ws = length ds \<and> length rs = length ds \<and>
     (\<forall>i < length ds.
        (proc_step user)\<^sup>*\<^sup>* ((start_proc user (ds ! i), []), w0, []) (ps ! i, ws ! i, rs ! i) \<and>
        proc_ok user (ds ! i) (fst (ps ! i)) \<and> agree (fpt user (ds ! i)) w (ws ! i) \<and>
        take (length (journal w0)) (journal (ws ! i)) = journal w0) \<and>
     frame (\<Union>d \<in> set ds. fpt user d) w0 w \<and>
     mset rcv = sum_list (map mset rs) \<and>
     mset (journal w) = mset (journal w0) +
       sum_list (map (\<lambda>v. mset (drop (length (journal w0)) (journal v))) ws)"

text \<open>A weight that every move of a schedule decreases.\<close>

fun proc_weight :: "proc \<Rightarrow> nat" where
  "proc_weight (PSA k) = k + 1"
| "proc_weight (PCRB k) = k + 1"
| "proc_weight (PRoles k ns e) = 3 * k + length ns + 1"
| "proc_weight PDone = 0"

definition conf_weight :: "cconf \<Rightarrow> nat" where
  "conf_weight c = sum_list (map (\<lambda>(p, out). 3 * proc_weight p + length out) (fst c))"

section \<open>A replaying scheduler\<close>

text \<open>
  A scheduler that replays a list of goroutine choices (an idle choice is
  skipped). It is executable, so concrete schedules evaluate by \<open>simp\<close>.
\<close>

fun sched_move :: "SAInfo \<Rightarrow> nat \<Rightarrow> cconf \<Rightarrow> cconf" where
  "sched_move user i (ps, w, rcv) =
     (if i < length ps then
        (case ps ! i of
           (p, e # es) \<Rightarrow> (ps[i := (p, es)], w, rcv @ [e])
         | (p, []) \<Rightarrow>
             if p = PDone then (ps, w, rcv)
             else (case step_proc user p w of (out, p', w') \<Rightarrow> (ps[i := (p', out)], w', rcv)))
      else (ps, w, rcv))"

definition run_sched :: "SAInfo \<Rightarrow> nat list \<Rightarrow> cconf \<Rightarrow> cconf" where
  "run_sched user sched c = fold (sched_move user) sched c"

section \<open>Scenarios\<close>

abbreviation alice :: SAInfo where "alice \<equiv> newSAInfo ''alice'' ''t''"

text \<open>The account delete fails once; no object exists.\<close>

definition w_one :: world where
  "w_one = (empty_world (\<lambda>_. ''tok''))\<lparr>faults := (\<lambda>_. [])(TServiceAccount ''kube-system'' ''alice'' := [Some ''x''])\<rparr>"

text \<open>The account exists and its deletes fail 20 times in a row.\<close>

definition w_dup :: world where
  "w_dup = (empty_world (\<lambda>_. ''tok''))\<lparr>service_accounts := [(''kube-system'', ''alice'') \<mapsto> initServiceAccount alice],
     faults := (\<lambda>_. [])(TServiceAccount ''kube-system'' ''alice'' := replicate 20 (Some ''x''))\<rparr>"

text \<open>The account delete and the aggregating role delete each fail once.\<close>

definition w_two :: world where
  "w_two = (empty_world (\<lambda>_. ''tok''))\<lparr>faults := (\<lambda>_. [])(TServiceAccount ''kube-system'' ''alice'' := [Some ''a''],
     TClusterRole ''alice'' := [Some ''b''])\<rparr>"

section \<open>Locality of a step\<close>

lemma objv_at_upd_other:
  "objv_at t (w\<lparr>journal := j\<rparr>) = objv_at t w"
  "objv_at t (w\<lparr>faults := f\<rparr>) = objv_at t w"
  by (cases t; simp)+

lemma del_at_frame:
  assumes "del_at t w = (r, w')"
  shows "frame {t} w w' \<and> journal w' = journal w @ [Delete t]"
proof -
  have "objv_at t' w' = objv_at t' w \<and> faults w' t' = faults w t'" if "t' \<noteq> t" for t'
    using assms that
    by (cases t; cases t'; auto simp: api_simps obj_delete_def call_def Let_def
        split: option.splits list.splits)
  moreover have "issued w' = issued w \<and> token_source w' = token_source w \<and> journal w' = journal w @ [Delete t]"
    using assms
    by (cases t; auto simp: api_simps obj_delete_def call_def Let_def split: option.splits list.splits)
  ultimately show ?thesis by (auto simp: frame_def agree_def)
qed

lemma del_at_det:
  assumes "agree {t} w1 w2"
  shows "fst (del_at t w1) = fst (del_at t w2) \<and> agree {t} (snd (del_at t w1)) (snd (del_at t w2))"
  using assms
  by (cases t; auto simp: agree_def api_simps obj_delete_def call_def Let_def
      split: option.splits list.splits)

lemma del_at_clients:
  "sa_delete ns n = del_at (TServiceAccount ns n)"
  "cr_delete n = del_at (TClusterRole n)"
  "crb_delete n = del_at (TClusterRoleBinding n)"
  by simp_all

lemma frame_mono: "frame T w w' \<Longrightarrow> T \<subseteq> T' \<Longrightarrow> frame T' w w'"
  by (auto simp: frame_def agree_def)

lemma frame_refl [simp]: "frame T w w"
  by (simp add: frame_def agree_def)

lemma del_at_frame_in:
  "del_at t w = (r, w') \<Longrightarrow> t \<in> T \<Longrightarrow> frame T w w' \<and> journal w' = journal w @ [Delete t]"
  using del_at_frame frame_mono by blast

lemma const_tags_distinct [simp]:
  "SA \<noteq> ClusterRole" "SA \<noteq> ClusterRoleBinding" "ClusterRole \<noteq> ClusterRoleBinding"
  "ClusterRole \<noteq> SA" "ClusterRoleBinding \<noteq> SA" "ClusterRoleBinding \<noteq> ClusterRole"
  by (simp_all add: const_defs)

lemma step_ok:
  "proc_ok user d p \<Longrightarrow> step_proc user p w = (out, p', w') \<Longrightarrow> proc_ok user d p'"
  by (induction user p w rule: step_proc.induct)
     (auto simp: retry_step_def clusterroles_def split: prod.splits option.splits if_splits)

lemma step_frame:
  "proc_ok user d p \<Longrightarrow> step_proc user p w = (out, p', w') \<Longrightarrow>
   frame (fpt user d) w w' \<and> (\<exists>cs. journal w' = journal w @ cs)"
proof (induction user p w rule: step_proc.induct)
  case (2 user n w)
  then show ?case
    by (auto simp: retry_step_def sa_delete_attempt_def del_at_clients fpt_def
        simp del: del_at.simps dest!: del_at_frame_in split: prod.splits option.splits if_splits)
next
  case (4 user n w)
  then show ?case
    by (auto simp: retry_step_def crb_delete_attempt_def del_at_clients fpt_def
        simp del: del_at.simps dest!: del_at_frame_in split: prod.splits option.splits if_splits)
next
  case (6 user n name names err w)
  then show ?case
    by (auto simp: del_at_clients fpt_def
        simp del: del_at.simps dest!: del_at_frame split: prod.splits option.splits if_splits)
       (auto elim!: frame_mono)
qed (auto split: option.splits if_splits)


lemma del_at_step_det:
  assumes "del_at t w1 = (e1, a1)" "del_at t w2 = (e2, a2)" "agree T w1 w2" "t \<in> T"
  shows "e1 = e2 \<and> agree T a1 a2 \<and>
         drop (length (journal w1)) (journal a1) = drop (length (journal w2)) (journal a2)"
proof -
  have "agree {t} w1 w2" using assms(3,4) by (simp add: agree_def)
  then have d: "e1 = e2 \<and> agree {t} a1 a2" using del_at_det [of t w1 w2] assms(1,2) by simp
  have f1: "frame {t} w1 a1 \<and> journal a1 = journal w1 @ [Delete t]" by (rule del_at_frame [OF assms(1)])
  have f2: "frame {t} w2 a2 \<and> journal a2 = journal w2 @ [Delete t]" by (rule del_at_frame [OF assms(2)])
  have "agree T a1 a2"
    unfolding agree_def
  proof
    fix t' assume "t' \<in> T"
    show "objv_at t' a1 = objv_at t' a2 \<and> faults a1 t' = faults a2 t'"
    proof (cases "t' = t")
      case True then show ?thesis using d by (simp add: agree_def)
    next
      case False then show ?thesis
        using f1 f2 assms(3) \<open>t' \<in> T\<close> by (auto simp: frame_def agree_def)
    qed
  qed
  then show ?thesis using d f1 f2 by simp
qed

lemma step_det:
  "proc_ok user d p \<Longrightarrow> agree (fpt user d) w1 w2 \<Longrightarrow>
   step_proc user p w1 = (o1, q1, v1) \<Longrightarrow> step_proc user p w2 = (o2, q2, v2) \<Longrightarrow>
   o1 = o2 \<and> q1 = q2 \<and> agree (fpt user d) v1 v2 \<and>
   drop (length (journal w1)) (journal v1) = drop (length (journal w2)) (journal v2)"
proof (induction user p w1 arbitrary: w2 rule: step_proc.induct)
  case (2 user n w)
  then show ?case
    by (auto simp: retry_step_def sa_delete_attempt_def del_at_clients fpt_def
        simp del: del_at.simps dest: del_at_step_det split: prod.splits option.splits if_splits)
next
  case (4 user n w)
  then show ?case
    by (auto simp: retry_step_def crb_delete_attempt_def del_at_clients fpt_def
        simp del: del_at.simps dest: del_at_step_det split: prod.splits option.splits if_splits)
next
  case (6 user n name names err w)
  then show ?case
    by (auto simp: del_at_clients fpt_def
        simp del: del_at.simps dest: del_at_step_det split: prod.splits option.splits if_splits)
qed (auto split: option.splits if_splits)

section \<open>Solo runs: a goroutine alone computes its task\<close>

lemma proc_step_det:
  "proc_step user c c1 \<Longrightarrow> proc_step user c c2 \<Longrightarrow> c1 = c2"
  by (auto elim!: proc_step.cases)

lemma proc_step_done: "\<not> proc_step user ((PDone, []), w, r) c"
  by (auto elim: proc_step.cases)

lemma proc_solo_final_unique:
  assumes "(proc_step user)\<^sup>*\<^sup>* c ((PDone, []), w1, r1)" "(proc_step user)\<^sup>*\<^sup>* c ((PDone, []), w2, r2)"
  shows "w1 = w2 \<and> r1 = r2"
proof -
  have "((PDone, []), w1, r1) = ((PDone :: proc, [] :: error list), w2, r2)"
    by (rule det_rtranclp_final [of "proc_step user", OF proc_step_det assms]) (simp_all add: proc_step_done)
  then show ?thesis by simp
qed

lemma proc_deliver: "(proc_step user)\<^sup>*\<^sup>* ((p, es), w, r) ((p, []), w, r @ es)"
proof (induction es arbitrary: r)
  case (Cons e es)
  have "proc_step user ((p, e # es), w, r) ((p, es), w, r @ [e])" by (rule proc_step.send)
  then show ?case using Cons [of "r @ [e]"] by simp
qed simp

text \<open>One call followed by the delivery of what it queued.\<close>

lemma proc_call_deliver:
  "p \<noteq> PDone \<Longrightarrow> step_proc user p w = (out, p', w') \<Longrightarrow>
   (proc_step user)\<^sup>*\<^sup>* ((p, []), w, r) ((p', []), w', r @ out)"
  using proc_step.call [of p user w out p' w' r] proc_deliver [of user p' out w' r]
  by (meson converse_rtranclp_into_rtranclp)

text \<open>
  Retry simulation: if one attempt of the process runs like \<open>retry_Do\<close>'s body on
  \<open>attempt\<close>, the whole process runs like the task over \<open>retry_Do n attempt\<close>.
\<close>

lemma proc_retry_sim:
  assumes zero: "\<And>w r. (proc_step user)\<^sup>*\<^sup>* ((S 0, []), w, r) ((PDone, []), w, r)"
    and one: "\<And>n w r. (proc_step user)\<^sup>*\<^sup>* ((S (Suc n), []), w, r)
       (case attempt w of
          (None, out, w1) \<Rightarrow> ((PDone, []), w1, r @ out)
        | (Some e, out, w1) \<Rightarrow> if n = 0 then ((PDone, []), w1, r @ out @ [e]) else ((S n, []), w1, r @ out))"
  shows "(proc_step user)\<^sup>*\<^sup>* ((S n, []), w, r)
           (case retry_Do n attempt w of
              (Some e, out, w1) \<Rightarrow> ((PDone, []), w1, r @ out @ [e])
            | (None, out, w1) \<Rightarrow> ((PDone, []), w1, r @ out))"
proof (induction n arbitrary: w r)
  case 0 then show ?case using zero by simp
next
  case (Suc n)
  obtain x out w1 where a: "attempt w = (x, out, w1)" by (cases "attempt w") auto
  show ?case
  proof (cases x)
    case None then show ?thesis using one [of n w r] a by simp
  next
    case (Some e)
    show ?thesis
    proof (cases "n = 0")
      case True then show ?thesis using one [of n w r] a Some by simp
    next
      case False
      have s: "(proc_step user)\<^sup>*\<^sup>* ((S (Suc n), []), w, r) ((S n, []), w1, r @ out)"
        using one [of n w r] a Some False by simp
      obtain y out' w2 where rd: "retry_Do n attempt w1 = (y, out', w2)"
        by (cases "retry_Do n attempt w1") auto
      have "(proc_step user)\<^sup>*\<^sup>* ((S n, []), w1, r @ out)
              (if y = None then ((PDone, []), w2, r @ out @ out')
               else ((PDone, []), w2, r @ out @ out' @ [the y]))"
        using Suc.IH [of w1 "r @ out"] rd by (cases y) simp_all
      then show ?thesis
        using s a Some False rd by (cases y) (auto intro: rtranclp_trans)
    qed
  qed
qed

lemma proc_retry_step_one:
  assumes "step_proc user p w = retry_step attempt K n w" "p \<noteq> PDone"
  shows "(proc_step user)\<^sup>*\<^sup>* ((p, []), w, r)
           (case attempt w of
              (None, out, w1) \<Rightarrow> ((PDone, []), w1, r @ out)
            | (Some e, out, w1) \<Rightarrow> if n = 0 then ((PDone, []), w1, r @ out @ [e]) else ((K n, []), w1, r @ out))"
proof -
  obtain x out w1 where a: "attempt w = (x, out, w1)" by (cases "attempt w") auto
  obtain o' q v where s: "retry_step attempt K n w = (o', q, v)" by (cases "retry_step attempt K n w") auto
  have "(proc_step user)\<^sup>*\<^sup>* ((p, []), w, r) ((q, []), v, r @ o')"
    using proc_call_deliver [OF assms(2)] assms(1) s by simp
  then show ?thesis
    using a s by (cases x) (auto simp: retry_step_def)
qed

lemma proc_retry_task:
  assumes zero: "\<And>w r. (proc_step user)\<^sup>*\<^sup>* ((S 0, []), w, r) ((PDone, []), w, r)"
    and one: "\<And>n w r. (proc_step user)\<^sup>*\<^sup>* ((S (Suc n), []), w, r)
       (case attempt w of
          (None, out, w1) \<Rightarrow> ((PDone, []), w1, r @ out)
        | (Some e, out, w1) \<Rightarrow> if n = 0 then ((PDone, []), w1, r @ out @ [e]) else ((S n, []), w1, r @ out))"
  shows "(proc_step user)\<^sup>*\<^sup>* ((S retry_attempts, []), w, r)
           ((PDone, []), snd (retry_task attempt w), r @ fst (retry_task attempt w))"
  using proc_retry_sim [of user S attempt retry_attempts w r, OF zero one]
  by (auto simp: retry_task_def split: prod.splits option.splits)

lemma proc_idle_done:
  "step_proc user p w = ([], PDone, w) \<Longrightarrow> p \<noteq> PDone \<Longrightarrow>
   (proc_step user)\<^sup>*\<^sup>* ((p, []), w, r) ((PDone, []), w, r)"
  using proc_call_deliver [of p user w "[]" PDone w r] by simp

lemma proc_roles_loop:
  "(proc_step user)\<^sup>*\<^sup>* ((PRoles (Suc n) names err, []), w, r)
     (case delete_roles_loop names err w of
        (ReturnNil, out, w1) \<Rightarrow> ((PDone, []), w1, r @ out)
      | (LoopDone err', out, w1) \<Rightarrow> ((PRoles (Suc n) [] err', []), w1, r @ out))"
proof (induction names err w arbitrary: r rule: delete_roles_loop.induct)
  case (2 name names uu w)
  obtain err1 w1 where d: "cr_delete name w = (err1, w1)" by (cases "cr_delete name w") auto
  let ?s = "step_proc user (PRoles (Suc n) (name # names) uu) w"
  have call: "(proc_step user)\<^sup>*\<^sup>* ((PRoles (Suc n) (name # names) uu, []), w, r)
                ((fst (snd ?s), []), snd (snd ?s), r @ fst ?s)"
    by (rule proc_call_deliver) simp_all
  show ?case
  proof (cases "err1 \<noteq> None \<and> err1 \<noteq> Some NotFound")
    case True
    then show ?thesis
      using call d "2.IH"(1) [OF d [symmetric] True, of "r @ [ApiError (the err1)]"]
      by (auto intro: rtranclp_trans split: prod.splits loop_exit.splits)
  next
    case False
    show ?thesis
    proof (cases "err1 = Some NotFound")
      case True then show ?thesis using call d by simp
    next
      case nf: False
      then show ?thesis
        using call d False "2.IH"(2) [OF d [symmetric] False nf, of r]
        by (auto intro: rtranclp_trans split: prod.splits loop_exit.splits)
    qed
  qed
qed simp

lemma proc_roles_attempt:
  "(proc_step user)\<^sup>*\<^sup>* ((PRoles (Suc n) (clusterroles user) None, []), w, r)
     (case roles_delete_attempt user w of
        (None, out, w1) \<Rightarrow> ((PDone, []), w1, r @ out)
      | (Some e, out, w1) \<Rightarrow>
          if n = 0 then ((PDone, []), w1, r @ out @ [e])
          else ((PRoles n (clusterroles user) None, []), w1, r @ out))"
proof -
  obtain x out w1 where l: "delete_roles_loop (clusterroles user) None w = (x, out, w1)"
    by (cases "delete_roles_loop (clusterroles user) None w") auto
  have loop: "(proc_step user)\<^sup>*\<^sup>* ((PRoles (Suc n) (clusterroles user) None, []), w, r)
     (case x of ReturnNil \<Rightarrow> ((PDone, []), w1, r @ out)
      | LoopDone err' \<Rightarrow> ((PRoles (Suc n) [] err', []), w1, r @ out))"
    using proc_roles_loop [of user n "clusterroles user" None w r] l by (cases x) simp_all
  show ?thesis
  proof (cases x)
    case ReturnNil then show ?thesis using loop l by (simp add: roles_delete_attempt_def)
  next
    case (LoopDone err')
    let ?s = "step_proc user (PRoles (Suc n) [] err') w1"
    have dec: "(proc_step user)\<^sup>*\<^sup>* ((PRoles (Suc n) [] err', []), w1, r @ out)
                 ((fst (snd ?s), []), snd (snd ?s), (r @ out) @ fst ?s)"
      by (rule proc_call_deliver) simp_all
    show ?thesis
      using loop l LoopDone dec
      by (auto simp: roles_delete_attempt_def intro: rtranclp_trans split: option.splits)
  qed
qed

text \<open>Run alone, the goroutine of a ledger entry computes exactly its task.\<close>

lemma proc_solo_task:
  "(proc_step user)\<^sup>*\<^sup>* ((start_proc user d, []), w, r)
     ((PDone, []), snd (cleanup_task user d w), r @ fst (cleanup_task user d w))"
proof -
  have sa: "(proc_step user)\<^sup>*\<^sup>* ((PSA retry_attempts, []), w, r)
      ((PDone, []), snd (retry_task (sa_delete_attempt user) w), r @ fst (retry_task (sa_delete_attempt user) w))"
    by (rule proc_retry_task) (auto intro: proc_idle_done proc_retry_step_one)
  have crb: "(proc_step user)\<^sup>*\<^sup>* ((PCRB retry_attempts, []), w, r)
      ((PDone, []), snd (retry_task (crb_delete_attempt user) w), r @ fst (retry_task (crb_delete_attempt user) w))"
    by (rule proc_retry_task) (auto intro: proc_idle_done proc_retry_step_one)
  have roles: "(proc_step user)\<^sup>*\<^sup>* ((PRoles retry_attempts (clusterroles user) None, []), w, r)
      ((PDone, []), snd (retry_task (roles_delete_attempt user) w), r @ fst (retry_task (roles_delete_attempt user) w))"
    by (rule proc_retry_task [where S = "\<lambda>n. PRoles n (clusterroles user) None"])
       (auto intro: proc_idle_done proc_roles_attempt)
  show ?thesis
    using sa crb roles
    by (simp add: start_proc_def cleanup_task_def RetryDeleteServiceAccount_def
        RetryDeleteClusterRoles_def RetryDeleteClusterRoleBinding_def)
qed

section \<open>Projection of a schedule on its goroutines\<close>

lemma fpt_disjoint: "d \<noteq> d' \<Longrightarrow> fpt user d \<inter> fpt user d' = {}"
  by (auto simp: fpt_def)

lemma agree_frame_disjoint:
  "agree T w v \<Longrightarrow> frame T' w w' \<Longrightarrow> T \<inter> T' = {} \<Longrightarrow> agree T w' v"
  unfolding agree_def frame_def by (metis ComplI disjoint_iff)

lemma frame_trans:
  "frame T w0 w \<Longrightarrow> frame T' w w' \<Longrightarrow> T' \<subseteq> T \<Longrightarrow> frame T w0 w'"
  by (auto simp: agree_def frame_def)

lemma proc_ok_start: "proc_ok user d (start_proc user d)"
  by (simp add: start_proc_def)

lemma cinv_init:
  "cinv_w user ds w0 (map (\<lambda>d. (start_proc user d, [])) ds) w0 []
     (replicate (length ds) w0) (replicate (length ds) [])"
proof -
  have "sum_list (map mset (replicate n [])) = (0 :: error multiset)" for n
    by (induction n) auto
  moreover have "sum_list (map (\<lambda>v. mset (drop (length (journal w0)) (journal v))) (replicate n w0)) = 0" for n
    by (induction n) auto
  ultimately show ?thesis
    by (simp add: cinv_w_def proc_ok_start agree_def)
qed

lemma cinv_send:
  assumes inv: "cinv_w user ds w0 ps w rcv ws rs" and i: "i < length ps" and pi: "ps ! i = (p, e # es)"
  shows "cinv_w user ds w0 (ps[i := (p, es)]) w (rcv @ [e]) ws (rs[i := rs ! i @ [e]])"
proof -
  have len: "length ps = length ds" "length rs = length ds" using inv by (simp_all add: cinv_w_def)
  have solo: "(proc_step user)\<^sup>*\<^sup>* ((start_proc user (ds ! i), []), w0, []) ((p, es), ws ! i, rs ! i @ [e])"
    using inv i len pi proc_step.send [of user p e es "ws ! i" "rs ! i"]
    by (auto simp: cinv_w_def intro: rtranclp.rtrancl_into_rtrancl)
  have "sum_list (map mset (rs[i := rs ! i @ [e]])) + mset (rs ! i) = sum_list (map mset rs) + mset (rs ! i @ [e])"
    using i len by (intro sum_list_map_update) simp
  then have "sum_list (map mset (rs[i := rs ! i @ [e]])) = sum_list (map mset rs) + {#e#}"
    by simp
  then show ?thesis
    using inv i len pi solo by (auto simp: cinv_w_def nth_list_update)
qed

lemma cinv_w_nth:
  assumes "cinv_w user ds w0 ps w rcv ws rs" "j < length ds"
  shows "(proc_step user)\<^sup>*\<^sup>* ((start_proc user (ds ! j), []), w0, []) (ps ! j, ws ! j, rs ! j)"
    "proc_ok user (ds ! j) (fst (ps ! j))" "agree (fpt user (ds ! j)) w (ws ! j)"
    "take (length (journal w0)) (journal (ws ! j)) = journal w0"
  using assms by (simp_all add: cinv_w_def)

lemma cinv_call:
  assumes inv: "cinv_w user ds w0 ps w rcv ws rs" and dist: "distinct ds"
    and i: "i < length ps" and pi: "ps ! i = (p, [])" and np: "p \<noteq> PDone"
    and st: "step_proc user p w = (out, p', w')"
  shows "cinv_w user ds w0 (ps[i := (p', out)]) w' rcv (ws[i := snd (snd (step_proc user p (ws ! i)))]) rs"
proof -
  have len: "length ps = length ds" "length ws = length ds" "length rs = length ds"
    using inv by (simp_all add: cinv_w_def)
  have i': "i < length ds" using i len by simp
  let ?d = "ds ! i"
  have ok: "proc_ok user ?d p" using cinv_w_nth(2) [OF inv i'] pi by simp
  have ag: "agree (fpt user ?d) w (ws ! i)" by (rule cinv_w_nth(3) [OF inv i'])
  have start: "(proc_step user)\<^sup>*\<^sup>* ((start_proc user ?d, []), w0, []) ((p, []), ws ! i, rs ! i)"
    using cinv_w_nth(1) [OF inv i'] pi by simp
  have tk: "take (length (journal w0)) (journal (ws ! i)) = journal w0" by (rule cinv_w_nth(4) [OF inv i'])
  obtain o2 p2 v2 where st2: "step_proc user p (ws ! i) = (o2, p2, v2)"
    by (cases "step_proc user p (ws ! i)") auto
  have det: "out = o2 \<and> p' = p2 \<and> agree (fpt user ?d) w' v2 \<and>
      drop (length (journal w)) (journal w') = drop (length (journal (ws ! i))) (journal v2)"
    by (rule step_det [OF ok ag st st2])
  obtain cs where fr: "frame (fpt user ?d) w w'" and cs: "journal w' = journal w @ cs"
    using step_frame [OF ok st] by blast
  obtain cs2 where cs2: "journal v2 = journal (ws ! i) @ cs2"
    using step_frame [OF ok st2] by blast
  have cs_eq: "cs2 = cs" using det cs cs2 by simp
  have solo: "(proc_step user)\<^sup>*\<^sup>* ((start_proc user ?d, []), w0, []) ((p', out), v2, rs ! i)"
  proof -
    have "proc_step user ((p, []), ws ! i, rs ! i) ((p2, o2), v2, rs ! i)"
      by (rule proc_step.call [OF np st2])
    then show ?thesis using start det by (simp add: rtranclp.rtrancl_into_rtrancl)
  qed
  have ok': "proc_ok user ?d p'" by (rule step_ok [OF ok st])
  have others: "agree (fpt user (ds ! j)) w' (ws ! j)" if "j < length ds" "j \<noteq> i" for j
  proof -
    have "ds ! j \<noteq> ?d" using dist that i' by (simp add: nth_eq_iff_index_eq)
    then have "fpt user (ds ! j) \<inter> fpt user ?d = {}" by (rule fpt_disjoint)
    then show ?thesis using agree_frame_disjoint [OF cinv_w_nth(3) [OF inv that(1)] fr] by simp
  qed
  have tk2: "take (length (journal w0)) (journal v2) = journal w0"
    and dr2: "drop (length (journal w0)) (journal v2) = drop (length (journal w0)) (journal (ws ! i)) @ cs"
    using take_prefix_append [OF tk, of cs2] cs2 cs_eq by simp_all
  have sub: "fpt user ?d \<subseteq> (\<Union>d \<in> set ds. fpt user d)" using i' nth_mem by blast
  have fr0: "frame (\<Union>d \<in> set ds. fpt user d) w0 w'"
  proof -
    have "frame (\<Union>d \<in> set ds. fpt user d) w0 w" using inv by (simp add: cinv_w_def)
    then show ?thesis using frame_trans [OF _ fr sub] by blast
  qed
  let ?f = "\<lambda>v. mset (drop (length (journal w0)) (journal v))"
  have "sum_list (map ?f (ws[i := v2])) + ?f (ws ! i) = sum_list (map ?f ws) + ?f v2"
    using i' len by (intro sum_list_map_update) simp
  then have sum: "sum_list (map ?f (ws[i := v2])) = sum_list (map ?f ws) + mset cs"
    using dr2 by (simp add: add_ac)
  have loc: "(proc_step user)\<^sup>*\<^sup>* ((start_proc user (ds ! j), []), w0, [])
                 (ps[i := (p', out)] ! j, ws[i := v2] ! j, rs ! j) \<and>
              proc_ok user (ds ! j) (fst (ps[i := (p', out)] ! j)) \<and>
              agree (fpt user (ds ! j)) w' (ws[i := v2] ! j) \<and>
              take (length (journal w0)) (journal (ws[i := v2] ! j)) = journal w0"
    if "j < length ds" for j
  proof (cases "j = i")
    case True then show ?thesis using solo ok' det tk2 i len by simp
  next
    case False then show ?thesis
      using cinv_w_nth [OF inv that] others [OF that False] len by simp
  qed
  have rcv: "mset rcv = sum_list (map mset rs)"
    and jr: "mset (journal w) = mset (journal w0) + sum_list (map ?f ws)"
    using inv by (simp_all add: cinv_w_def)
  have v2: "snd (snd (step_proc user p (ws ! i))) = v2" using st2 by simp
  show ?thesis
    unfolding cinv_w_def v2
    using len loc fr0 rcv jr sum cs by (simp add: add_ac)
qed

lemma cinv_step:
  assumes "cleaner_step user (ps, w, rcv) (ps', w', rcv')" "cinv_w user ds w0 ps w rcv ws rs" "distinct ds"
  shows "\<exists>ws' rs'. cinv_w user ds w0 ps' w' rcv' ws' rs'"
proof -
  obtain i q' where i: "i < length ps" and ps': "ps' = ps[i := q']"
    and ps_step: "proc_step user (ps ! i, w, rcv) (q', w', rcv')"
    using assms(1) by (auto elim: cleaner_step.cases)
  from ps_step show ?thesis
  proof (cases rule: proc_step.cases)
    case (call p out p2)
    then show ?thesis using cinv_call [OF assms(2,3) i, of p out p2 w'] ps' by auto
  next
    case (send p e es)
    then show ?thesis using cinv_send [OF assms(2) i, of p e es] ps' by auto
  qed
qed

lemma cinv_reach:
  assumes "(cleaner_step user)\<^sup>*\<^sup>* (cleaner_init user ds w0) c" "distinct ds"
  shows "\<exists>ws rs. cinv_w user ds w0 (fst c) (fst (snd c)) (snd (snd c)) ws rs"
  using assms(1)
proof (induction rule: rtranclp_induct)
  case base then show ?case using cinv_init [of user ds w0] by (auto simp: cleaner_init_def)
next
  case (step b c)
  then obtain ws rs where "cinv_w user ds w0 (fst b) (fst (snd b)) (snd (snd b)) ws rs" by blast
  then show ?case using cinv_step [of user "fst b" "fst (snd b)" "snd (snd b)"] step.hyps(2) assms(2)
    by (cases b; cases c) auto
qed

lemma cinv_final:
  assumes "cinv_w user ds w0 ps w rcv ws rs" "list_all (\<lambda>q. q = (PDone, [])) ps" "i < length ds"
  shows "ws ! i = snd (cleanup_task user (ds ! i) w0) \<and> rs ! i = fst (cleanup_task user (ds ! i) w0)"
proof -
  have "ps ! i = (PDone, [])" using assms by (auto simp: cinv_w_def list_all_length)
  then have "(proc_step user)\<^sup>*\<^sup>* ((start_proc user (ds ! i), []), w0, []) ((PDone, []), ws ! i, rs ! i)"
    using cinv_w_nth(1) [OF assms(1,3)] by simp
  then show ?thesis
    using proc_solo_final_unique proc_solo_task [of user "ds ! i" w0 "[]"] by fastforce
qed

lemma world_strip_eq:
  assumes "\<And>t. objv_at t w1 = objv_at t w2 \<and> faults w1 t = faults w2 t"
    "issued w1 = issued w2" "token_source w1 = token_source w2"
  shows "w1\<lparr>journal := []\<rparr> = w2\<lparr>journal := []\<rparr>"
proof -
  have sa: "service_accounts w1 = service_accounts w2"
  proof
    fix k show "service_accounts w1 k = service_accounts w2 k"
      using assms(1) [of "TServiceAccount (fst k) (snd k)"]
      by (cases "service_accounts w1 k"; cases "service_accounts w2 k") auto
  qed
  have cr: "cluster_roles w1 = cluster_roles w2"
  proof
    fix k show "cluster_roles w1 k = cluster_roles w2 k"
      using assms(1) [of "TClusterRole k"] by (cases "cluster_roles w1 k"; cases "cluster_roles w2 k") auto
  qed
  have crb: "cluster_role_bindings w1 = cluster_role_bindings w2"
  proof
    fix k show "cluster_role_bindings w1 k = cluster_role_bindings w2 k"
      using assms(1) [of "TClusterRoleBinding k"]
      by (cases "cluster_role_bindings w1 k"; cases "cluster_role_bindings w2 k") auto
  qed
  have "faults w1 = faults w2" using assms(1) by auto
  then show ?thesis using sa cr crb assms(2,3) by (cases w1; cases w2) simp
qed

lemma cinv_same_views:
  assumes "cinv_w user ds w0 ps1 w1 r1 ws rs" "cinv_w user ds w0 ps2 w2 r2 ws rs"
  shows "w1\<lparr>journal := []\<rparr> = w2\<lparr>journal := []\<rparr> \<and> mset r1 = mset r2 \<and> mset (journal w1) = mset (journal w2)"
proof -
  have len: "length ws = length ds" using assms(1) by (simp add: cinv_w_def)
  have t: "objv_at t w1 = objv_at t w2 \<and> faults w1 t = faults w2 t" for t
  proof (cases "\<exists>i < length ds. t \<in> fpt user (ds ! i)")
    case True
    then obtain i where i: "i < length ds" "t \<in> fpt user (ds ! i)" by blast
    then show ?thesis using cinv_w_nth(3) [OF assms(1) i(1)] cinv_w_nth(3) [OF assms(2) i(1)]
      by (auto simp: agree_def)
  next
    case False
    then have "t \<in> - (\<Union>d \<in> set ds. fpt user d)" by (auto simp: in_set_conv_nth)
    moreover have "frame (\<Union>d \<in> set ds. fpt user d) w0 w1" "frame (\<Union>d \<in> set ds. fpt user d) w0 w2"
      using assms by (simp_all add: cinv_w_def)
    ultimately show ?thesis by (auto simp: frame_def agree_def)
  qed
  have "issued w1 = issued w2 \<and> token_source w1 = token_source w2"
    using assms by (simp add: cinv_w_def frame_def)
  then show ?thesis using world_strip_eq [OF t] assms by (simp add: cinv_w_def)
qed

lemma cleaner_lift_gen:
  assumes "(proc_step user)\<^sup>*\<^sup>* a b" "i < length ps"
  shows "(cleaner_step user)\<^sup>*\<^sup>* (ps[i := fst a], fst (snd a), snd (snd a)) (ps[i := fst b], fst (snd b), snd (snd b))"
  using assms(1)
proof (induction rule: rtranclp_induct)
  case (step b c)
  obtain q w r where b: "b = (q, w, r)" by (cases b) auto
  obtain q' w' r' where c: "c = (q', w', r')" by (cases c) auto
  have "cleaner_step user (ps[i := q], w, r) ((ps[i := q])[i := q'], w', r')"
    by (rule cleaner_step.pick) (use assms(2) step.hyps(2) b c in simp_all)
  then show ?case using step.IH b c by (simp add: rtranclp.rtrancl_into_rtrancl)
qed simp

lemma cleaner_lift:
  "(proc_step user)\<^sup>*\<^sup>* (q, w, r) (q', w', r') \<Longrightarrow> i < length ps \<Longrightarrow>
   (cleaner_step user)\<^sup>*\<^sup>* (ps[i := q], w, r) (ps[i := q'], w', r')"
  using cleaner_lift_gen [of user "(q, w, r)" "(q', w', r')"] by simp

lemma cleaner_sequential:
  "(cleaner_step user)\<^sup>*\<^sup>* (replicate k (PDone, []) @ map (\<lambda>d. (start_proc user d, [])) ds, w, r)
     (replicate (k + length ds) (PDone, []), snd (run_tasks user ds w), r @ fst (run_tasks user ds w))"
proof (induction ds arbitrary: k w r)
  case (Cons d ds)
  obtain out1 w1 where t: "cleanup_task user d w = (out1, w1)" by (cases "cleanup_task user d w") auto
  let ?ps = "replicate k (PDone, []) @ (start_proc user d, []) # map (\<lambda>d. (start_proc user d, [])) ds"
  have "(cleaner_step user)\<^sup>*\<^sup>* (?ps[k := (start_proc user d, [])], w, r) (?ps[k := (PDone, [])], w1, r @ out1)"
    using cleaner_lift [OF proc_solo_task [of user d w r], of k ?ps] t by simp
  moreover have "?ps[k := (start_proc user d, [])] = ?ps" by (simp add: list_update_append)
  moreover have "?ps[k := (PDone, [])] = replicate (Suc k) (PDone, []) @ map (\<lambda>d. (start_proc user d, [])) ds"
    by (simp add: list_update_append replicate_append_same)
  ultimately have "(cleaner_step user)\<^sup>*\<^sup>* (?ps, w, r)
      (replicate (Suc k) (PDone, []) @ map (\<lambda>d. (start_proc user d, [])) ds, w1, r @ out1)"
    by metis
  then show ?case using Cons [of "Suc k" w1 "r @ out1"] t
    by (auto intro: rtranclp_trans split: prod.splits)
qed simp

section \<open>Termination and progress\<close>

lemma step_proc_weight:
  "p \<noteq> PDone \<Longrightarrow> step_proc user p w = (out, p', w') \<Longrightarrow>
   3 * proc_weight p' + length out < 3 * proc_weight p"
  by (induction user p w rule: step_proc.induct)
     (auto simp: retry_step_def sa_delete_attempt_def crb_delete_attempt_def clusterroles_def
       split: prod.splits option.splits if_splits)

lemma proc_step_weight:
  "proc_step user (q, w, r) (q', w', r') \<Longrightarrow>
   (case q' of (p, out) \<Rightarrow> 3 * proc_weight p + length out) < (case q of (p, out) \<Rightarrow> 3 * proc_weight p + length out)"
  by (auto elim!: proc_step.cases dest: step_proc_weight)

lemma cleaner_step_weight:
  assumes "cleaner_step user c c'"
  shows "conf_weight c' < conf_weight c"
  using assms
proof cases
  case (pick i ps w rcv q' w' rcv')
  let ?f = "\<lambda>(p, out). 3 * proc_weight p + length out"
  have "sum_list (map ?f (ps[i := q'])) + ?f (ps ! i) = sum_list (map ?f ps) + ?f q'"
    using pick(3) by (rule sum_list_map_update)
  moreover have "?f q' < ?f (ps ! i)"
    using proc_step_weight [of user "ps ! i" w rcv q' w' rcv'] pick(4) by simp
  ultimately show ?thesis using pick(1,2) by (simp add: conf_weight_def)
qed

lemma cleaner_progress:
  "(\<exists>c'. cleaner_step user c c') \<longleftrightarrow> \<not> all_done c"
proof
  assume "\<exists>c'. cleaner_step user c c'"
  then obtain c' where "cleaner_step user c c'" by blast
  then show "\<not> all_done c"
    by cases (auto simp: all_done_def list_all_length elim!: proc_step.cases)
next
  assume "\<not> all_done c"
  then obtain i where i: "i < length (fst c)" and q: "fst c ! i \<noteq> (PDone, [])"
    by (auto simp: all_done_def list_all_length)
  obtain ps w rcv where c: "c = (ps, w, rcv)" by (cases c) auto
  obtain p out where pi: "ps ! i = (p, out)" by (cases "ps ! i") auto
  show "\<exists>c'. cleaner_step user c c'"
  proof (cases out)
    case Nil
    then have "p \<noteq> PDone" using q c pi by simp
    obtain o' p' w' where "step_proc user p w = (o', p', w')" by (cases "step_proc user p w") auto
    then have "proc_step user (ps ! i, w, rcv) ((p', o'), w', rcv)"
      using pi Nil \<open>p \<noteq> PDone\<close> proc_step.call by simp
    then have "cleaner_step user (ps, w, rcv) (ps[i := (p', o')], w', rcv)"
      using i c by (intro cleaner_step.pick) simp_all
    then show ?thesis using c by blast
  next
    case (Cons e es)
    then have "proc_step user (ps ! i, w, rcv) ((p, es), w, rcv @ [e])"
      using pi proc_step.send by simp
    then have "cleaner_step user (ps, w, rcv) (ps[i := (p, es)], w, rcv @ [e])"
      using i c by (intro cleaner_step.pick) simp_all
    then show ?thesis using c by blast
  qed
qed

lemma sched_move_reach: "(cleaner_step user)\<^sup>*\<^sup>* c (sched_move user i c)"
proof -
  obtain ps w rcv where c: "c = (ps, w, rcv)" by (cases c) auto
  show ?thesis
  proof (cases "i < length ps")
    case True
    obtain p out where pi: "ps ! i = (p, out)" by (cases "ps ! i") auto
    show ?thesis
    proof (cases out)
      case (Cons e es)
      have "cleaner_step user (ps, w, rcv) (ps[i := (p, es)], w, rcv @ [e])"
        using True pi Cons proc_step.send by (intro cleaner_step.pick) simp_all
      then show ?thesis using c True pi Cons by simp
    next
      case Nil
      show ?thesis
      proof (cases "p = PDone")
        case False
        obtain o' p' w' where s: "step_proc user p w = (o', p', w')" by (cases "step_proc user p w") auto
        have "cleaner_step user (ps, w, rcv) (ps[i := (p', o')], w', rcv)"
          using True pi Nil False s proc_step.call by (intro cleaner_step.pick) simp_all
        then show ?thesis using c True pi Nil False s by simp
      qed (use c True pi Nil in simp)
    qed
  qed (use c in simp)
qed

lemma run_sched_reach: "(cleaner_step user)\<^sup>*\<^sup>* c (run_sched user sched c)"
proof (induction sched arbitrary: c)
  case (Cons i sched)
  have a: "(cleaner_step user)\<^sup>*\<^sup>* c (sched_move user i c)" by (rule sched_move_reach)
  have b: "(cleaner_step user)\<^sup>*\<^sup>* (sched_move user i c) (run_sched user sched (sched_move user i c))"
    by (rule Cons.IH)
  have "run_sched user (i # sched) c = run_sched user sched (sched_move user i c)"
    by (simp add: run_sched_def)
  then show ?case using rtranclp_trans [OF a b] by simp
qed (simp add: run_sched_def)

lemmas sched_eval = run_sched_def cleaner_init_def start_proc_def retry_attempts_def
  newSAInfo_def retry_step_def sa_delete_attempt_def api_simps empty_world_def all_done_def
  obj_delete_def call_def Namespace_const_def numeral_eq_Suc Let_def clusterroles_def

section \<open>Properties of the concurrent cleanup\<close>

text \<open>
  C14: for a ledger without duplicate entries, every schedule of the cleanup
  goroutines that runs to completion leaves the store and the fault scripts
  exactly as the sequential \<open>run_tasks\<close> does, receives the same multiset of
  errors and makes the same multiset of calls; only the order of the journal
  and of the received errors may differ.
\<close>

theorem Cleaner_schedules_agree:
  assumes "distinct ds" "(cleaner_step user)\<^sup>*\<^sup>* (cleaner_init user ds w) c" "all_done c"
  shows "(fst (snd c))\<lparr>journal := []\<rparr> = (snd (run_tasks user ds w))\<lparr>journal := []\<rparr> \<and>
         mset (snd (snd c)) = mset (fst (run_tasks user ds w)) \<and>
         mset (journal (fst (snd c))) = mset (journal (snd (run_tasks user ds w)))"
proof -
  let ?seq = "(replicate (length ds) (PDone :: proc, [] :: error list), snd (run_tasks user ds w),
               fst (run_tasks user ds w))"
  have seq: "(cleaner_step user)\<^sup>*\<^sup>* (cleaner_init user ds w) ?seq"
    using cleaner_sequential [of user 0 ds w "[]"] by (simp add: cleaner_init_def)
  obtain ws1 rs1 where i1: "cinv_w user ds w (fst c) (fst (snd c)) (snd (snd c)) ws1 rs1"
    using cinv_reach [OF assms(2,1)] by blast
  obtain ws2 rs2 where i2: "cinv_w user ds w (fst ?seq) (fst (snd ?seq)) (snd (snd ?seq)) ws2 rs2"
    using cinv_reach [OF seq assms(1)] by blast
  have d1: "list_all (\<lambda>q. q = (PDone, [])) (fst c)" using assms(3) by (simp add: all_done_def)
  have d2: "list_all (\<lambda>q. q = (PDone, [])) (fst ?seq)" by (simp add: list_all_iff)
  have "ws1 = ws2 \<and> rs1 = rs2"
    using i1 i2 cinv_final [OF i1 d1] cinv_final [OF i2 d2]
    by (auto simp: cinv_w_def intro: nth_equalityI)
  then show ?thesis using cinv_same_views [OF i1] i2 by simp
qed

theorem Cleaner_schedules_agree_witness:
  "snd (snd (run_sched alice [1, 0, 0, 0] (cleaner_init alice [SA, ClusterRole] w_one))) =
     [ApiError (Failure ''x'')] \<and>
   mset (fst (run_tasks alice [SA, ClusterRole] w_one)) = {#ApiError (Failure ''x'')#}"
proof -
  let ?c = "run_sched alice [1, 0, 0, 0] (cleaner_init alice [SA, ClusterRole] w_one)"
  have e: "?c = ([(PDone, []), (PDone, [])],
      w_one\<lparr>faults := (\<lambda>_. []), journal := [Delete (TClusterRole ''alice''),
         Delete (TServiceAccount ''kube-system'' ''alice''), Delete (TServiceAccount ''kube-system'' ''alice'')]\<rparr>,
      [ApiError (Failure ''x'')])"
    by (simp add: sched_eval w_one_def)
  have d: "distinct [SA, ClusterRole]" by simp
  have r: "(cleaner_step alice)\<^sup>*\<^sup>* (cleaner_init alice [SA, ClusterRole] w_one) ?c"
    by (rule run_sched_reach)
  have a: "all_done ?c" using e by (simp add: all_done_def)
  show ?thesis using Cleaner_schedules_agree [OF d r a] e by simp
qed

text \<open>
  C17: a duplicated ledger entry (as a reused client accumulates, C9) makes the
  outcome depend on the schedule. With two \<open>SA\<close> entries and 20 failing deletes,
  running the two goroutines one after the other reports 21 errors, the last one
  saying the account still exists, although the second goroutine deleted it;
  interleaving them shares out the failures and reports 20.
\<close>

theorem Cleaner_duplicate_entries_diverge:
  "\<exists>c1 c2. (cleaner_step alice)\<^sup>*\<^sup>* (cleaner_init alice [SA, SA] w_dup) c1 \<and> all_done c1 \<and>
     (cleaner_step alice)\<^sup>*\<^sup>* (cleaner_init alice [SA, SA] w_dup) c2 \<and> all_done c2 \<and>
     service_accounts (fst (snd c1)) (''kube-system'', ''alice'') = None \<and>
     last (snd (snd c1)) = Wrapf (SAStillExists ''alice'' ''kube-system'') (ApiError (Failure ''x'')) \<and>
     length (snd (snd c1)) = 21 \<and> length (snd (snd c2)) = 20"
proof -
  have f: "faults w_dup (TServiceAccount (Namespace alice) (ServiceAccountName alice)) = replicate 20 (Some ''x'') @ []"
    by (simp add: w_dup_def newSAInfo_def Namespace_const_def)
  let ?E = "replicate 20 (ApiError (Failure ''x'')) @
             [Wrapf (SAStillExists ''alice'' ''kube-system'') (ApiError (Failure ''x''))]"
  let ?t = "TServiceAccount ''kube-system'' ''alice''"
  let ?w1 = "w_dup\<lparr>journal := journal w_dup @ replicate 20 (Delete ?t), faults := (faults w_dup)(?t := [])\<rparr>"
  have s1: "RetryDeleteServiceAccount alice w_dup = (?E, ?w1)"
    using retry_Do_sa_exhausted [OF f]
    by (simp add: RetryDeleteServiceAccount_def retry_task_def retry_attempts_def newSAInfo_def Namespace_const_def)
  have s2: "RetryDeleteServiceAccount alice ?w1 =
      ([], ?w1\<lparr>service_accounts := (service_accounts ?w1)((''kube-system'', ''alice'') := None),
              journal := journal ?w1 @ [Delete ?t]\<rparr>)"
    using RetryDeleteServiceAccount_clean [of ?w1 alice] by (simp add: newSAInfo_def Namespace_const_def)
  let ?c1 = "([(PDone, []), (PDone, [])], snd (run_tasks alice [SA, SA] w_dup), fst (run_tasks alice [SA, SA] w_dup))"
  have r1: "(cleaner_step alice)\<^sup>*\<^sup>* (cleaner_init alice [SA, SA] w_dup) ?c1"
    using cleaner_sequential [of alice 0 "[SA, SA]" w_dup "[]"] by (simp add: cleaner_init_def)
  have c1: "all_done ?c1 \<and> service_accounts (fst (snd ?c1)) (''kube-system'', ''alice'') = None \<and>
      snd (snd ?c1) = ?E"
    using s1 s2 by (simp add: all_done_def)
  let ?c2 = "run_sched alice (concat (replicate 19 [0, 0]) @ [1, 1, 0, 1]) (cleaner_init alice [SA, SA] w_dup)"
  have c2: "all_done ?c2 \<and> length (snd (snd ?c2)) = 20"
    by (simp add: sched_eval w_dup_def)
  have c1': "length (snd (snd ?c1)) = 21 \<and>
      last (snd (snd ?c1)) = Wrapf (SAStillExists ''alice'' ''kube-system'') (ApiError (Failure ''x''))"
    using c1 by simp
  have r2: "(cleaner_step alice)\<^sup>*\<^sup>* (cleaner_init alice [SA, SA] w_dup) ?c2"
    by (rule run_sched_reach)
  show ?thesis
    using r1 c1 c1' c2 r2 by blast
qed

end
