(* ===== verification/Cleaner_Frame.thy ===== *)
theory Cleaner_Frame
  imports Run_Effects Cleanup_Concurrency
begin

text \<open>
  What the concurrent cleanup of \<open>Cleaner\<close> (lines 400--524) can do to the store,
  under every schedule of its goroutines and for every ledger, duplicated entries
  included. \<open>del_only u w w'\<close> says that \<open>w'\<close> extends the journal of \<open>w\<close>, issues
  no token, and changes the object maps only by deleting objects of the identity
  \<open>u\<close> (\<open>only_deletes\<close>). Every move of a goroutine satisfies it, so every
  schedule does. This combines the per-call frame lemmas of \<open>Run_Effects\<close> with
  the step relation \<open>cleaner_step\<close> of \<open>Cleanup_Concurrency\<close>.
\<close>

section \<open>Deletion-only change\<close>

definition only_deletes :: "'k list \<Rightarrow> ('k \<rightharpoonup> 'o) \<Rightarrow> ('k \<rightharpoonup> 'o) \<Rightarrow> bool" where
  "only_deletes ks m m' \<longleftrightarrow> (\<forall>k. m' k = m k \<or> (k \<in> set ks \<and> m' k = None))"

definition del_only :: "SAInfo \<Rightarrow> world \<Rightarrow> world \<Rightarrow> bool" where
  "del_only u w w' \<longleftrightarrow>
     (\<exists>cs. journal w' = journal w @ cs) \<and> issued w' = issued w \<and> token_source w' = token_source w \<and>
     only_deletes [(Namespace u, ServiceAccountName u)] (service_accounts w) (service_accounts w') \<and>
     only_deletes (clusterroles u) (cluster_roles w) (cluster_roles w') \<and>
     only_deletes [ClusterRoleBindingName u] (cluster_role_bindings w) (cluster_role_bindings w')"

text \<open>The role names a goroutine may still delete are the identity's own.\<close>

fun roles_own :: "SAInfo \<Rightarrow> proc \<Rightarrow> bool" where
  "roles_own u (PRoles k ns e) \<longleftrightarrow> set ns \<subseteq> set (clusterroles u)"
| "roles_own u p \<longleftrightarrow> True"

section \<open>Lemmas\<close>

lemma only_deletes_refl [simp]: "only_deletes ks m m"
  by (simp add: only_deletes_def)

lemma only_deletes_trans: "only_deletes ks m1 m2 \<Longrightarrow> only_deletes ks m2 m3 \<Longrightarrow> only_deletes ks m1 m3"
  unfolding only_deletes_def by metis

lemma only_deletes_delete: "k \<in> set ks \<Longrightarrow> only_deletes ks m (m(k := None))"
  by (simp add: only_deletes_def)

lemma only_deletes_then_delete: "only_deletes ks m m1 \<Longrightarrow> k \<in> set ks \<Longrightarrow> only_deletes ks m (m1(k := None))"
  by (auto simp: only_deletes_def)

lemma del_only_refl [simp]: "del_only u w w"
  by (simp add: del_only_def)

lemma del_only_trans: "del_only u w1 w2 \<Longrightarrow> del_only u w2 w3 \<Longrightarrow> del_only u w1 w3"
  unfolding del_only_def by (auto intro: only_deletes_trans)

lemma call_del_only: "call req w = (x, w') \<Longrightarrow> del_only u w w'"
  by (auto simp: call_def del_only_def Let_def split: list.splits)

lemma del_only_delete_updates:
  "del_only u w w1 \<Longrightarrow> k = (Namespace u, ServiceAccountName u) \<Longrightarrow>
     del_only u w (service_accounts_update (\<lambda>m. m(k := None)) w1)"
  "del_only u w w1 \<Longrightarrow> n \<in> set (clusterroles u) \<Longrightarrow>
     del_only u w (cluster_roles_update (\<lambda>m. m(n := None)) w1)"
  "del_only u w w1 \<Longrightarrow> n = ClusterRoleBindingName u \<Longrightarrow>
     del_only u w (cluster_role_bindings_update (\<lambda>m. m(n := None)) w1)"
  unfolding del_only_def by (auto intro: only_deletes_then_delete)

lemma delete_del_only:
  "sa_delete (Namespace u) (ServiceAccountName u) w = (x, w') \<Longrightarrow> del_only u w w'"
  "n \<in> set (clusterroles u) \<Longrightarrow> cr_delete n w = (y, w') \<Longrightarrow> del_only u w w'"
  "crb_delete (ClusterRoleBindingName u) w = (z, w') \<Longrightarrow> del_only u w w'"
  unfolding sa_delete_def cr_delete_def crb_delete_def
  by (auto dest!: obj_delete_call call_del_only [where u = u] intro!: del_only_delete_updates)

lemma attempt_del_only:
  "sa_delete_attempt u w = (e, out, w') \<Longrightarrow> del_only u w w'"
  "crb_delete_attempt u w = (e, out, w') \<Longrightarrow> del_only u w w'"
  by (auto simp: sa_delete_attempt_def crb_delete_attempt_def split: prod.splits if_splits
      dest: delete_del_only(1) delete_del_only(3))

lemma retry_step_del_only:
  "(\<And>s e out s'. attempt s = (e, out, s') \<Longrightarrow> del_only u s s') \<Longrightarrow>
     retry_step attempt K n w = (out, p', w') \<Longrightarrow> del_only u w w'"
  by (auto simp: retry_step_def split: prod.splits option.splits if_splits)

lemma step_proc_del_only:
  "roles_own u p \<Longrightarrow> step_proc u p w = (out, p', w') \<Longrightarrow> del_only u w w' \<and> roles_own u p'"
proof (induction u p w rule: step_proc.induct)
  case (2 user n w)
  then show ?case
    using retry_step_del_only [OF attempt_del_only(1)]
    by (auto simp: retry_step_def split: prod.splits option.splits if_splits)
next
  case (4 user n w)
  then show ?case
    using retry_step_del_only [OF attempt_del_only(2)]
    by (auto simp: retry_step_def split: prod.splits option.splits if_splits)
next
  case (6 user n name names err w)
  then show ?case
    by (auto split: prod.splits if_splits dest: delete_del_only(2) [rotated])
next
  case (7 user n err w)
  then show ?case
    by (auto split: option.splits if_splits)
qed auto

lemma proc_step_del_only:
  "proc_step u ((p, ob), w, rcv) ((p', ob'), w', rcv') \<Longrightarrow> roles_own u p \<Longrightarrow> del_only u w w' \<and> roles_own u p'"
  by (auto elim!: proc_step.cases dest: step_proc_del_only)

lemma cleaner_step_del_only:
  assumes "cleaner_step u (ps, w, rcv) (ps', w', rcv')" "list_all (\<lambda>q. roles_own u (fst q)) ps"
  shows "del_only u w w' \<and> list_all (\<lambda>q. roles_own u (fst q)) ps'"
  using assms
proof cases
  case (pick i q')
  obtain p ob where pi: "ps ! i = (p, ob)" by (cases "ps ! i")
  obtain p' ob' where q: "q' = (p', ob')" by (cases q')
  have own: "roles_own u p" using assms(2) pick(2) pi by (auto simp: list_all_length)
  have "del_only u w w' \<and> roles_own u p'" using pick(3) pi q own by (auto dest: proc_step_del_only)
  then show ?thesis using assms(2) pick(1,2) q
    by (auto simp: list_all_length nth_list_update)
qed

lemma cleaner_reach_del_only:
  "(cleaner_step u)\<^sup>*\<^sup>* c c' \<Longrightarrow> list_all (\<lambda>q. roles_own u (fst q)) (fst c) \<Longrightarrow>
     del_only u (fst (snd c)) (fst (snd c')) \<and> list_all (\<lambda>q. roles_own u (fst q)) (fst c')"
proof (induction rule: rtranclp_induct)
  case (step c1 c2)
  obtain ps1 w1 r1 where c1: "c1 = (ps1, w1, r1)" by (cases c1) auto
  obtain ps2 w2 r2 where c2: "c2 = (ps2, w2, r2)" by (cases c2) auto
  have "list_all (\<lambda>q. roles_own u (fst q)) ps1" using step c1 by simp
  with step(2) c1 c2 have "del_only u w1 w2 \<and> list_all (\<lambda>q. roles_own u (fst q)) ps2"
    using cleaner_step_del_only [of u ps1 w1 r1 ps2 w2 r2] by simp
  with step c1 c2 show ?case
    by (auto intro: del_only_trans)
qed simp

lemma cleaner_init_own: "list_all (\<lambda>q. roles_own u (fst q)) (fst (cleaner_init u ds w))"
  by (simp add: cleaner_init_def start_proc_def list_all_iff)

section \<open>Every schedule only deletes the identity's objects\<close>

text \<open>
  C28: whatever the schedule of the cleanup goroutines and whatever the ledger,
  duplicated entries included (where the schedules disagree, C17), every
  configuration reached from \<open>cleaner_init\<close> differs from the starting store only
  by deletions of the identity's own service account, two roles and binding. The
  journal only grows and no token is issued.
\<close>

theorem Cleaner_schedules_only_delete_own:
  "(cleaner_step u)\<^sup>*\<^sup>* (cleaner_init u ds w) c \<Longrightarrow> del_only u w (fst (snd c))"
  using cleaner_reach_del_only [OF _ cleaner_init_own, of u ds w c] by (simp add: cleaner_init_def)

theorem Cleaner_schedules_only_delete_own_witness:
  "del_only alice w_dup
     (fst (snd (run_sched alice (concat (replicate 19 [0, 0]) @ [1, 1, 0, 1]) (cleaner_init alice [SA, SA] w_dup))))"
  by (rule Cleaner_schedules_only_delete_own [OF run_sched_reach])

end
