(* ===== verification/Run_Concurrent.thy ===== *)
theory Run_Concurrent
  imports Cleaner_Frame
begin

text \<open>
  \<open>Run\<close> with its deferred \<open>Cleaner\<close> as the code runs it: one goroutine per ledger
  entry (lines 113--119 and 400--447). \<open>Run_steps\<close> is the body of \<open>Run\<close> up to
  its return (lines 120--150). \<open>Run_conc\<close> relates a client and a store to every
  outcome that some schedule of the cleanup goroutines produces. Every outcome
  writes only the identity's own objects, whatever the ledger a reused client
  carries and whatever the schedule.
\<close>

section \<open>Run up to its return, and the deferred cleanup\<close>

definition Run_steps :: "RuntimeClient \<Rightarrow> world \<Rightarrow> (error + string) \<times> RuntimeClient \<times> world" where
  "Run_steps rtc w =
     (let user = User rtc; role = L2L3OperatiorRole rtc in
      (case createServiceAccount user w of
        (Some err, w1) \<Rightarrow>
          (Inl (Wrapf (WhileCreateServiceAccount (ServiceAccountName user) (Namespace user)) err), rtc, w1)
      | (None, w1) \<Rightarrow>
      (case createClusterRoleRules user role w1 of
        (Some err, w2) \<Rightarrow>
          (Inl (Wrapf (WhileCreateClusterRole (ClusterRoleName user)) err),
           rtc\<lparr>RollbackE := RollbackE rtc @ [SA]\<rparr>, w2)
      | (None, w2) \<Rightarrow>
      (case createClusterRole user role w2 of
        (Some err, w3) \<Rightarrow>
          (Inl (Wrapf (WhileCreateClusterRole (ClusterRoleName user)) err),
           rtc\<lparr>RollbackE := RollbackE rtc @ [SA, ClusterRole]\<rparr>, w3)
      | (None, w3) \<Rightarrow>
      (case getServiceAccountToken rtc w3 of
        (Inl err, w4) \<Rightarrow>
          (Inl (Wrapf (WhileGetServiceAccountToken (ServiceAccountName user)) err),
           rtc\<lparr>RollbackE := RollbackE rtc @ [SA, ClusterRole]\<rparr>, w4)
      | (Inr saToken, w4) \<Rightarrow>
      (case createClusterRoleBinding user w4 of
        (Some err, w5) \<Rightarrow>
          (Inl (Wrapf (WhileCreateClusterRoleBinding (ClusterRoleBindingName user)) err),
           rtc\<lparr>RollbackE := RollbackE rtc @ [SA, ClusterRole]\<rparr>, w5)
      | (None, w5) \<Rightarrow> (Inr saToken, rtc, w5)))))))"

text \<open>
  The deferred function with the goroutines of \<open>Cleaner\<close>: any schedule that runs
  them all to completion. An empty ledger starts no goroutine, which matches the
  early return of \<open>Cleaner\<close>. The error \<open>Cleaner\<close> folds is dropped, as in
  \<open>run_exit\<close>.
\<close>

inductive Run_conc :: "RuntimeClient \<Rightarrow> world \<Rightarrow> (error + string) \<times> RuntimeClient \<times> world \<Rightarrow> bool" where
  steps_then_cleanup: "Run_steps rtc w = (res, rtc', w1) \<Longrightarrow>
         (cleaner_step (User rtc'))\<^sup>*\<^sup>* (cleaner_init (User rtc') (RollbackE rtc') w1) c \<Longrightarrow> all_done c \<Longrightarrow>
         Run_conc rtc w (res, rtc', fst (snd c))"

inductive_cases Run_concE: "Run_conc rtc w out"

text \<open>
  A scenario: a client reused after a failed run, whose ledger holds \<open>[SA, ClusterRole]\<close>.
  alice's account and aggregating role exist, and so does bob's role. The account
  lookup fails once.
\<close>

definition rtc_reused :: RuntimeClient where
  "rtc_reused = (NewRuntimeClient ''alice'' ''runtimeAdmin'' ''t'' 60)\<lparr>RollbackE := [SA, ClusterRole]\<rparr>"

definition w_reuse :: world where
  "w_reuse = (empty_world (\<lambda>_. ''tok''))\<lparr>
     service_accounts := [(''kube-system'', ''alice'') \<mapsto> initServiceAccount alice],
     cluster_roles := [''alice'' \<mapsto> initClusterRole ''alice'' ''runtimeAdmin'' ''alice'',
                       ''bob'' \<mapsto> initClusterRole ''bob'' ''runtimeAdmin'' ''bob''],
     faults := (\<lambda>_. [])(TServiceAccount ''kube-system'' ''alice'' := [Some ''down''])\<rparr>"

section \<open>Lemmas\<close>

text \<open>\<open>Run\<close> is its steps followed by the deferred function.\<close>

lemma Run_split: "Run rtc w = (case Run_steps rtc w of (res, rtc', w1) \<Rightarrow> run_exit rtc' w1 res)"
  unfolding Run_def Run_steps_def Let_def
  by (simp split: prod.split option.split sum.split)

lemma Run_steps_user: "Run_steps rtc w = (res, rtc', w1) \<Longrightarrow> User rtc' = User rtc"
  unfolding Run_steps_def Let_def
  by (auto split: prod.splits option.splits sum.splits)

lemma Run_steps_eff: "eff (User rtc) (L2L3OperatiorRole rtc) 12 1 w (snd (snd (Run_steps rtc w)))"
  unfolding Run_steps_def Let_def
  by (auto split: prod.splits option.splits sum.splits
      dest!: create_step_eff [where r = "L2L3OperatiorRole rtc"]
      getServiceAccountToken_eff [where u = "User rtc" and r = "L2L3OperatiorRole rtc"]
      dest: eff_seq2 intro: eff_mono) (fastforce intro: eff_seq)+

text \<open>Deleting an object of the identity is a write \<open>eff\<close> allows.\<close>

lemma del_only_may_write:
  "del_only u w w' \<Longrightarrow>
     may_write (sa_writes u) (service_accounts w) (service_accounts w') \<and>
     may_write (cr_writes u r) (cluster_roles w) (cluster_roles w') \<and>
     may_write (crb_writes u) (cluster_role_bindings w) (cluster_role_bindings w') \<and>
     issued w' = issued w"
  unfolding del_only_def only_deletes_def may_write_def
  by (auto simp: sa_writes_def cr_writes_def crb_writes_def clusterroles_def) (metis option.simps(4))+

text \<open>The scenario: the account lookup fails, so \<open>Run\<close> returns at once with the old ledger.\<close>

lemma Run_steps_reused:
  "Run_steps rtc_reused w_reuse =
   (Inl (Wrapf (WhileCreateServiceAccount ''alice'' ''kube-system'')
           (Wrapf InVerifyServiceAccount (ApiError (Failure ''down'')))),
    rtc_reused, w_reuse\<lparr>journal := [Get (TServiceAccount ''kube-system'' ''alice'')], faults := (\<lambda>_. [])\<rparr>)"
  by (simp add: Run_steps_def createServiceAccount_def verifyServiceAccount_def api_simps obj_get_def
      call_def Let_def NewRuntimeClient_def newSAInfo_def Namespace_const_def empty_world_def
      w_reuse_def rtc_reused_def fun_eq_iff)

section \<open>Properties of Run with concurrent cleanup\<close>

text \<open>
  C29: under every schedule of the cleanup goroutines, \<open>Run\<close> changes only the
  identity's own four objects, each only to absent or to the object the builders
  make for it, and issues at most one token.
\<close>

theorem Run_conc_writes_only_own_objects:
  assumes "Run_conc rtc w (res, rtc', w')"
  shows "may_write (sa_writes (User rtc)) (service_accounts w) (service_accounts w') \<and>
         may_write (cr_writes (User rtc) (L2L3OperatiorRole rtc)) (cluster_roles w) (cluster_roles w') \<and>
         may_write (crb_writes (User rtc)) (cluster_role_bindings w) (cluster_role_bindings w') \<and>
         issued w' \<le> Suc (issued w)"
proof -
  from assms obtain w1 c where s: "Run_steps rtc w = (res, rtc', w1)"
    and r: "(cleaner_step (User rtc'))\<^sup>*\<^sup>* (cleaner_init (User rtc') (RollbackE rtc') w1) c"
    and w': "w' = fst (snd c)"
    by (auto elim: Run_concE)
  have e: "eff (User rtc) (L2L3OperatiorRole rtc) 12 1 w w1"
    using Run_steps_eff [of rtc w] s by simp
  have u: "User rtc' = User rtc" by (rule Run_steps_user [OF s])
  have "del_only (User rtc) w1 w'"
    using cleaner_reach_del_only [OF r cleaner_init_own] w' u by (simp add: cleaner_init_def)
  from del_only_may_write [OF this, of "L2L3OperatiorRole rtc"] e show ?thesis
    by (auto simp: eff_def intro: may_write_trans)
qed

theorem Run_conc_writes_only_own_objects_witness:
  "Run_conc rtc_reused w_reuse
     (Inl (Wrapf (WhileCreateServiceAccount ''alice'' ''kube-system'')
             (Wrapf InVerifyServiceAccount (ApiError (Failure ''down'')))), rtc_reused,
      fst (snd (run_sched alice [1, 0, 1, 0, 1, 0, 1, 0, 1, 0, 1, 0] (cleaner_init alice [SA, ClusterRole]
        (w_reuse\<lparr>journal := [Get (TServiceAccount ''kube-system'' ''alice'')], faults := (\<lambda>_. [])\<rparr>))))) \<and>
   cluster_roles (fst (snd (run_sched alice [1, 0, 1, 0, 1, 0, 1, 0, 1, 0, 1, 0] (cleaner_init alice [SA, ClusterRole]
        (w_reuse\<lparr>journal := [Get (TServiceAccount ''kube-system'' ''alice'')], faults := (\<lambda>_. [])\<rparr>))))) ''bob'' =
     cluster_roles w_reuse ''bob''"
proof -
  let ?w1 = "w_reuse\<lparr>journal := [Get (TServiceAccount ''kube-system'' ''alice'')], faults := (\<lambda>_. [])\<rparr>"
  let ?c = "run_sched alice [1, 0, 1, 0, 1, 0, 1, 0, 1, 0, 1, 0] (cleaner_init alice [SA, ClusterRole] ?w1)"
  have u: "User rtc_reused = alice" "RollbackE rtc_reused = [SA, ClusterRole]"
    by (simp_all add: rtc_reused_def NewRuntimeClient_def)
  have r: "(cleaner_step (User rtc_reused))\<^sup>*\<^sup>* (cleaner_init (User rtc_reused) (RollbackE rtc_reused) ?w1) ?c"
    unfolding u by (rule run_sched_reach)
  have d: "all_done ?c" by (simp add: sched_eval w_reuse_def all_done_def)
  have rc: "Run_conc rtc_reused w_reuse
     (Inl (Wrapf (WhileCreateServiceAccount ''alice'' ''kube-system'')
             (Wrapf InVerifyServiceAccount (ApiError (Failure ''down'')))), rtc_reused, fst (snd ?c))"
    by (rule Run_conc.steps_then_cleanup [OF Run_steps_reused r d])
  have "may_write (cr_writes (User rtc_reused) (L2L3OperatiorRole rtc_reused)) (cluster_roles w_reuse)
          (cluster_roles (fst (snd ?c)))"
    using Run_conc_writes_only_own_objects [OF rc] by blast
  then have "cluster_roles (fst (snd ?c)) ''bob'' = cluster_roles w_reuse ''bob''"
    unfolding may_write_def
    by (drule_tac x = "''bob''" in spec)
       (auto simp: u cr_writes_def newSAInfo_def)
  with rc show ?thesis by simp
qed

end
