(* ===== verification/Cleaner_Select.thy ===== *)
theory Cleaner_Select
  imports Cleanup_Concurrency
begin

text \<open>
  The synchronisation of \<open>Cleaner\<close> around its goroutines (\<open>runtime.go\<close>, lines
  400--446). The state holds the following.
  \<^item> The goroutine configuration of \<open>Cleanup_Concurrency\<close>.
  \<^item> Which ledger entries have called \<open>wg.Done()\<close>, and the \<open>WaitGroup\<close> counter.
  \<^item> Whether the waiter goroutine has closed \<open>errorCh\<close> and \<open>doneCh\<close>.
  \<^item> Whether the receive loop has returned.

  A goroutine calls \<open>wg.Done()\<close> when it has returned, that is after its last
  send; this is the \<open>defer\<close> of each task. The \<open>default\<close> branch calls it at
  once for an entry that starts no goroutine. The waiter closes \<open>errorCh\<close> once
  \<open>wg.Wait()\<close> returns, and then closes \<open>doneCh\<close>. The receive loop takes
  pending sends and returns when it selects \<open>doneCh\<close>. A receive of nil from
  the closed \<open>errorCh\<close> changes nothing, so it is left out.

  The theory proves two things. When the loop returns, every goroutine has
  finished and every error sent has been received. From every reachable state
  the loop can still return, so nothing deadlocks.
\<close>

section \<open>The select loop and the WaitGroup\<close>

record sel_state =
  sel_conf :: cconf
  done_called :: "bool list"
  wg :: nat
  err_closed :: bool
  done_closed :: bool
  returned :: bool

text \<open>
  \<open>wg.Add(len(rtc.RollbackE.Data))\<close>, the two channels, one goroutine per entry.
  An empty ledger returns at once.
\<close>

definition sel_init :: "SAInfo \<Rightarrow> string list \<Rightarrow> world \<Rightarrow> sel_state" where
  "sel_init u ds w =
     \<lparr>sel_conf = cleaner_init u ds w, done_called = replicate (length ds) False, wg = length ds,
      err_closed = False, done_closed = False, returned = (length ds = 0)\<rparr>"

inductive sel_step :: "SAInfo \<Rightarrow> sel_state \<Rightarrow> sel_state \<Rightarrow> bool" for u where
  move: "\<not> returned s \<Longrightarrow> cleaner_step u (sel_conf s) c' \<Longrightarrow> sel_step u s (s\<lparr>sel_conf := c'\<rparr>)"
| wg_done: "i < length (done_called s) \<Longrightarrow> \<not> done_called s ! i \<Longrightarrow> fst (sel_conf s) ! i = (PDone, []) \<Longrightarrow>
     sel_step u s (s\<lparr>done_called := (done_called s)[i := True], wg := wg s - 1\<rparr>)"
| close_err: "wg s = 0 \<Longrightarrow> \<not> err_closed s \<Longrightarrow> sel_step u s (s\<lparr>err_closed := True\<rparr>)"
| close_done: "err_closed s \<Longrightarrow> \<not> done_closed s \<Longrightarrow> sel_step u s (s\<lparr>done_closed := True\<rparr>)"
| select_done: "done_closed s \<Longrightarrow> \<not> returned s \<Longrightarrow> sel_step u s (s\<lparr>returned := True\<rparr>)"

text \<open>The invariant of the reachable states.\<close>

definition sel_inv :: "sel_state \<Rightarrow> bool" where
  "sel_inv s \<longleftrightarrow>
     length (done_called s) = length (fst (sel_conf s)) \<and>
     wg s = length (filter Not (done_called s)) \<and>
     (\<forall>i < length (done_called s). done_called s ! i \<longrightarrow> fst (sel_conf s) ! i = (PDone, [])) \<and>
     (err_closed s \<longrightarrow> wg s = 0) \<and> (done_closed s \<longrightarrow> err_closed s) \<and>
     (returned s \<longrightarrow> done_closed s \<or> fst (sel_conf s) = [])"

section \<open>Lemmas\<close>

lemma filter_Not_empty: "length (filter Not xs) = 0 \<Longrightarrow> i < length xs \<Longrightarrow> xs ! i"
  by (metis filter_empty_conv length_0_conv nth_mem)

lemma filter_Not_pos: "i < length xs \<Longrightarrow> \<not> xs ! i \<Longrightarrow> 0 < length (filter Not xs)"
  by (metis filter_Not_empty neq0_conv)

lemma filter_Not_ex: "0 < length (filter Not xs) \<Longrightarrow> \<exists>i < length xs. \<not> xs ! i"
  by (auto simp: filter_empty_conv in_set_conv_nth)

lemma filter_Not_update:
  "i < length xs \<Longrightarrow> \<not> xs ! i \<Longrightarrow> length (filter Not (xs[i := True])) = length (filter Not xs) - 1"
proof (induction xs arbitrary: i)
  case (Cons a xs)
  show ?case
  proof (cases i)
    case 0 then show ?thesis using Cons.prems by simp
  next
    case (Suc j)
    then have "0 < length (filter Not xs)" using Cons.prems filter_Not_pos [of j xs] by simp
    then show ?thesis using Cons.prems Cons.IH [of j] Suc by simp
  qed
qed simp

text \<open>A goroutine that has returned makes no move; the other goroutines keep their place.\<close>

lemma cleaner_step_shape:
  assumes "cleaner_step u (ps, w, r) (ps', w', r')"
  shows "length ps' = length ps \<and> (\<forall>j < length ps. ps ! j = (PDone, []) \<longrightarrow> ps' ! j = (PDone, []))"
  using assms
proof cases
  case (pick i q')
  then have "ps ! i \<noteq> (PDone, [])" by (metis proc_step_done)
  with pick show ?thesis by (auto simp: nth_list_update)
qed

lemma sel_inv_init: "sel_inv (sel_init u ds w)"
  by (simp add: sel_inv_def sel_init_def cleaner_init_def)

lemma sel_inv_step: "sel_step u s s' \<Longrightarrow> sel_inv s \<Longrightarrow> sel_inv s'"
proof (induction rule: sel_step.induct)
  case (move s c')
  obtain ps w r where c: "sel_conf s = (ps, w, r)" by (cases "sel_conf s") auto
  obtain ps' w' r' where c': "c' = (ps', w', r')" by (cases c') auto
  from move(2) c c' have "length ps' = length ps \<and> (\<forall>j < length ps. ps ! j = (PDone, []) \<longrightarrow> ps' ! j = (PDone, []))"
    by (intro cleaner_step_shape) simp
  with move(3) c c' show ?case by (auto simp: sel_inv_def)
next
  case (wg_done i s)
  then show ?case by (auto simp: sel_inv_def filter_Not_update nth_list_update)
qed (auto simp: sel_inv_def)

lemma sel_inv_reach: "(sel_step u)\<^sup>*\<^sup>* (sel_init u ds w) s \<Longrightarrow> sel_inv s"
  by (induction rule: rtranclp_induct) (auto intro: sel_inv_init sel_inv_step)

lemma sel_inv_wg_zero: "sel_inv s \<Longrightarrow> wg s = 0 \<Longrightarrow> all_done (sel_conf s)"
  unfolding sel_inv_def all_done_def list_all_length by (metis filter_Not_empty)

text \<open>Moves of the goroutines lift to the full state while the loop runs.\<close>

lemma sel_lift:
  "(cleaner_step u)\<^sup>*\<^sup>* c c' \<Longrightarrow> \<not> returned s \<Longrightarrow>
     (sel_step u)\<^sup>*\<^sup>* (s\<lparr>sel_conf := c\<rparr>) (s\<lparr>sel_conf := c'\<rparr>)"
proof (induction rule: rtranclp_induct)
  case (step c1 c2)
  have "sel_step u (s\<lparr>sel_conf := c1\<rparr>) (s\<lparr>sel_conf := c1\<rparr>\<lparr>sel_conf := c2\<rparr>)"
    using step by (intro sel_step.move) simp_all
  with step show ?case by simp
qed simp

text \<open>While the loop runs, the goroutines can all be run to their end.\<close>

lemma sel_drain:
  "\<not> returned s \<Longrightarrow> \<exists>c. (sel_step u)\<^sup>*\<^sup>* s (s\<lparr>sel_conf := c\<rparr>) \<and> all_done c"
proof (induction "conf_weight (sel_conf s)" arbitrary: s rule: less_induct)
  case less
  show ?case
  proof (cases "all_done (sel_conf s)")
    case True
    then show ?thesis by (intro exI [of _ "sel_conf s"]) simp
  next
    case False
    then obtain c' where st: "cleaner_step u (sel_conf s) c'" using cleaner_progress by blast
    have w: "conf_weight c' < conf_weight (sel_conf s)" by (rule cleaner_step_weight [OF st])
    have s1: "sel_step u s (s\<lparr>sel_conf := c'\<rparr>)" using less.prems st by (rule sel_step.move)
    obtain c where r: "(sel_step u)\<^sup>*\<^sup>* (s\<lparr>sel_conf := c'\<rparr>) (s\<lparr>sel_conf := c'\<rparr>\<lparr>sel_conf := c\<rparr>)" and d: "all_done c"
      using less.hyps [of "s\<lparr>sel_conf := c'\<rparr>"] w less.prems by auto
    have "(sel_step u)\<^sup>*\<^sup>* s (s\<lparr>sel_conf := c\<rparr>)" using converse_rtranclp_into_rtranclp [OF s1 r] by simp
    with d show ?thesis by blast
  qed
qed

text \<open>Once all goroutines are done, every pending \<open>wg.Done()\<close> can be called.\<close>

lemma sel_wg_drain:
  "sel_inv s \<Longrightarrow> all_done (sel_conf s) \<Longrightarrow>
     \<exists>s'. (sel_step u)\<^sup>*\<^sup>* s s' \<and> sel_inv s' \<and> wg s' = 0 \<and> returned s' = returned s"
proof (induction "wg s" arbitrary: s)
  case 0
  then show ?case by (intro exI [of _ s]) simp
next
  case (Suc n)
  have inv: "sel_inv s" and ad: "all_done (sel_conf s)" by fact+
  have "wg s = length (filter Not (done_called s))" using inv unfolding sel_inv_def by blast
  then have "0 < length (filter Not (done_called s))" using Suc.hyps(2) by linarith
  then obtain i where i: "i < length (done_called s)" and nd: "\<not> done_called s ! i"
    using filter_Not_ex by blast
  have len: "length (done_called s) = length (fst (sel_conf s))"
    using inv unfolding sel_inv_def by simp
  have pd: "fst (sel_conf s) ! i = (PDone, [])"
    using ad i len unfolding all_done_def list_all_length by simp
  let ?s1 = "s\<lparr>done_called := (done_called s)[i := True], wg := wg s - 1\<rparr>"
  have st: "sel_step u s ?s1" using i nd pd by (rule sel_step.wg_done)
  have inv1: "sel_inv ?s1" by (rule sel_inv_step [OF st inv])
  have "n = wg ?s1" using Suc.hyps(2) by simp
  moreover have "all_done (sel_conf ?s1)" using ad by simp
  ultimately obtain s' where r: "(sel_step u)\<^sup>*\<^sup>* ?s1 s'" and p: "sel_inv s' \<and> wg s' = 0 \<and> returned s' = returned s"
    using Suc.hyps(1) [of ?s1] inv1 by auto
  show ?case using converse_rtranclp_into_rtranclp [OF st r] p by blast
qed

text \<open>With every \<open>wg.Done()\<close> called, the waiter closes both channels and the loop returns.\<close>

lemma sel_finish:
  assumes "sel_inv s" "wg s = 0"
  shows "\<exists>s'. (sel_step u)\<^sup>*\<^sup>* s s' \<and> returned s'"
proof -
  let ?s1 = "if err_closed s then s else s\<lparr>err_closed := True\<rparr>"
  have r1: "(sel_step u)\<^sup>*\<^sup>* s ?s1 \<and> err_closed ?s1 \<and> returned ?s1 = returned s"
    using assms(2) by (auto intro: sel_step.close_err)
  let ?s2 = "if done_closed ?s1 then ?s1 else ?s1\<lparr>done_closed := True\<rparr>"
  have r2: "(sel_step u)\<^sup>*\<^sup>* ?s1 ?s2 \<and> done_closed ?s2 \<and> returned ?s2 = returned s"
  proof (cases "done_closed ?s1")
    case False
    have "sel_step u ?s1 (?s1\<lparr>done_closed := True\<rparr>)"
      using r1 False by (intro sel_step.close_done) simp_all
    then show ?thesis using r1 False by simp
  qed (use r1 in simp)
  have r3: "\<exists>s3. (sel_step u)\<^sup>*\<^sup>* ?s2 s3 \<and> returned s3"
  proof (cases "returned ?s2")
    case True
    then show ?thesis by blast
  next
    case False
    have "sel_step u ?s2 (?s2\<lparr>returned := True\<rparr>)"
      using r2 False by (intro sel_step.select_done) simp_all
    then show ?thesis by (intro exI [of _ "?s2\<lparr>returned := True\<rparr>"]) simp
  qed
  then show ?thesis
    using rtranclp_trans [OF conjunct1 [OF r1] conjunct1 [OF r2]] by (meson rtranclp_trans)
qed

lemma sel_inv_rtc: "(sel_step u)\<^sup>*\<^sup>* s s' \<Longrightarrow> sel_inv s \<Longrightarrow> sel_inv s'"
  by (induction rule: rtranclp_induct) (auto intro: sel_inv_step)

lemma sel_can_return:
  assumes "sel_inv s"
  shows "\<exists>s'. (sel_step u)\<^sup>*\<^sup>* s s' \<and> returned s'"
proof (cases "returned s")
  case False
  then obtain c where r1: "(sel_step u)\<^sup>*\<^sup>* s (s\<lparr>sel_conf := c\<rparr>)" and d: "all_done c"
    using sel_drain by blast
  have i1: "sel_inv (s\<lparr>sel_conf := c\<rparr>)" by (rule sel_inv_rtc [OF r1 assms])
  obtain s2 where r2: "(sel_step u)\<^sup>*\<^sup>* (s\<lparr>sel_conf := c\<rparr>) s2" and i2: "sel_inv s2" and z: "wg s2 = 0"
    using sel_wg_drain [OF i1] d by auto
  obtain s3 where "(sel_step u)\<^sup>*\<^sup>* s2 s3" "returned s3" using sel_finish [OF i2 z] by blast
  then show ?thesis using rtranclp_trans [OF r1 r2] by (meson rtranclp_trans)
qed blast

section \<open>The receive loop returns, and only when everything is done\<close>

text \<open>
  C15: when the receive loop of \<open>Cleaner\<close> returns, under any interleaving of the
  goroutines, the waiter and the loop, every goroutine has finished and every error
  it sent has been received by the loop (\<open>all_done\<close>: each process is done with an
  empty outbox). The loop never returns while a deletion is still running.
\<close>

theorem Cleaner_returns_after_all_done:
  "(sel_step u)\<^sup>*\<^sup>* (sel_init u ds w) s \<Longrightarrow> returned s \<Longrightarrow> all_done (sel_conf s)"
proof -
  assume r: "(sel_step u)\<^sup>*\<^sup>* (sel_init u ds w) s" and ret: "returned s"
  have i: "sel_inv s" by (rule sel_inv_reach [OF r])
  show ?thesis
  proof (cases "fst (sel_conf s) = []")
    case True
    then show ?thesis by (simp add: all_done_def)
  next
    case False
    then have "wg s = 0" using i ret unfolding sel_inv_def by blast
    then show ?thesis by (rule sel_inv_wg_zero [OF i])
  qed
qed

theorem Cleaner_returns_after_all_done_witness:
  "(sel_step alice)\<^sup>*\<^sup>* (sel_init alice [SA, ClusterRole] w_one)
     ((sel_init alice [SA, ClusterRole] w_one)\<lparr>
        sel_conf := run_sched alice [1, 0, 0, 0] (cleaner_init alice [SA, ClusterRole] w_one),
        done_called := [True, True], wg := 0, err_closed := True, done_closed := True, returned := True\<rparr>) \<and>
   all_done (run_sched alice [1, 0, 0, 0] (cleaner_init alice [SA, ClusterRole] w_one)) \<and>
   snd (snd (run_sched alice [1, 0, 0, 0] (cleaner_init alice [SA, ClusterRole] w_one))) =
     [ApiError (Failure ''x'')]"
proof -
  let ?s0 = "sel_init alice [SA, ClusterRole] w_one"
  let ?c = "run_sched alice [1, 0, 0, 0] (cleaner_init alice [SA, ClusterRole] w_one)"
  have fc: "fst ?c = [(PDone, []), (PDone, [])]" by (simp add: sched_eval w_one_def)
  have ec: "snd (snd ?c) = [ApiError (Failure ''x'')]" by (simp add: sched_eval w_one_def)
  have r1: "(sel_step alice)\<^sup>*\<^sup>* ?s0 (?s0\<lparr>sel_conf := ?c\<rparr>)"
    using sel_lift [OF run_sched_reach [of alice "cleaner_init alice [SA, ClusterRole] w_one" "[1, 0, 0, 0]"], where s = ?s0]
    by (simp add: sel_init_def)
  let ?s1 = "?s0\<lparr>sel_conf := ?c\<rparr>"
  have t1: "sel_step alice ?s1 (?s1\<lparr>done_called := (done_called ?s1)[0 := True], wg := wg ?s1 - 1\<rparr>)"
    using fc by (intro sel_step.wg_done) (simp_all add: sel_init_def)
  let ?s2 = "?s1\<lparr>done_called := [True, False], wg := 1\<rparr>"
  have t2: "sel_step alice ?s2 (?s2\<lparr>done_called := (done_called ?s2)[1 := True], wg := wg ?s2 - 1\<rparr>)"
    using fc by (intro sel_step.wg_done) simp_all
  let ?s3 = "?s1\<lparr>done_called := [True, True], wg := 0\<rparr>"
  have t3: "sel_step alice ?s3 (?s3\<lparr>err_closed := True\<rparr>)"
    by (intro sel_step.close_err) (simp_all add: sel_init_def)
  have t4: "sel_step alice (?s3\<lparr>err_closed := True\<rparr>) (?s3\<lparr>err_closed := True, done_closed := True\<rparr>)"
    by (rule sel_step.close_done) (simp_all add: sel_init_def)
  have t5: "sel_step alice (?s3\<lparr>err_closed := True, done_closed := True\<rparr>)
              (?s3\<lparr>err_closed := True, done_closed := True, returned := True\<rparr>)"
    by (rule sel_step.select_done) (simp_all add: sel_init_def)
  have e2: "?s1\<lparr>done_called := (done_called ?s1)[0 := True], wg := wg ?s1 - 1\<rparr> = ?s2"
    by (simp add: sel_init_def)
  have e3: "?s2\<lparr>done_called := (done_called ?s2)[1 := True], wg := wg ?s2 - 1\<rparr> = ?s3" by simp
  have r: "(sel_step alice)\<^sup>*\<^sup>* ?s0 (?s3\<lparr>err_closed := True, done_closed := True, returned := True\<rparr>)"
    using r1 t1 t2 t3 t4 t5 unfolding e2 e3
    by (meson rtranclp.rtrancl_into_rtrancl)
  have "returned (?s3\<lparr>err_closed := True, done_closed := True, returned := True\<rparr>)" by simp
  then have "all_done ?c"
    using Cleaner_returns_after_all_done [OF r] by simp
  then show ?thesis using r ec by simp
qed

text \<open>
  C16: the receive loop cannot deadlock. From every state reachable from the start
  of \<open>Cleaner\<close>, whatever the ledger and the store, some continuation of the
  goroutines, the waiter and the loop makes \<open>Cleaner\<close> return.
\<close>

theorem Cleaner_can_always_return:
  "(sel_step u)\<^sup>*\<^sup>* (sel_init u ds w) s \<Longrightarrow> \<exists>s'. (sel_step u)\<^sup>*\<^sup>* s s' \<and> returned s'"
  by (rule sel_can_return [OF sel_inv_reach])

theorem Cleaner_can_always_return_witness:
  "\<exists>s'. (sel_step alice)\<^sup>*\<^sup>*
          ((sel_init alice [SA, ClusterRole] w_one)\<lparr>
             sel_conf := run_sched alice [1] (cleaner_init alice [SA, ClusterRole] w_one)\<rparr>) s' \<and>
        returned s'"
proof -
  let ?s0 = "sel_init alice [SA, ClusterRole] w_one"
  have r: "(sel_step alice)\<^sup>*\<^sup>* ?s0
      (?s0\<lparr>sel_conf := run_sched alice [1] (cleaner_init alice [SA, ClusterRole] w_one)\<rparr>)"
    using sel_lift [OF run_sched_reach [of alice "cleaner_init alice [SA, ClusterRole] w_one" "[1]"], where s = ?s0]
    by (simp add: sel_init_def)
  show ?thesis by (rule Cleaner_can_always_return [OF r])
qed

end
