(* ===== verification/Testify_Mocks.thy ===== *)
theory Testify_Mocks
  imports Prelude
begin

text \<open>
  The two generated test doubles of \<open>src/\<close>.
  \<^item> \<open>Strategy\<close>, in
    \<open>kyma-environment-broker/common/orchestration/automock/strategy.go\<close>, has the
    methods \<open>Execute\<close> and \<open>Wait\<close>.
  \<^item> \<open>GqlFieldsProvider\<close>, in
    \<open>connectivity-adapter/internal/appregistry/service/automock/gql_fields_provider.go\<close>,
    has the methods \<open>ForApplication\<close> (variadic) and \<open>Page\<close>.

  Both embed \<open>mock.Mock\<close> of \<open>github.com/stretchr/testify\<close>. That type is not under
  \<open>src/\<close>, so it is modelled from testify's semantics.
  \<^item> \<open>On(method, args...).Return(rets...)\<close> appends an expectation.
  \<^item> \<open>Times(n)\<close> and \<open>Once()\<close> bound how often the expectation answers.
  \<^item> \<open>Called\<close> takes the first expectation whose method and arguments match and
    whose repeat count is not used up. It records the call and returns the
    expectation's return values. When no expectation matches, the mock fails the
    test with a panic.

  A Go \<open>interface{}\<close> argument is a value of the type parameter \<open>'a\<close>. A return
  value is a \<open>gret\<close>, the dynamic types the generated code distinguishes: a
  string, an error, \<open>nil\<close>, or a function computing the result from the call's
  arguments. A panic is the left value of the result.
\<close>

section \<open>testify's mock.Mock\<close>

text \<open>An expected argument: \<open>mock.Anything\<close> or a value compared by equality.\<close>

datatype 'a argm = Anything | Is 'a

datatype 'a gret =
    RString string
  | RError string
  | RNil
  | RFunS "'a list \<Rightarrow> string"
  | RFunE "'a list \<Rightarrow> string option"

text \<open>
  \<open>mock.Call\<close>: the method, the expected arguments, the return values, the
  repeat count (\<open>0\<close> answers any number of calls, \<open>n > 0\<close> answers \<open>n\<close> more,
  \<open>-1\<close> is used up) and the number of calls answered.
\<close>

record 'a expectation =
  EMethod :: string
  EArgs :: "'a argm list"
  EReturns :: "'a gret list"
  ERepeatability :: int
  ETotalCalls :: nat

record 'a Mock =
  ExpectedCalls :: "'a expectation list"
  Calls :: "(string \<times> 'a list) list"

datatype mock_panic =
    UnexpectedCall string
  | CalledOverTimes string
  | GetOutOfRange nat
  | WrongType nat

definition empty_mock :: "'a Mock" where
  "empty_mock = \<lparr>ExpectedCalls = [], Calls = []\<rparr>"

text \<open>\<open>m.On(method, args...).Return(rets...)\<close>, then \<open>.Times(n)\<close> on the last one.\<close>

definition On_Return :: "string \<Rightarrow> 'a argm list \<Rightarrow> 'a gret list \<Rightarrow> 'a Mock \<Rightarrow> 'a Mock" where
  "On_Return m args rets mk =
     mk\<lparr>ExpectedCalls := ExpectedCalls mk @
        [\<lparr>EMethod = m, EArgs = args, EReturns = rets, ERepeatability = 0, ETotalCalls = 0\<rparr>]\<rparr>"

definition Times :: "int \<Rightarrow> 'a Mock \<Rightarrow> 'a Mock" where
  "Times n mk =
     (case rev (ExpectedCalls mk) of
        [] \<Rightarrow> mk
      | c # cs \<Rightarrow> mk\<lparr>ExpectedCalls := rev cs @ [c\<lparr>ERepeatability := n\<rparr>]\<rparr>)"

text \<open>\<open>Arguments.Diff\<close> reports no difference.\<close>

fun arg_matches :: "'a argm \<Rightarrow> 'a \<Rightarrow> bool" where
  "arg_matches Anything _ = True"
| "arg_matches (Is x) y = (x = y)"

definition args_match :: "'a argm list \<Rightarrow> 'a list \<Rightarrow> bool" where
  "args_match es xs = list_all2 arg_matches es xs"

text \<open>
  \<open>findExpectedCall\<close>: the index of the first expectation of the method whose
  arguments match and whose repeat count is above \<open>-1\<close>; otherwise no index,
  and whether a matching but used-up expectation was seen.
\<close>

fun find_expected :: "string \<Rightarrow> 'a list \<Rightarrow> nat \<Rightarrow> 'a expectation list \<Rightarrow> bool \<Rightarrow> nat option \<times> bool" where
  "find_expected m args i [] seen = (None, seen)"
| "find_expected m args i (c # cs) seen =
     (if EMethod c = m \<and> args_match (EArgs c) args then
        (if ERepeatability c > -1 then (Some i, True) else find_expected m args (Suc i) cs True)
      else find_expected m args (Suc i) cs seen)"

definition findExpectedCall :: "string \<Rightarrow> 'a list \<Rightarrow> 'a Mock \<Rightarrow> nat option \<times> bool" where
  "findExpectedCall m args mk = find_expected m args 0 (ExpectedCalls mk) False"

text \<open>The repeat count after one answered call.\<close>

definition next_repeat :: "int \<Rightarrow> int" where
  "next_repeat r = (if r = 1 then -1 else if r > 1 then r - 1 else r)"

text \<open>
  \<open>Mock.Called\<close> (through \<open>MethodCalled\<close>): panic on an unexpected or used-up
  call; otherwise count the call on the expectation, record it, return the
  expectation's values.
\<close>

definition Called :: "string \<Rightarrow> 'a list \<Rightarrow> 'a Mock \<Rightarrow> (mock_panic + 'a gret list) \<times> 'a Mock" where
  "Called m args mk =
     (case findExpectedCall m args mk of
        (None, True) \<Rightarrow> (Inl (CalledOverTimes m), mk)
      | (None, False) \<Rightarrow> (Inl (UnexpectedCall m), mk)
      | (Some i, _) \<Rightarrow>
          (let c = ExpectedCalls mk ! i;
               c' = c\<lparr>ERepeatability := next_repeat (ERepeatability c), ETotalCalls := Suc (ETotalCalls c)\<rparr>
           in (Inr (EReturns c),
               mk\<lparr>ExpectedCalls := (ExpectedCalls mk)[i := c'], Calls := Calls mk @ [(m, args)]\<rparr>)))"

text \<open>\<open>Arguments.Get(i)\<close> and \<open>Arguments.Error(i)\<close>.\<close>

definition args_Get :: "'a gret list \<Rightarrow> nat \<Rightarrow> mock_panic + 'a gret" where
  "args_Get rets i = (if i < length rets then Inr (rets ! i) else Inl (GetOutOfRange i))"

definition args_Error :: "'a gret list \<Rightarrow> nat \<Rightarrow> mock_panic + string option" where
  "args_Error rets i =
     (case args_Get rets i of
        Inl p \<Rightarrow> Inl p
      | Inr RNil \<Rightarrow> Inr None
      | Inr (RError e) \<Rightarrow> Inr (Some e)
      | Inr _ \<Rightarrow> Inl (WrongType i))"

section \<open>The generated return decoding\<close>

text \<open>
  The pattern mockery generates for a string result:
  \<open>if rf, ok := ret.Get(i).(func(...) string); ok { r = rf(args...) } else { r = ret.Get(i).(string) }\<close>.
\<close>

definition ret_string :: "'a gret list \<Rightarrow> nat \<Rightarrow> 'a list \<Rightarrow> mock_panic + string" where
  "ret_string rets i args =
     (case args_Get rets i of
        Inl p \<Rightarrow> Inl p
      | Inr (RFunS rf) \<Rightarrow> Inr (rf args)
      | Inr (RString s) \<Rightarrow> Inr s
      | Inr _ \<Rightarrow> Inl (WrongType i))"

text \<open>The same for an error result, whose fallback is \<open>ret.Error(i)\<close>.\<close>

definition ret_error :: "'a gret list \<Rightarrow> nat \<Rightarrow> 'a list \<Rightarrow> mock_panic + string option" where
  "ret_error rets i args =
     (case args_Get rets i of
        Inl p \<Rightarrow> Inl p
      | Inr (RFunE rf) \<Rightarrow> Inr (rf args)
      | Inr _ \<Rightarrow> args_Error rets i)"

section \<open>Strategy (strategy.go)\<close>

text \<open>The arguments \<open>Strategy\<close>'s methods pass to \<open>Called\<close>.\<close>

datatype ('op, 'sp) strategy_arg = SOperations "'op list" | SStrategySpec 'sp | SExecutionID string

type_synonym ('op, 'sp) Strategy = "('op, 'sp) strategy_arg Mock"

definition Strategy_Execute ::
  "'op list \<Rightarrow> 'sp \<Rightarrow> ('op, 'sp) Strategy \<Rightarrow> (mock_panic + string \<times> string option) \<times> ('op, 'sp) Strategy" where
  "Strategy_Execute operations strategySpec mk =
     (let args = [SOperations operations, SStrategySpec strategySpec] in
      case Called ''Execute'' args mk of
        (Inl p, mk1) \<Rightarrow> (Inl p, mk1)
      | (Inr ret, mk1) \<Rightarrow>
          (case ret_string ret 0 args of
             Inl p \<Rightarrow> (Inl p, mk1)
           | Inr r0 \<Rightarrow>
               (case ret_error ret 1 args of
                  Inl p \<Rightarrow> (Inl p, mk1)
                | Inr r1 \<Rightarrow> (Inr (r0, r1), mk1))))"

definition Strategy_Wait :: "string \<Rightarrow> ('op, 'sp) Strategy \<Rightarrow> (mock_panic + unit) \<times> ('op, 'sp) Strategy" where
  "Strategy_Wait executionID mk =
     (case Called ''Wait'' [SExecutionID executionID] mk of
        (Inl p, mk1) \<Rightarrow> (Inl p, mk1)
      | (Inr _, mk1) \<Rightarrow> (Inr (), mk1))"

section \<open>GqlFieldsProvider (gql_fields_provider.go)\<close>

datatype 'ctx gql_arg = GFieldCtx 'ctx | GItem string

type_synonym 'ctx GqlFieldsProvider = "'ctx gql_arg Mock"

text \<open>
  The copy of the variadic \<open>ctx\<close> into \<open>[]interface{}\<close>, element by element, as
  the generated loop does it.
\<close>

fun pack_va :: "'ctx list \<Rightarrow> 'ctx gql_arg list" where
  "pack_va [] = []"
| "pack_va (c # cs) = GFieldCtx c # pack_va cs"

definition GqlFieldsProvider_ForApplication ::
  "'ctx list \<Rightarrow> 'ctx GqlFieldsProvider \<Rightarrow> (mock_panic + string) \<times> 'ctx GqlFieldsProvider" where
  "GqlFieldsProvider_ForApplication ctx mk =
     (let va = pack_va ctx; ca = [] @ va in
      case Called ''ForApplication'' ca mk of
        (Inl p, mk1) \<Rightarrow> (Inl p, mk1)
      | (Inr ret, mk1) \<Rightarrow> (ret_string ret 0 ca, mk1))"

definition GqlFieldsProvider_Page ::
  "string \<Rightarrow> 'ctx GqlFieldsProvider \<Rightarrow> (mock_panic + string) \<times> 'ctx GqlFieldsProvider" where
  "GqlFieldsProvider_Page item mk =
     (case Called ''Page'' [GItem item] mk of
        (Inl p, mk1) \<Rightarrow> (Inl p, mk1)
      | (Inr ret, mk1) \<Rightarrow> (ret_string ret 0 [GItem item], mk1))"

text \<open>
  A test harness, not code of \<open>src/\<close>: \<open>k\<close> successive calls of \<open>Page item\<close>, and
  the mock an \<open>On("Page", item).Return(s)\<close> expectation with repeat count \<open>r\<close>
  and \<open>t\<close> answered calls leaves.
\<close>

fun page_calls :: "nat \<Rightarrow> string \<Rightarrow> 'ctx GqlFieldsProvider \<Rightarrow> (mock_panic + string) list \<times> 'ctx GqlFieldsProvider" where
  "page_calls 0 item mk = ([], mk)"
| "page_calls (Suc k) item mk =
     (case GqlFieldsProvider_Page item mk of
        (r, mk1) \<Rightarrow> (case page_calls k item mk1 of (rs, mk2) \<Rightarrow> (r # rs, mk2)))"

definition page_mock :: "string \<Rightarrow> string \<Rightarrow> int \<Rightarrow> nat \<Rightarrow> (string \<times> 'ctx gql_arg list) list \<Rightarrow> 'ctx GqlFieldsProvider" where
  "page_mock item s r t cs =
     \<lparr>ExpectedCalls = [\<lparr>EMethod = ''Page'', EArgs = [Is (GItem item)], EReturns = [RString s],
                        ERepeatability = r, ETotalCalls = t\<rparr>], Calls = cs\<rparr>"

section \<open>Lemmas on the expectation table\<close>

lemma args_match_Is [simp]: "args_match (map Is xs) xs"
  by (induction xs) (simp_all add: args_match_def)

lemma pack_va_map: "pack_va ctx = map GFieldCtx ctx"
  by (induction ctx) simp_all

text \<open>Expectations that do not match are skipped.\<close>

lemma find_expected_skip:
  "\<forall>c \<in> set cs. \<not> (EMethod c = m \<and> args_match (EArgs c) args) \<Longrightarrow>
   find_expected m args i (cs @ ds) seen = find_expected m args (i + length cs) ds seen"
  by (induction cs arbitrary: i) auto

lemma find_expected_none:
  "\<forall>c \<in> set cs. EMethod c \<noteq> m \<Longrightarrow> find_expected m args i cs seen = (None, seen)"
  by (induction cs arbitrary: i) simp_all

lemma findExpectedCall_none:
  "\<forall>c \<in> set (ExpectedCalls mk). EMethod c \<noteq> m \<Longrightarrow> findExpectedCall m args mk = (None, False)"
  using find_expected_none by (simp add: findExpectedCall_def)

lemma Called_On_Return:
  assumes "\<forall>c \<in> set (ExpectedCalls mk). \<not> (EMethod c = m \<and> args_match (EArgs c) args)"
    and "args_match es args"
  shows "Called m args (On_Return m es rets mk) =
     (Inr rets, mk\<lparr>ExpectedCalls := ExpectedCalls mk @
        [\<lparr>EMethod = m, EArgs = es, EReturns = rets, ERepeatability = 0, ETotalCalls = 1\<rparr>],
        Calls := Calls mk @ [(m, args)]\<rparr>)"
  using assms find_expected_skip [OF assms(1), of 0]
  by (simp add: Called_def On_Return_def findExpectedCall_def Let_def next_repeat_def)

lemma Page_page_mock:
  "0 < r \<Longrightarrow> GqlFieldsProvider_Page item (page_mock item s r t cs) =
     (Inr s, page_mock item s (next_repeat r) (Suc t) (cs @ [(''Page'', [GItem item])]))"
  "GqlFieldsProvider_Page item (page_mock item s (-1) t cs) = (Inl (CalledOverTimes ''Page''), page_mock item s (-1) t cs)"
  by (simp_all add: GqlFieldsProvider_Page_def Called_def findExpectedCall_def page_mock_def
      args_match_def ret_string_def args_Get_def)

lemma page_calls_page_mock:
  "0 < n \<Longrightarrow> page_calls (Suc n) item (page_mock item s (int n) t cs) =
     (replicate n (Inr s) @ [Inl (CalledOverTimes ''Page'')],
      page_mock item s (-1) (t + n) (cs @ replicate n (''Page'', [GItem item])))"
proof (induction n arbitrary: t cs)
  case (Suc n)
  show ?case
  proof (cases "n = 0")
    case True then show ?thesis by (simp add: Page_page_mock next_repeat_def)
  next
    case False
    have "next_repeat (int (Suc n)) = int n" using False by (simp add: next_repeat_def)
    then show ?thesis
      using Suc.IH [of "Suc t" "cs @ [(''Page'', [GItem item])]"] False
      by (simp add: Page_page_mock replicate_append_same)
  qed
qed simp

section \<open>Properties of the mocks\<close>

text \<open>
  C22: an expectation set with \<open>On("Execute", ops, spec).Return(s, nil)\<close> answers
  the matching call: \<open>Execute\<close> returns \<open>(s, nil)\<close>, counts the call on that
  expectation and records it, provided no earlier expectation matches it.
\<close>

theorem Strategy_Execute_roundtrip:
  assumes "\<forall>c \<in> set (ExpectedCalls mk).
             \<not> (EMethod c = ''Execute'' \<and> args_match (EArgs c) [SOperations ops, SStrategySpec sp])"
  shows "Strategy_Execute ops sp
           (On_Return ''Execute'' [Is (SOperations ops), Is (SStrategySpec sp)] [RString s, RNil] mk) =
         (Inr (s, None),
          mk\<lparr>ExpectedCalls := ExpectedCalls mk @
               [\<lparr>EMethod = ''Execute'', EArgs = [Is (SOperations ops), Is (SStrategySpec sp)],
                 EReturns = [RString s, RNil], ERepeatability = 0, ETotalCalls = 1\<rparr>],
             Calls := Calls mk @ [(''Execute'', [SOperations ops, SStrategySpec sp])]\<rparr>)"
proof -
  have "args_match [Is (SOperations ops), Is (SStrategySpec sp)] [SOperations ops, SStrategySpec sp]"
    using args_match_Is [of "[SOperations ops, SStrategySpec sp]"] by simp
  then show ?thesis
    using Called_On_Return [OF assms]
    by (simp add: Strategy_Execute_def ret_string_def ret_error_def args_Get_def args_Error_def)
qed

theorem Strategy_Execute_roundtrip_witness:
  "fst (Strategy_Execute [1 :: nat, 2] ''canary''
      (On_Return ''Execute'' [Is (SOperations [1, 2]), Is (SStrategySpec ''canary'')] [RString ''exec-1'', RNil]
         empty_mock)) = Inr (''exec-1'', None)"
proof -
  have "\<forall>c \<in> set (ExpectedCalls (empty_mock :: (nat, string) Strategy)).
          \<not> (EMethod c = ''Execute'' \<and> args_match (EArgs c) [SOperations [1, 2], SStrategySpec ''canary''])"
    by (simp add: empty_mock_def)
  from Strategy_Execute_roundtrip [OF this, of "''exec-1''"] show ?thesis by simp
qed

text \<open>
  C23: \<open>ForApplication\<close> hands the variadic \<open>ctx\<close> to \<open>Called\<close> as it came:
  an expectation on exactly those values is found, its function return value
  is applied to them, and the recorded call holds them.
\<close>

theorem GqlFieldsProvider_ForApplication_roundtrip:
  assumes "\<forall>c \<in> set (ExpectedCalls mg).
             \<not> (EMethod c = ''ForApplication'' \<and> args_match (EArgs c) (map GFieldCtx ctx))"
  shows "GqlFieldsProvider_ForApplication ctx
           (On_Return ''ForApplication'' (map Is (map GFieldCtx ctx)) [RFunS f] mg) =
         (Inr (f (map GFieldCtx ctx)),
          mg\<lparr>ExpectedCalls := ExpectedCalls mg @
               [\<lparr>EMethod = ''ForApplication'', EArgs = map Is (map GFieldCtx ctx),
                 EReturns = [RFunS f], ERepeatability = 0, ETotalCalls = 1\<rparr>],
             Calls := Calls mg @ [(''ForApplication'', map GFieldCtx ctx)]\<rparr>)"
  using Called_On_Return [OF assms args_match_Is]
  by (simp add: GqlFieldsProvider_ForApplication_def pack_va_map ret_string_def args_Get_def Let_def)

theorem GqlFieldsProvider_ForApplication_roundtrip_witness:
  "fst (GqlFieldsProvider_ForApplication [''id'', ''name'']
      (On_Return ''ForApplication'' (map Is (map GFieldCtx [''id'', ''name''])) [RFunS (\<lambda>xs. ''{'' @ replicate (length xs) (CHR ''f'') @ ''}'')]
         empty_mock)) = Inr ''{ff}''"
proof -
  have "\<forall>c \<in> set (ExpectedCalls (empty_mock :: string GqlFieldsProvider)).
          \<not> (EMethod c = ''ForApplication'' \<and> args_match (EArgs c) (map GFieldCtx [''id'', ''name'']))"
    by (simp add: empty_mock_def)
  from GqlFieldsProvider_ForApplication_roundtrip [OF this] show ?thesis by simp
qed

text \<open>
  C24: a call of a method no expectation names fails the test: each of the four
  generated methods panics with "unexpected call" and leaves the mock as it was.
\<close>

theorem mock_unexpected_call_panics:
  assumes "\<forall>c \<in> set (ExpectedCalls mk). EMethod c \<noteq> ''Execute'' \<and> EMethod c \<noteq> ''Wait''"
    and "\<forall>c \<in> set (ExpectedCalls mg). EMethod c \<noteq> ''ForApplication'' \<and> EMethod c \<noteq> ''Page''"
  shows "Strategy_Execute ops sp mk = (Inl (UnexpectedCall ''Execute''), mk) \<and>
         Strategy_Wait i mk = (Inl (UnexpectedCall ''Wait''), mk) \<and>
         GqlFieldsProvider_ForApplication ctx mg = (Inl (UnexpectedCall ''ForApplication''), mg) \<and>
         GqlFieldsProvider_Page item mg = (Inl (UnexpectedCall ''Page''), mg)"
  using findExpectedCall_none [where m = "''Execute''" and mk = mk] findExpectedCall_none [where m = "''Wait''" and mk = mk]
    findExpectedCall_none [where m = "''ForApplication''" and mk = mg]
    findExpectedCall_none [where m = "''Page''" and mk = mg] assms
  by (simp add: Strategy_Execute_def Strategy_Wait_def GqlFieldsProvider_ForApplication_def
      GqlFieldsProvider_Page_def Called_def)

theorem mock_unexpected_call_panics_witness:
  "Strategy_Wait ''exec-1'' (empty_mock :: (nat, string) Strategy) =
     (Inl (UnexpectedCall ''Wait''), empty_mock)"
  using mock_unexpected_call_panics
    [of "empty_mock :: (nat, string) Strategy" "empty_mock :: string GqlFieldsProvider"
        "[]" "''canary''" "''exec-1''" "[]" "''page''"]
  by (simp add: empty_mock_def)

text \<open>
  C25: \<open>Times(n)\<close> bounds an expectation: with \<open>On("Page", item).Return(s).Times(n)\<close>
  the first \<open>n\<close> calls of \<open>Page(item)\<close> return \<open>s\<close> and the next one fails the test
  with "called over n times".
\<close>

theorem Page_Times_bound:
  "0 < n \<Longrightarrow>
   fst (page_calls (Suc n) item (Times (int n) (On_Return ''Page'' [Is (GItem item)] [RString s] empty_mock))) =
     replicate n (Inr s) @ [Inl (CalledOverTimes ''Page'')]"
proof -
  assume n: "0 < n"
  have eq: "Times (int n) (On_Return ''Page'' [Is (GItem item)] [RString s] empty_mock) = page_mock item s (int n) 0 []"
    by (simp add: Times_def On_Return_def empty_mock_def page_mock_def)
  show ?thesis unfolding eq by (simp only: page_calls_page_mock [OF n] fst_conv)
qed

theorem Page_Times_bound_witness:
  "fst (page_calls 3 ''p'' (Times 2 (On_Return ''Page'' [Is (GItem ''p'')] [RString ''x''] (empty_mock :: string GqlFieldsProvider)))) =
     [Inr ''x'', Inr ''x'', Inl (CalledOverTimes ''Page'')]"
  using Page_Times_bound [of 2 "''p''" "''x''"] by (simp add: numeral_eq_Suc)

text \<open>
  C26: a return value of the wrong dynamic type makes the generated method panic
  on its type assertion, but only after testify has counted and recorded the
  call: a \<open>Return(nil)\<close> for \<open>Page\<close> panics with the call already in \<open>Calls\<close>.
\<close>

theorem Page_wrong_type_records_call:
  assumes "\<forall>c \<in> set (ExpectedCalls mg). \<not> (EMethod c = ''Page'' \<and> args_match (EArgs c) [GItem item])"
  shows "GqlFieldsProvider_Page item (On_Return ''Page'' [Is (GItem item)] [RNil] mg) =
     (Inl (WrongType 0),
      mg\<lparr>ExpectedCalls := ExpectedCalls mg @
           [\<lparr>EMethod = ''Page'', EArgs = [Is (GItem item)], EReturns = [RNil], ERepeatability = 0, ETotalCalls = 1\<rparr>],
         Calls := Calls mg @ [(''Page'', [GItem item])]\<rparr>)"
  using Called_On_Return [OF assms, of "[Is (GItem item)]" "[RNil]"]
  by (simp add: GqlFieldsProvider_Page_def ret_string_def args_Get_def args_match_def)

theorem Page_wrong_type_records_call_witness:
  "Calls (snd (GqlFieldsProvider_Page ''p'' (On_Return ''Page'' [Is (GItem ''p'')] [RNil] (empty_mock :: string GqlFieldsProvider))))
     = [(''Page'', [GItem ''p''])]"
proof -
  have "\<forall>c \<in> set (ExpectedCalls (empty_mock :: string GqlFieldsProvider)).
          \<not> (EMethod c = ''Page'' \<and> args_match (EArgs c) [GItem ''p''])" by (simp add: empty_mock_def)
  from Page_wrong_type_records_call [OF this] show ?thesis by (simp add: empty_mock_def)
qed

end
