(* ===== verification/Spec2Isabelle.thy ===== *)
theory Spec2Isabelle
  imports Run_Concurrent Cleaner_Select Testify_Mocks
begin

text \<open>
  \<^bold>\<open>Provisioning of a runtime identity, with rollback.\<close>
  This development models \<open>src/components/kubeconfig-service/pkg/runtime/runtime.go\<close>,
  the only hand-written code of the repository, and the two generated mockery
  mocks under \<open>src/\<close> together with the part of testify's \<open>mock\<close> package they call.
  A transformer test file is not modelled.
  \<open>RuntimeClient.Run\<close> provisions one identity in a Kubernetes cluster. It ensures
  four objects in turn: a service account, a cluster role carrying the privilege
  level's rules, an aggregating cluster role and a binding. On the way it requests
  a token for the account. After a failed step it appends to a rollback ledger
  (\<open>RollbackE\<close>). A deferred \<open>Cleaner\<close> deletes what the ledger names, with one
  retrying goroutine per entry.

  \<^bold>\<open>Theories, in import order.\<close>
  \<^item> \<open>Prelude\<close>: the Go idioms the code relies on. These are \<open>go_index\<close> (a missing
    map key yields the zero value), \<open>go_wrapf\<close> (\<open>errors.Wrapf\<close> of nil is nil) and
    \<open>fold_errors\<close> (the receive loop of \<open>Cleaner\<close>). It also holds shared map lemmas.
  \<^item> \<open>Policy\<close>: the package constants and the tables \<open>L2L3OperatorPolicyRule\<close> and
    \<open>L2L3OperatorAggregationRule\<close> (lines 36--71), and the guard \<open>valid_role\<close>.
  \<^item> \<open>Builders\<close>: \<open>SAInfo\<close>, \<open>RuntimeClient\<close>, \<open>NewRuntimeClient\<close> (its pure part,
    and as \<open>NewRuntimeClientE\<close> with the three fallible library calls as
    parameters, lines 84--109), and the object builders \<open>init*\<close> (lines 331--397).
  \<^item> \<open>Kube_API\<close>: the backing store, modelled from the specification because
    client-go is not under \<open>src/\<close>. A \<open>world\<close> holds the three object maps, a
    fault script per object, a token counter and a journal of the calls. Every
    call consumes the head of its target's script: \<open>Some msg\<close> fails with a
    transport error, \<open>None\<close> goes through, and an empty script never fails.
  \<^item> \<open>Verifiers\<close>: the error type with one constructor per \<open>Wrapf\<close> format string,
    the deleters and the four verifiers (lines 213--317). The lemmas
    \<open>verify*_refines\<close> show that each verifier implements the abstract contract
    \<open>reconcile\<close>: keep a well-shaped object, delete a stale one, report presence.
  \<^item> \<open>Cleanup\<close>: \<open>retry_Do\<close> (retry-go with \<open>Attempts\<close> and \<open>LastErrorOnly\<close>), the
    attempt closures, the three \<open>RetryDelete*\<close> tasks and \<open>Cleaner\<close> (lines
    400--524). A task returns the errors it sends on the channel. \<open>Cleaner\<close> runs
    the tasks in ledger order, which is one schedule of the goroutines.
  \<^item> \<open>Cleanup_Concurrency\<close>: the goroutines of \<open>Cleaner\<close> at the granularity of
    single delete calls and single sends on the unbuffered error channel
    (\<open>step_proc\<close>, \<open>proc_step\<close>). \<open>cleaner_step\<close> lets the scheduler move any
    goroutine. A goroutine run alone computes its task (\<open>proc_solo_task\<close>), and
    the proof projects every schedule onto these solo runs.
  \<^item> \<open>Provision\<close>: the ensure steps \<open>create*\<close>, \<open>getServiceAccountToken\<close> and \<open>Run\<close>
    (lines 113--211, 319--329). \<open>run_exit\<close> is Run's deferred function. The
    contract \<open>ensure\<close> and the post-state \<open>provisioned_world\<close> give a successful run
    its meaning.
  \<^item> \<open>Run_Effects\<close>: a bound \<open>eff u r k t\<close> on what an operation may do to the
    store, whatever the store answers. It allows at most \<open>k\<close> calls and \<open>t\<close>
    tokens, and writes only to the identity's own four objects, each only deleted
    or set to the built object (\<open>may_write\<close>). Every operation from the client
    calls up to \<open>Run\<close> is shown to satisfy its bound, composed by \<open>eff_seq\<close>.
  \<^item> \<open>Cleaner_Select\<close>: the synchronisation of \<open>Cleaner\<close> (lines 400--446). Its
    state \<open>sel_state\<close> adds to the goroutine configuration the \<open>wg.Done()\<close> calls
    made, the \<open>WaitGroup\<close> counter, the closing of \<open>errorCh\<close> and \<open>doneCh\<close> by the
    waiter goroutine, and the return of the receive loop. \<open>sel_step\<close> interleaves
    all of them. The invariant \<open>sel_inv\<close> ties the counter to the goroutines that
    have finished.
  \<^item> \<open>Cleaner_Frame\<close>: the same kind of frame for the concurrent cleanup. Every
    move of a goroutine only deletes the identity's objects (\<open>del_only\<close>), so every
    schedule from \<open>cleaner_init\<close> does, for any ledger.
  \<^item> \<open>Run_Concurrent\<close>: \<open>Run\<close> with its deferred cleanup run as goroutines.
    \<open>Run_steps\<close> is the body of \<open>Run\<close> up to its return. \<open>Run_conc\<close> relates a
    client and a store to the outcome of every complete schedule of the cleanup.
    \<open>Run_split\<close> shows that \<open>Run\<close> is \<open>Run_steps\<close> followed by \<open>run_exit\<close>.
  \<^item> \<open>Testify_Mocks\<close>: the two mockery mocks (\<open>automock/strategy.go\<close>,
    \<open>automock/gql_fields_provider.go\<close>) over a model of testify's \<open>mock.Mock\<close>,
    taken from the specification since testify is not under \<open>src/\<close>. It covers the
    expectation table, \<open>On\<close>/\<open>Return\<close>/\<open>Times\<close>, \<open>Called\<close> (find the expectation,
    count the call, record it) and the typed getters \<open>Get\<close>/\<open>Error\<close>. A panic is
    the value \<open>Inl\<close>. Each generated method decodes its return values as the
    mockery code does: a function return is called with the arguments, and
    otherwise the value is cast.
  \<^item> This theory: the failure paths of \<open>Run\<close>, what the rollback does to the
    store, and the collision of two identities' role names.

  \<^bold>\<open>What is proved.\<close>
  Correct behaviour:
  \<^item> a run on an answering store provisions the identity (C1);
  \<^item> a run on a provisioned store only reads (C2);
  \<^item> a run enters in the ledger exactly the kinds whose ensure step completed
    before it failed: nothing, \<open>[SA]\<close> or \<open>[SA, ClusterRole]\<close> (C3);
  \<^item> a binding failure on a fresh store rolls the store back (C4);
  \<^item> each retrying task makes at most 20 (or 40) calls (C11);
  \<^item> an exhausted task reports the 20 errors and the last one (C12);
  \<^item> for a duplicate-free ledger all schedules of the goroutines agree with the
    sequential model, up to the order of errors and calls (C14);
  \<^item> the receive loop of \<open>Cleaner\<close> returns only when every goroutine has finished
    and every error sent has been received (C15), and from every reachable state
    it can still return, so the \<open>WaitGroup\<close> and the two channels cannot deadlock
    (C16);
  \<^item> on every store and ledger, \<open>Run\<close> writes only the identity's own objects, and
    only as built (C18). It makes at most \<open>72 + 40 * n\<close> calls for a ledger of
    length \<open>n\<close>, and issues at most one token (C19);
  \<^item> the account task deletes the account when fewer than 20 deletes fail (C20);
  \<^item> \<open>NewRuntimeClient\<close> returns the first failing library call's error, and succeeds
    only if all three succeed (C21);
  \<^item> the mocks return what was programmed with \<open>On\<close>/\<open>Return\<close> and record the call
    (C22, C23), panic on a call nothing expects (C24), honour \<open>Times\<close> (C25) and
    panic on a return value of the wrong type (C26);
  \<^item> every schedule of the cleanup goroutines, for any ledger, only deletes the
    identity's own objects, only extends the journal and issues no token (C28);
  \<^item> under every schedule of the cleanup goroutines, \<open>Run\<close> with its concurrent
    cleanup writes only the identity's own objects, as built (C29).

  Defects of the code, each proved as the exact behaviour:
  \<^item> the role task leaks the rules role when the aggregating role is missing (C5);
  \<^item> Cleaner's error never reaches Run's caller (C6);
  \<^item> an invalid privilege level is checked only after the account is written (C7),
    and it deletes an account that existed before (C8);
  \<^item> the ledger is never cleared, so a reused client deletes the account of the
    token it returns (C9);
  \<^item> a failed run tears down an earlier provisioning and leaves a dangling binding
    (C10);
  \<^item> a rollback that succeeds on retry is reported as failed (C13);
  \<^item> a duplicated ledger entry makes the reported errors depend on the schedule
    and can report an account as still existing after it was deleted (C17);
  \<^item> the names of two identities collide: provisioning user \<open>u-rules\<close> replaces
    user \<open>u\<close>'s rules role with its own aggregating role (C27).

  \<^bold>\<open>Bounds.\<close> \<open>retry_Do\<close> recurses on the attempt count, so every task is total.
  The count is \<open>retry_attempts = 20\<close>, the source's \<open>retry.Attempts(20)\<close>. No fuel
  is needed: every loop of the code is bounded by a list or by this count.

  \<^bold>\<open>Not modelled.\<close>
  \<^item> the 15-second retry delay and logging: they change timing and output, not the
    store;
  \<^item> the internals of the three library calls of \<open>NewRuntimeClient\<close>
    (kubeconfig parsing, clientset construction). They are configuration I/O and
    appear only as the parameters of \<open>NewRuntimeClientE\<close>;
  \<^item> the transformer test under \<open>src/\<close>: it is a test, and it has no code of its own
    to model;
  \<^item> in the mocks, testify's argument diffing, its logging and its
    \<open>WaitUntil\<close>/\<open>After\<close> delays. They only shape messages and timing, and the
    generated code does not set them.
\<close>

section \<open>Scenarios\<close>

text \<open>None of the identity's four objects exists in the store.\<close>

definition fresh_for :: "SAInfo \<Rightarrow> world \<Rightarrow> bool" where
  "fresh_for user w \<longleftrightarrow>
     service_accounts w (Namespace user, ServiceAccountName user) = None \<and>
     cluster_roles w (ClusterRoleRulesName user) = None \<and>
     cluster_roles w (ClusterRoleName user) = None \<and>
     cluster_role_bindings w (ClusterRoleBindingName user) = None"

section \<open>Rollback after a failed step\<close>

text \<open>
  C4: when the binding cannot be created on a store where none of the identity's
  objects existed, the run fails with the binding error, the ledger holds
  \<open>[SA, ClusterRole]\<close>, the cleanup deletes the service account and both roles,
  and no deletion of the binding (which was never created) is attempted: the
  store is back to what it was, with one token issued.
\<close>

theorem Run_binding_failure_rolls_back:
  assumes "valid_role r" "fresh_for (newSAInfo uid t) w"
    and "faults w = (\<lambda>_. [])(TClusterRoleBinding uid := [None, Some m])"
  shows "Run (NewRuntimeClient uid r t e) w =
    (Inl (Wrapf (WhileCreateClusterRoleBinding uid) (ApiError (Failure m))),
     (NewRuntimeClient uid r t e)\<lparr>RollbackE := [SA, ClusterRole]\<rparr>,
     w\<lparr>faults := (\<lambda>_. []), issued := Suc (issued w),
       journal := journal w @
         [Get (TServiceAccount Namespace_const uid), Create (TServiceAccount Namespace_const uid),
          Get (TClusterRole (uid @ ''-rules'')), Create (TClusterRole (uid @ ''-rules'')),
          Get (TClusterRole uid), Create (TClusterRole uid), CreateToken Namespace_const uid e,
          Get (TClusterRoleBinding uid), Create (TClusterRoleBinding uid),
          Delete (TServiceAccount Namespace_const uid), Delete (TClusterRole uid),
          Delete (TClusterRole (uid @ ''-rules''))]\<rparr>)"
  using assms
  by (simp add: Run_def run_exit_def NewRuntimeClient_def fresh_for_def newSAInfo_def
      createServiceAccount_clean createClusterRoleRules_clean createClusterRole_clean
      getServiceAccountToken_clean createClusterRoleBinding_create_fault ensure_absent
      Cleaner_def RetryDeleteServiceAccount_clean RetryDeleteClusterRoles_clean map_delete_absent
      fun_upd_twist)

theorem Run_binding_failure_rolls_back_witness:
  "valid_role ''runtimeOperator'' \<and>
   fresh_for (newSAInfo ''alice'' ''tenant-1'') (empty_world (\<lambda>_. ''tok'')) \<and>
   faults ((empty_world (\<lambda>_. ''tok''))\<lparr>faults := (\<lambda>_. [])(TClusterRoleBinding ''alice'' := [None, Some ''timeout''])\<rparr>)
     = (\<lambda>_. [])(TClusterRoleBinding ''alice'' := [None, Some ''timeout'']) \<and>
   (let w' = snd (snd (Run (NewRuntimeClient ''alice'' ''runtimeOperator'' ''tenant-1'' 3600)
                ((empty_world (\<lambda>_. ''tok''))\<lparr>faults := (\<lambda>_. [])(TClusterRoleBinding ''alice'' := [None, Some ''timeout''])\<rparr>)))
    in service_accounts w' = Map.empty \<and> cluster_roles w' = Map.empty \<and> cluster_role_bindings w' = Map.empty)"
proof -
  let ?w = "(empty_world (\<lambda>_. ''tok''))\<lparr>faults := (\<lambda>_. [])(TClusterRoleBinding ''alice'' := [None, Some ''timeout''])\<rparr>"
  have v: "valid_role ''runtimeOperator''" by (simp add: valid_role_def const_defs)
  have f: "fresh_for (newSAInfo ''alice'' ''tenant-1'') ?w" by (simp add: fresh_for_def empty_world_def)
  have s: "faults ?w = (\<lambda>_. [])(TClusterRoleBinding ''alice'' := [None, Some ''timeout''])" by simp
  show ?thesis
    using Run_binding_failure_rolls_back [OF v f s, of 3600] v f
    by (simp add: fresh_for_def empty_world_def)
qed

text \<open>
  C5 (a defect of \<open>RetryDeleteClusterRoles\<close>): when the aggregating role cannot
  be created, the ledger holds \<open>[SA, ClusterRole]\<close>, but the role task deletes
  the aggregating role first, gets "not found", and returns nil from the attempt
  before it reaches the rules role. The run fails, the service account is
  removed, and the rules role created by this run stays in the store.
\<close>

theorem Run_role_failure_leaks_rules_role:
  assumes "valid_role r" "fresh_for (newSAInfo uid t) w"
    and "faults w = (\<lambda>_. [])(TClusterRole uid := [None, Some m])"
  shows "Run (NewRuntimeClient uid r t e) w =
    (Inl (Wrapf (WhileCreateClusterRole uid) (ApiError (Failure m))),
     (NewRuntimeClient uid r t e)\<lparr>RollbackE := [SA, ClusterRole]\<rparr>,
     w\<lparr>cluster_roles := (cluster_roles w)(uid @ ''-rules'' \<mapsto>
          initClusterRoleRules (uid @ ''-rules'') r (''rbac.authorization.k8s.io/aggregate-to-'' @ uid)),
       faults := (\<lambda>_. []),
       journal := journal w @
         [Get (TServiceAccount Namespace_const uid), Create (TServiceAccount Namespace_const uid),
          Get (TClusterRole (uid @ ''-rules'')), Create (TClusterRole (uid @ ''-rules'')),
          Get (TClusterRole uid), Create (TClusterRole uid),
          Delete (TServiceAccount Namespace_const uid), Delete (TClusterRole uid)]\<rparr>)"
  using assms
  by (simp add: Run_def run_exit_def NewRuntimeClient_def fresh_for_def newSAInfo_def
      createServiceAccount_clean createClusterRoleRules_clean createClusterRole_create_fault ensure_absent
      Cleaner_def RetryDeleteServiceAccount_clean RetryDeleteClusterRoles_clean map_delete_absent)

theorem Run_role_failure_leaks_rules_role_witness:
  "valid_role ''runtimeOperator'' \<and>
   fresh_for (newSAInfo ''alice'' ''tenant-1'') (empty_world (\<lambda>_. ''tok'')) \<and>
   cluster_roles (snd (snd (Run (NewRuntimeClient ''alice'' ''runtimeOperator'' ''tenant-1'' 3600)
       ((empty_world (\<lambda>_. ''tok''))\<lparr>faults := (\<lambda>_. [])(TClusterRole ''alice'' := [None, Some ''conflict''])\<rparr>))))
     ''alice-rules'' \<noteq> None"
proof -
  let ?w = "(empty_world (\<lambda>_. ''tok''))\<lparr>faults := (\<lambda>_. [])(TClusterRole ''alice'' := [None, Some ''conflict''])\<rparr>"
  have v: "valid_role ''runtimeOperator''" by (simp add: valid_role_def const_defs)
  have f: "fresh_for (newSAInfo ''alice'' ''tenant-1'') ?w" by (simp add: fresh_for_def empty_world_def)
  have s: "faults ?w = (\<lambda>_. [])(TClusterRole ''alice'' := [None, Some ''conflict''])" by simp
  show ?thesis
    using Run_role_failure_leaks_rules_role [OF v f s, of 3600] v f
    by (simp add: fresh_for_def empty_world_def)
qed

text \<open>
  C6: the deferred cleanup's error never reaches the caller. When the binding
  cannot be created and every delete of the service account fails, the run
  returns exactly the binding error, as if the rollback had worked, while the
  service account created by this run is still in the store.
\<close>

theorem Run_drops_cleanup_error:
  assumes "valid_role r" "fresh_for (newSAInfo uid t) w"
    and "faults w = (\<lambda>_. [])(TServiceAccount Namespace_const uid := [None, None] @ replicate 20 (Some m'),
                             TClusterRoleBinding uid := [None, Some m])"
  shows "fst (Run (NewRuntimeClient uid r t e) w) =
           Inl (Wrapf (WhileCreateClusterRoleBinding uid) (ApiError (Failure m))) \<and>
         service_accounts (snd (snd (Run (NewRuntimeClient uid r t e) w))) (Namespace_const, uid) =
           Some (initServiceAccount (newSAInfo uid t))"
  using assms
  by (simp add: Run_def run_exit_eq NewRuntimeClient_def fresh_for_def newSAInfo_def
      createServiceAccount_pass createClusterRoleRules_clean createClusterRole_clean
      getServiceAccountToken_clean createClusterRoleBinding_create_fault ensure_absent
      Cleaner_def RetryDeleteServiceAccount_def retry_task_def retry_attempts_def
      retry_Do_sa_exhausted [where fs = "[]", simplified] RetryDeleteClusterRoles_clean Let_def)

theorem Run_drops_cleanup_error_witness:
  "fst (Run (NewRuntimeClient ''alice'' ''runtimeAdmin'' ''tenant-1'' 3600)
      ((empty_world (\<lambda>_. ''tok''))\<lparr>faults := (\<lambda>_. [])(TServiceAccount ''kube-system'' ''alice'' :=
          [None, None] @ replicate 20 (Some ''forbidden''), TClusterRoleBinding ''alice'' := [None, Some ''timeout''])\<rparr>)) =
     Inl (Wrapf (WhileCreateClusterRoleBinding ''alice'') (ApiError (Failure ''timeout''))) \<and>
   service_accounts (snd (snd (Run (NewRuntimeClient ''alice'' ''runtimeAdmin'' ''tenant-1'' 3600)
      ((empty_world (\<lambda>_. ''tok''))\<lparr>faults := (\<lambda>_. [])(TServiceAccount ''kube-system'' ''alice'' :=
          [None, None] @ replicate 20 (Some ''forbidden''), TClusterRoleBinding ''alice'' := [None, Some ''timeout''])\<rparr>))))
     (''kube-system'', ''alice'') = Some (initServiceAccount (newSAInfo ''alice'' ''tenant-1''))"
proof -
  let ?w = "(empty_world (\<lambda>_. ''tok''))\<lparr>faults := (\<lambda>_. [])(TServiceAccount ''kube-system'' ''alice'' :=
          [None, None] @ replicate 20 (Some ''forbidden''), TClusterRoleBinding ''alice'' := [None, Some ''timeout''])\<rparr>"
  have v: "valid_role ''runtimeAdmin''" by (simp add: valid_role_def const_defs)
  have f: "fresh_for (newSAInfo ''alice'' ''tenant-1'') ?w" by (simp add: fresh_for_def empty_world_def)
  have s: "faults ?w = (\<lambda>_. [])(TServiceAccount Namespace_const ''alice'' :=
          [None, None] @ replicate 20 (Some ''forbidden''), TClusterRoleBinding ''alice'' := [None, Some ''timeout''])"
    by (simp add: Namespace_const_def)
  show ?thesis
    using Run_drops_cleanup_error [OF v f s, of 3600] by (simp add: Namespace_const_def)
qed

text \<open>
  C7: a privilege level outside the two known ones is rejected only after the
  service account has been ensured: on a store without the account, the run
  creates it and the rollback deletes it again, so the rejected request still
  writes to the store twice. The error names the aggregating role's step.
\<close>

theorem Run_invalid_role_writes:
  assumes "\<not> valid_role r" "faults w = (\<lambda>_. [])"
    and "service_accounts w (Namespace_const, uid) = None"
  shows "Run (NewRuntimeClient uid r t e) w =
    (Inl (Wrapf (WhileCreateClusterRole uid) (RoleNotIn r)),
     (NewRuntimeClient uid r t e)\<lparr>RollbackE := [SA]\<rparr>,
     w\<lparr>journal := journal w @ [Get (TServiceAccount Namespace_const uid),
                              Create (TServiceAccount Namespace_const uid),
                              Delete (TServiceAccount Namespace_const uid)]\<rparr>)"
proof -
  have "Run (NewRuntimeClient uid r t e) w =
    (Inl (Wrapf (WhileCreateClusterRole uid) (RoleNotIn r)),
     (NewRuntimeClient uid r t e)\<lparr>RollbackE := [SA]\<rparr>,
     w\<lparr>service_accounts := (service_accounts w)((Namespace_const, uid) := None),
       journal := journal w @ ensure_calls (\<lambda>_. True) (service_accounts w) (Namespace_const, uid)
                    (TServiceAccount Namespace_const uid) @ [Delete (TServiceAccount Namespace_const uid)]\<rparr>)"
    using Run_invalid_role_general [of "NewRuntimeClient uid r t e" w] assms
    by (simp add: NewRuntimeClient_def newSAInfo_def)
  then show ?thesis
    using assms(3) by (simp add: ensure_absent map_delete_absent)
qed

theorem Run_invalid_role_writes_witness:
  "\<not> valid_role ''runtimeViewer'' \<and>
   snd (snd (Run (NewRuntimeClient ''alice'' ''runtimeViewer'' ''t'' 60) (empty_world (\<lambda>_. ''tok'')))) =
     (empty_world (\<lambda>_. ''tok''))\<lparr>journal := [Get (TServiceAccount ''kube-system'' ''alice''),
        Create (TServiceAccount ''kube-system'' ''alice''), Delete (TServiceAccount ''kube-system'' ''alice'')]\<rparr>"
proof -
  have v: "\<not> valid_role ''runtimeViewer''" by (simp add: valid_role_def const_defs)
  show ?thesis
    using Run_invalid_role_writes [OF v, of "empty_world (\<lambda>_. ''tok'')" "''alice''" "''t''" 60] v
    by (simp add: empty_world_def Namespace_const_def)
qed

text \<open>
  C8: a request with an unknown privilege level for a user whose service account
  already exists (an earlier provisioning) deletes that account: the ledger entry
  \<open>SA\<close> is added whether or not this run created the account.
\<close>

theorem Run_invalid_role_deletes_existing_account:
  assumes "\<not> valid_role r" "faults w = (\<lambda>_. [])"
    and "service_accounts w (Namespace_const, uid) \<noteq> None"
  shows "Run (NewRuntimeClient uid r t e) w =
    (Inl (Wrapf (WhileCreateClusterRole uid) (RoleNotIn r)),
     (NewRuntimeClient uid r t e)\<lparr>RollbackE := [SA]\<rparr>,
     w\<lparr>service_accounts := (service_accounts w)((Namespace_const, uid) := None),
       journal := journal w @ [Get (TServiceAccount Namespace_const uid),
                              Delete (TServiceAccount Namespace_const uid)]\<rparr>)"
proof -
  have "Run (NewRuntimeClient uid r t e) w =
    (Inl (Wrapf (WhileCreateClusterRole uid) (RoleNotIn r)),
     (NewRuntimeClient uid r t e)\<lparr>RollbackE := [SA]\<rparr>,
     w\<lparr>service_accounts := (service_accounts w)((Namespace_const, uid) := None),
       journal := journal w @ ensure_calls (\<lambda>_. True) (service_accounts w) (Namespace_const, uid)
                    (TServiceAccount Namespace_const uid) @ [Delete (TServiceAccount Namespace_const uid)]\<rparr>)"
    using Run_invalid_role_general [of "NewRuntimeClient uid r t e" w] assms
    by (simp add: NewRuntimeClient_def newSAInfo_def)
  then show ?thesis
    using assms(3) by (auto simp: ensure_calls_def reconcile_def reconcile_calls_def)
qed

theorem Run_invalid_role_deletes_existing_account_witness:
  "\<not> valid_role ''admin'' \<and>
   service_accounts (snd (snd (Run (NewRuntimeClient ''alice'' ''admin'' ''t'' 60)
      ((empty_world (\<lambda>_. ''tok''))\<lparr>service_accounts :=
          [(''kube-system'', ''alice'') \<mapsto> initServiceAccount (newSAInfo ''alice'' ''t'')]\<rparr>))))
     (''kube-system'', ''alice'') = None"
proof -
  have v: "\<not> valid_role ''admin''" by (simp add: valid_role_def const_defs)
  show ?thesis
    using Run_invalid_role_deletes_existing_account [OF v,
        of "(empty_world (\<lambda>_. ''tok''))\<lparr>service_accounts :=
          [(''kube-system'', ''alice'') \<mapsto> initServiceAccount (newSAInfo ''alice'' ''t'')]\<rparr>" "''alice''" "''t''" 60] v
    by (simp add: empty_world_def Namespace_const_def)
qed

text \<open>
  C9: the ledger of a client is never cleared. A client that is run again after a
  run that failed past the service-account step still carries the \<open>SA\<close> entry,
  so a second run that succeeds at every step still deletes the service account
  in its deferred cleanup: it returns a token for an account that no longer exists.
\<close>

theorem Run_stale_ledger_deletes_account:
  assumes "valid_role (L2L3OperatiorRole rtc)" "healthy (User rtc) w" "RollbackE rtc = [SA]"
  shows "fst (Run rtc w) = Inr (token_source w (issued w)) \<and>
         service_accounts (snd (snd (Run rtc w))) (Namespace (User rtc), ServiceAccountName (User rtc)) = None"
  using assms
  by (simp add: Run_healthy_ledger Cleaner_def RetryDeleteServiceAccount_clean
      healthy_def user_targets_def provisioned_world_def Let_def)

theorem Run_stale_ledger_deletes_account_witness:
  "fst (Run ((NewRuntimeClient ''alice'' ''runtimeAdmin'' ''t'' 60)\<lparr>RollbackE := [SA]\<rparr>) (empty_world (\<lambda>_. ''tok''))) =
     Inr ''tok'' \<and>
   service_accounts (snd (snd (Run ((NewRuntimeClient ''alice'' ''runtimeAdmin'' ''t'' 60)\<lparr>RollbackE := [SA]\<rparr>)
     (empty_world (\<lambda>_. ''tok''))))) (''kube-system'', ''alice'') = None"
proof -
  let ?c = "(NewRuntimeClient ''alice'' ''runtimeAdmin'' ''t'' 60)\<lparr>RollbackE := [SA]\<rparr>"
  have v: "valid_role (L2L3OperatiorRole ?c)"
    by (simp add: NewRuntimeClient_def valid_role_def const_defs)
  have h: "healthy (User ?c) (empty_world (\<lambda>_. ''tok''))"
    by (simp add: healthy_def empty_world_def)
  show ?thesis
    using Run_stale_ledger_deletes_account [OF v h]
    by (simp add: NewRuntimeClient_def newSAInfo_def empty_world_def Namespace_const_def)
qed

text \<open>
  C10: a failed run on a store that an earlier run provisioned tears that
  provisioning down. The ledger records the account and both roles although this
  run found them and created none of them; the cleanup deletes all three and
  keeps the binding, which is left referring to a role that no longer exists.
\<close>

theorem Run_failure_deletes_previous_provisioning:
  assumes "valid_role r" "provisioned (NewRuntimeClient uid r t e) w"
    and "faults w = (\<lambda>_. [])(TTokenRequest Namespace_const uid := [Some m])"
  shows "fst (Run (NewRuntimeClient uid r t e) w) =
           Inl (Wrapf (WhileGetServiceAccountToken uid) (ApiError (Failure m))) \<and>
         service_accounts (snd (snd (Run (NewRuntimeClient uid r t e) w))) (Namespace_const, uid) = None \<and>
         cluster_roles (snd (snd (Run (NewRuntimeClient uid r t e) w))) uid = None \<and>
         cluster_roles (snd (snd (Run (NewRuntimeClient uid r t e) w))) (uid @ ''-rules'') = None \<and>
         cluster_role_bindings (snd (snd (Run (NewRuntimeClient uid r t e) w))) uid =
           cluster_role_bindings w uid"
proof -
  let ?c = "NewRuntimeClient uid r t e"
  obtain sa cr1 cr2 where sa: "service_accounts w (Namespace_const, uid) = Some sa"
    and r1: "cluster_roles w (uid @ ''-rules'') = Some cr1" "rules_ok ?c cr1"
    and r2: "cluster_roles w uid = Some cr2" "role_ok ?c cr2"
    using assms(2) by (auto simp: provisioned_def Let_def NewRuntimeClient_def newSAInfo_def split: option.splits)
  show ?thesis
    using assms(1,3) sa r1 r2
    by (simp add: Run_def run_exit_eq NewRuntimeClient_def newSAInfo_def Let_def
        createServiceAccount_clean createClusterRoleRules_clean createClusterRole_clean
        getServiceAccountToken_fault ensure_satisfied rules_ok_def role_ok_def
        Cleaner_def RetryDeleteServiceAccount_clean RetryDeleteClusterRoles_clean)
qed

theorem Run_failure_deletes_previous_provisioning_witness:
  "fst (Run (NewRuntimeClient ''alice'' ''runtimeOperator'' ''t'' 60)
     ((provisioned_world (NewRuntimeClient ''alice'' ''runtimeOperator'' ''t'' 60) (empty_world (\<lambda>_. ''tok'')))
        \<lparr>faults := (\<lambda>_. [])(TTokenRequest ''kube-system'' ''alice'' := [Some ''quota''])\<rparr>)) =
     Inl (Wrapf (WhileGetServiceAccountToken ''alice'') (ApiError (Failure ''quota''))) \<and>
   cluster_roles (snd (snd (Run (NewRuntimeClient ''alice'' ''runtimeOperator'' ''t'' 60)
     ((provisioned_world (NewRuntimeClient ''alice'' ''runtimeOperator'' ''t'' 60) (empty_world (\<lambda>_. ''tok'')))
        \<lparr>faults := (\<lambda>_. [])(TTokenRequest ''kube-system'' ''alice'' := [Some ''quota''])\<rparr>)))) ''alice'' = None"
proof -
  let ?c = "NewRuntimeClient ''alice'' ''runtimeOperator'' ''t'' 60"
  let ?w = "(provisioned_world ?c (empty_world (\<lambda>_. ''tok'')))
        \<lparr>faults := (\<lambda>_. [])(TTokenRequest ''kube-system'' ''alice'' := [Some ''quota''])\<rparr>"
  have v: "valid_role ''runtimeOperator''" by (simp add: valid_role_def const_defs)
  have p: "provisioned ?c ?w"
    using provisioned_world_provisioned [of ?c "empty_world (\<lambda>_. ''tok'')"]
    by (simp add: provisioned_def NewRuntimeClient_def)
  have f: "faults ?w = (\<lambda>_. [])(TTokenRequest Namespace_const ''alice'' := [Some ''quota''])"
    by (simp add: Namespace_const_def)
  show ?thesis
    using Run_failure_deletes_previous_provisioning [OF v p f] by simp
qed

text \<open>An ensure step replaces an object that fails its check by the built one.\<close>

lemma ensure_stale: "m k = Some x \<Longrightarrow> \<not> ok x \<Longrightarrow> ensure ok m k ob k = Some ob"
  by (simp add: ensure_def reconcile_def)

section \<open>Identities whose names collide\<close>

text \<open>
  C27: the derived names of two identities can coincide, and \<open>Run\<close> then
  destroys another identity's role. The aggregating role of user
  \<open>uid @ ''-rules''\<close> has the name of \<open>uid\<close>'s rules role. A run for that user finds
  \<open>uid\<close>'s rules role, fails its verifier because it has no aggregation rule,
  deletes it and creates its own aggregating role in its place. It does so on any
  store that answers and at any valid level. \<open>uid\<close>'s aggregating role then selects
  nothing that carries \<open>uid\<close>'s rules.
\<close>

theorem Run_replaces_other_identity_rules_role:
  assumes "valid_role r'" "healthy (newSAInfo (uid @ ''-rules'') t') w"
    and "cluster_roles w (ClusterRoleRulesName (newSAInfo uid t)) = Some cr" "AggregationRule cr = None"
  shows "cluster_roles (snd (snd (Run (NewRuntimeClient (uid @ ''-rules'') r' t' e) w)))
           (ClusterRoleRulesName (newSAInfo uid t)) =
         Some (initClusterRole (uid @ ''-rules'') r' (ClusterRoleAggrLabel (newSAInfo (uid @ ''-rules'') t')))"
proof -
  let ?rtc = "NewRuntimeClient (uid @ ''-rules'') r' t' e" and ?u = "newSAInfo (uid @ ''-rules'') t'"
  have u: "User ?rtc = ?u" "L2L3OperatiorRole ?rtc = r'" "RollbackE ?rtc = []"
    by (simp_all add: NewRuntimeClient_def)
  have run: "snd (snd (Run ?rtc w)) = provisioned_world ?rtc w"
    using Run_healthy [of ?rtc w] assms(1,2) u by simp
  have an: "ClusterRoleRulesName (newSAInfo uid t) = ClusterRoleName ?u"
    by (rule rules_name_collides [symmetric])
  have stale: "\<not> role_ok ?rtc cr"
    using assms(4) by (simp add: role_ok_def selectors_match_def)
  have "cluster_roles (provisioned_world ?rtc w) (ClusterRoleName ?u) =
        Some (initClusterRole (ClusterRoleName ?u) r' (ClusterRoleAggrLabel ?u))"
    using assms(3) stale unfolding an by (simp add: provisioned_world_def Let_def u ensure_stale)
  then show ?thesis
    unfolding run an by (simp add: newSAInfo_def)
qed

theorem Run_replaces_other_identity_rules_role_witness:
  "cluster_roles (snd (snd (Run (NewRuntimeClient ''alice-rules'' ''runtimeOperator'' ''t2'' 60)
      ((empty_world (\<lambda>_. ''tok''))\<lparr>cluster_roles :=
         [''alice-rules'' \<mapsto> initClusterRoleRules ''alice-rules'' ''runtimeAdmin'' ''rbac.authorization.k8s.io/aggregate-to-alice'']\<rparr>))))
      ''alice-rules'' =
   Some (initClusterRole ''alice-rules'' ''runtimeOperator'' ''rbac.authorization.k8s.io/aggregate-to-alice-rules'')"
  using Run_replaces_other_identity_rules_role
    [of "''runtimeOperator''" "''alice''" "''t2''"
        "(empty_world (\<lambda>_. ''tok''))\<lparr>cluster_roles :=
           [''alice-rules'' \<mapsto> initClusterRoleRules ''alice-rules'' ''runtimeAdmin'' ''rbac.authorization.k8s.io/aggregate-to-alice'']\<rparr>"
        "''t''" "initClusterRoleRules ''alice-rules'' ''runtimeAdmin'' ''rbac.authorization.k8s.io/aggregate-to-alice''" 60]
  by (simp add: valid_role_def const_defs healthy_def user_targets_def empty_world_def newSAInfo_def
      initClusterRoleRules_def)

end
